theory Spec2Isabelle
  imports Complex_Main "HOL-Library.Word" "HOL-Library.Monad_Syntax"
begin

unbundle bit_operations_syntax

section \<open>Numbers and the helpers of game.js\<close>

text \<open>
  The numbers of game.js are modelled as the reals: \<open>+\<close>, \<open>-\<close>, \<open>*\<close> and \<open>/\<close> are exact,
  \<open>Math.hypot\<close> is the Euclidean norm, and there are no infinities, no NaN and no signed
  zero. A division whose divisor may be zero is written out at the place where it occurs.
\<close>

text \<open>\<open>const clamp = (v, min, max) => Math.max(min, Math.min(max, v));\<close>\<close>

definition clamp :: "real \<Rightarrow> real \<Rightarrow> real \<Rightarrow> real" where
  "clamp v lo hi = max lo (min hi v)"

text \<open>\<open>const lerp = (a, b, t) => a + (b - a) * t;\<close>\<close>

definition lerp :: "real \<Rightarrow> real \<Rightarrow> real \<Rightarrow> real" where
  "lerp a b t = a + (b - a) * t"

text \<open>\<open>const degToRad = (deg) => (deg * Math.PI) / 180;\<close>\<close>

definition degToRad :: "real \<Rightarrow> real" where
  "degToRad deg = (deg * pi) / 180"

text \<open>\<open>Math.hypot(x, y)\<close>\<close>

definition hypot :: "real \<Rightarrow> real \<Rightarrow> real" where
  "hypot x y = sqrt (x * x + y * y)"

text \<open>\<open>Math.atan2(y, x)\<close>, the angle of the point \<open>(x, y)\<close> in \<open>(-\<pi>, \<pi>]\<close>; at the origin it is 0.\<close>

definition atan2 :: "real \<Rightarrow> real \<Rightarrow> real" where
  "atan2 y x =
     (if 0 < x then arctan (y / x)
      else if x < 0 then (if 0 \<le> y then arctan (y / x) + pi else arctan (y / x) - pi)
      else if 0 < y then pi / 2
      else if y < 0 then - (pi / 2)
      else 0)"

text \<open>\<open>v || d\<close> on a number \<open>v\<close>: zero is falsy.\<close>

definition orNum :: "real \<Rightarrow> real \<Rightarrow> real" where
  "orNum v d = (if v = 0 then d else v)"

section \<open>Collision kernel\<close>

record point =
  px :: real
  py :: real

text \<open>
  \<open>circleCircleCollision(a, b, r)\<close>: \<open>a\<close> and \<open>b\<close> are objects with fields \<open>x\<close> and \<open>y\<close>,
  \<open>r\<close> is the sum of the two radii.
\<close>

definition circleCircleCollision :: "point \<Rightarrow> point \<Rightarrow> real \<Rightarrow> bool" where
  "circleCircleCollision a b r =
     (let dx = px a - px b; dy = py a - py b
      in dx * dx + dy * dy < r * r)"

text \<open>
  \<open>resolveCircleCollision(a, b, r)\<close>: \<open>dist = Math.hypot(dx, dy) || 1\<close>, so a zero
  distance is replaced by the divisor 1.
\<close>

definition resolveCircleCollision :: "point \<Rightarrow> point \<Rightarrow> real \<Rightarrow> point" where
  "resolveCircleCollision a b r =
     (let dx = px a - px b; dy = py a - py b;
          dist = orNum (hypot dx dy) 1;
          overlap = r - dist
      in \<lparr> px = dx / dist * overlap, py = dy / dist * overlap \<rparr>)"

text \<open>\<open>circleRectCollision(cx, cy, r, rx, ry, rw, rh)\<close>\<close>

definition circleRectCollision ::
  "real \<Rightarrow> real \<Rightarrow> real \<Rightarrow> real \<Rightarrow> real \<Rightarrow> real \<Rightarrow> real \<Rightarrow> bool" where
  "circleRectCollision cx cy r rx ry rw rh =
     (let nearestX = clamp cx rx (rx + rw);
          nearestY = clamp cy ry (ry + rh);
          dx = cx - nearestX; dy = cy - nearestY
      in dx * dx + dy * dy < r * r)"

text \<open>\<open>resolveCircleRect(cx, cy, r, rx, ry, rw, rh)\<close>\<close>

definition resolveCircleRect ::
  "real \<Rightarrow> real \<Rightarrow> real \<Rightarrow> real \<Rightarrow> real \<Rightarrow> real \<Rightarrow> real \<Rightarrow> point" where
  "resolveCircleRect cx cy r rx ry rw rh =
     (let nearestX = clamp cx rx (rx + rw);
          nearestY = clamp cy ry (ry + rh);
          dx = cx - nearestX; dy = cy - nearestY;
          dist = orNum (hypot dx dy) 1;
          overlap = r - dist
      in \<lparr> px = (dx / dist) * overlap, py = (dy / dist) * overlap \<rparr>)"

text \<open>
  \<open>segmentIntersect(x1, y1, x2, y2, x3, y3, x4, y4)\<close>; the divisions are reached only
  with \<open>den \<noteq> 0\<close>.
\<close>

definition segmentIntersect ::
  "real \<Rightarrow> real \<Rightarrow> real \<Rightarrow> real \<Rightarrow> real \<Rightarrow> real \<Rightarrow> real \<Rightarrow> real \<Rightarrow> bool" where
  "segmentIntersect x1 y1 x2 y2 x3 y3 x4 y4 =
     (let den = (x1 - x2) * (y3 - y4) - (y1 - y2) * (x3 - x4)
      in if den = 0 then False
         else (let t = ((x1 - x3) * (y3 - y4) - (y1 - y3) * (x3 - x4)) / den;
                   u = - ((x1 - x2) * (y1 - y3) - (y1 - y2) * (x1 - x3)) / den
               in 0 \<le> t \<and> t \<le> 1 \<and> 0 \<le> u \<and> u \<le> 1))"

text \<open>The vehicle circle after the translation \<open>car.x += push.x; car.y += push.y\<close>.\<close>

definition translate :: "point \<Rightarrow> point \<Rightarrow> point" where
  "translate c push = \<lparr> px = px c + px push, py = py c + py push \<rparr>"

section \<open>Strings\<close>

text \<open>
  Strings are lists of 8-bit characters, read as the code points below 256.
  \<open>toLowerCase\<close> maps the letters A to Z and the capital letters of Latin-1 (\<open>U+00C0\<close>
  to \<open>U+00DE\<close> without the multiplication sign \<open>U+00D7\<close>) to the letter 32 places
  further on.
\<close>

definition lowerChar :: "char \<Rightarrow> char" where
  "lowerChar c =
     (let n = (of_char c :: nat)
      in if (65 \<le> n \<and> n \<le> 90) \<or> (192 \<le> n \<and> n \<le> 222 \<and> n \<noteq> 215) then char_of (n + 32)
         else c)"

definition toLowerCase :: "string \<Rightarrow> string" where
  "toLowerCase s = map lowerChar s"

text \<open>\<open>s.includes(sub)\<close>\<close>

fun strIncludes :: "string \<Rightarrow> string \<Rightarrow> bool" where
  "strIncludes [] sub = (sub = [])"
| "strIncludes (c # cs) sub = (take (length sub) (c # cs) = sub \<or> strIncludes cs sub)"

section \<open>JSON values\<close>

text \<open>
  A parsed JSON text, as \<open>res.json()\<close> delivers it. An object lists its members in the
  order of the text. The value of a variable that holds such a value or \<open>undefined\<close> is a
  \<open>json option\<close>, with \<open>None\<close> for \<open>undefined\<close>.
\<close>

datatype json =
    JNull
  | JBool bool
  | JNum real
  | JStr string
  | JArr "json list"
  | JObj "(string \<times> json) list"

text \<open>
  \<open>v.k\<close> for a value \<open>v\<close> other than \<open>null\<close> and a name \<open>k\<close> that loadTiledMap reads:
  the member of an object (the last one, if the text repeats the name, as \<open>JSON.parse\<close>
  has it), and \<open>undefined\<close> if the object has no such member or \<open>v\<close> is a number, a
  string, a boolean or an array. On \<open>null\<close> the read throws a TypeError; the functions
  below test for \<open>null\<close> where the code reads the first property of a value.
\<close>

definition member :: "json \<Rightarrow> string \<Rightarrow> json option" where
  "member v k = (case v of JObj kvs \<Rightarrow> map_of (rev kvs) k | _ \<Rightarrow> None)"

text \<open>The values that count as true in \<open>if (v)\<close>, \<open>!v\<close>, \<open>v || d\<close> and \<open>v && w\<close>.\<close>

fun truthy :: "json option \<Rightarrow> bool" where
  "truthy None = False"
| "truthy (Some JNull) = False"
| "truthy (Some (JBool b)) = b"
| "truthy (Some (JNum n)) = (n \<noteq> 0)"
| "truthy (Some (JStr s)) = (s \<noteq> [])"
| "truthy (Some (JArr xs)) = True"
| "truthy (Some (JObj kvs)) = True"

text \<open>\<open>Array.isArray(v) ? v : []\<close>\<close>

definition arrayOf :: "json option \<Rightarrow> json list" where
  "arrayOf v = (case v of Some (JArr xs) \<Rightarrow> xs | _ \<Rightarrow> [])"

text \<open>\<open>v || d\<close> as a value.\<close>

definition orJson :: "json option \<Rightarrow> json \<Rightarrow> json" where
  "orJson v d = (case v of Some x \<Rightarrow> if truthy v then x else d | None \<Rightarrow> d)"

text \<open>\<open>typeof v === "number" ? v : d\<close>\<close>

definition numberOr :: "json option \<Rightarrow> real \<Rightarrow> real" where
  "numberOr v d = (case v of Some (JNum n) \<Rightarrow> n | _ \<Rightarrow> d)"

text \<open>
  The module state of this model holds coordinates and sizes as reals, counts and tile
  sizes as integers and the name of a tileset as a string. Where the code stores
  \<open>v || d\<close> in such a variable or computes with it, \<open>v\<close> has to be a number (an integer,
  a string) or a value that counts as false. For any other value JavaScript would store
  the value itself, or concatenate strings where the code adds; such a document is
  outside the model, and the read is \<open>None\<close>.
\<close>

definition numOr :: "json option \<Rightarrow> real \<Rightarrow> real option" where
  "numOr v d =
     (case v of
        Some (JNum n) \<Rightarrow> Some (if n = 0 then d else n)
      | _ \<Rightarrow> if truthy v then None else Some d)"

definition intOr :: "json option \<Rightarrow> int \<Rightarrow> int option" where
  "intOr v d =
     (case v of
        Some (JNum n) \<Rightarrow>
          (if n = 0 then Some d else if n = real_of_int \<lfloor>n\<rfloor> then Some \<lfloor>n\<rfloor> else None)
      | _ \<Rightarrow> if truthy v then None else Some d)"

definition strOr :: "json option \<Rightarrow> string \<Rightarrow> string option" where
  "strOr v d =
     (case v of
        Some (JStr s) \<Rightarrow> Some (if s = [] then d else s)
      | _ \<Rightarrow> if truthy v then None else Some d)"

text \<open>
  How the evaluation of an expression on the document ends: with a value, with an
  exception, or outside the model.
\<close>

datatype 'a attempt = Done 'a | Raised | Beyond

definition inModel :: "'a option \<Rightarrow> 'a attempt" where
  "inModel v = (case v of Some x \<Rightarrow> Done x | None \<Rightarrow> Beyond)"

text \<open>
  \<open>(v || "").toLowerCase()\<close>: a value that counts as true and is not a string has no
  method \<open>toLowerCase\<close>, and the call throws a TypeError.
\<close>

definition lowerOr :: "json option \<Rightarrow> string attempt" where
  "lowerOr v =
     (if \<not> truthy v then Done []
      else (case v of Some (JStr s) \<Rightarrow> Done (toLowerCase s) | _ \<Rightarrow> Raised))"

text \<open>
  \<open>props.find((p) => p.name === key)\<close>: the first entry whose \<open>name\<close> is the string
  \<open>key\<close>. The callback throws on an entry \<open>null\<close> that the search reaches.
\<close>

fun findNamed :: "json list \<Rightarrow> string \<Rightarrow> json option attempt" where
  "findNamed [] key = Done None"
| "findNamed (p # ps) key =
     (if p = JNull then Raised
      else if member p ''name'' = Some (JStr key) then Done (Some p)
      else findNamed ps key)"

section \<open>Module state\<close>

text \<open>\<open>const car = { x, y, angle, speed, radius }\<close>\<close>

record vehicle =
  posX :: real
  posY :: real
  angle :: real
  speed :: real
  radius :: real

text \<open>A spawn pose \<open>{ x, y, angle }\<close> (\<open>startSpawn\<close>, the entries of \<open>aiSpawnPoints\<close>).\<close>

record pose =
  poseX :: real
  poseY :: real
  poseAngle :: real

text \<open>
  An entry of \<open>obstacles\<close>: a circle \<open>{ x, y, r }\<close>, or a rectangle
  \<open>{ x, y, w, h, isRect: true }\<close>.
\<close>

datatype obstacle = Circle real real real | Rect real real real real

text \<open>An entry of \<open>checkpoints\<close>: \<open>{ x1, y1, x2, y2 }\<close>.\<close>

record checkpoint =
  cpX1 :: real
  cpY1 :: real
  cpX2 :: real
  cpY2 :: real

text \<open>An entry of \<open>trackSegments\<close>: \<open>{ a, b, len, dx, dy }\<close>.\<close>

record segment =
  segA :: point
  segB :: point
  segLen :: real
  segDx :: real
  segDy :: real

text \<open>
  An entry of \<open>aiCars\<close>. The cars that follow the track without a spawn point have no
  \<open>x\<close>, \<open>y\<close> and \<open>angle\<close> fields; the sprite image is left out.
\<close>

record aiCar =
  aiX :: "real option"
  aiY :: "real option"
  aiAngle :: "real option"
  aiT :: real
  aiSpeed :: real
  useTrack :: bool
  aiRadius :: real
  checkpointIndex :: int
  aiLap :: int
  finished :: bool

text \<open>
  A tile layer \<open>{ name, data, width, height, opacity, visible }\<close>; the cells are the
  unsigned 32-bit raw tile ids. The name is the value \<open>layer.name || ""\<close> of the map
  document, a string in a map of the Tiled format.
\<close>

record tileLayer =
  layerName :: json
  layerData :: "32 word list"
  layerWidth :: int
  layerHeight :: int
  opacity :: real
  visible :: bool

text \<open>
  An entry of \<open>tiledTilesetMeta\<close>; the image is the value \<open>ts.image || null\<close> of the map
  document.
\<close>

record tilesetMeta =
  firstgid :: int
  tsName :: string
  tsImage :: json
  imagewidth :: int
  imageheight :: int
  tilewidth :: int
  tileheight :: int
  spacing :: int
  margin :: int
  columns :: int
  tilecount :: int

text \<open>
  An entry of \<open>tiledTrackTiles\<close>, a tile object placed on the map; the image handle is
  the resolved path of the tileset image.
\<close>

record trackTile =
  tileImg :: string
  tileSx :: int
  tileSy :: int
  tileSw :: int
  tileSh :: int
  tileX :: real
  tileY :: real
  tileW :: real
  tileH :: real
  tileRotation :: real
  tileFlipH :: bool
  tileFlipV :: bool
  tileFlipD :: bool

text \<open>
  The module-level variables of game.js that the simulation core reads and writes
  (presentation, audio and input-device state are left out).
\<close>

record game =
  started :: bool
  countdownActive :: bool
  car :: vehicle
  obstacles :: "obstacle list"
  trackWidth :: real
  trackPath :: "point list"
  checkpoints :: "checkpoint list"
  hasMapObstacles :: bool
  hasMapCheckpoints :: bool
  hasMapObjects :: bool
  startSpawn :: pose
  aiSpawnPoints :: "pose list"
  aiCars :: "aiCar list"
  aiCheckpoints :: "point list"
  raceLaps :: int
  trackSegments :: "segment list"
  trackLength :: real
  currentCheckpoint :: int
  lastCheckpointIndex :: int
  lap :: int
  lastX :: real
  lastY :: real
  worldWidth :: int
  worldHeight :: int
  tiledTrackTiles :: "trackTile list"
  tiledTileLayers :: "tileLayer list"
  tiledRoadLayers :: "tileLayer list"
  tiledGroundLayers :: "tileLayer list"
  tiledTilesetMeta :: "tilesetMeta list"
  tiledTilesetImages :: "int \<rightharpoonup> string"
  tiledMapTileWidth :: int
  tiledMapTileHeight :: int
  tiledMapWidth :: int
  tiledMapHeight :: int

text \<open>
  The inputs read by updatePhysics: \<open>keys\<close>, \<open>steeringStick.valueX\<close> and the two
  pedals.
\<close>

record controls =
  keyUp :: bool
  keyDown :: bool
  keyLeft :: bool
  keyRight :: bool
  stickValueX :: real
  accelPressed :: bool
  brakePressed :: bool

section \<open>Track geometry\<close>

text \<open>
  The loop of buildTrackSegments over the consecutive pairs of \<open>trackPath\<close>, with the
  accumulators \<open>trackSegments\<close> and \<open>trackLength\<close>.
\<close>

fun buildLoop :: "point list \<Rightarrow> segment list \<Rightarrow> real \<Rightarrow> segment list \<times> real" where
  "buildLoop (a # b # ps) segs acc =
     (let dx = px b - px a; dy = py b - py a; len = hypot dx dy
      in if len \<le> 0 then buildLoop (b # ps) segs acc
         else buildLoop (b # ps)
                (segs @ [\<lparr> segA = a, segB = b, segLen = len, segDx = dx, segDy = dy \<rparr>])
                (acc + len))"
| "buildLoop ps segs acc = (segs, acc)"

definition buildTrackSegments :: "game \<Rightarrow> game" where
  "buildTrackSegments g =
     (let (segs, acc) = buildLoop (trackPath g) [] 0
      in g\<lparr> trackSegments := segs, trackLength := acc \<rparr>)"

text \<open>
  The loop of sampleTrack: it walks the segments with the remaining distance \<open>dist\<close>
  (here \<open>rest\<close>); \<open>fallback\<close> is the last segment, returned when the loop runs out.
  The divisor \<open>seg.len\<close> is positive for every segment that buildTrackSegments stores.
\<close>

fun sampleLoop :: "segment list \<Rightarrow> real \<Rightarrow> segment \<Rightarrow> pose" where
  "sampleLoop [] rest fallback =
     \<lparr> poseX = px (segB fallback), poseY = py (segB fallback),
       poseAngle = atan2 (segDy fallback) (segDx fallback) \<rparr>"
| "sampleLoop (seg # segs) rest fallback =
     (if rest \<le> segLen seg then
        (let r = rest / segLen seg
         in \<lparr> poseX = px (segA seg) + segDx seg * r, poseY = py (segA seg) + segDy seg * r,
              poseAngle = atan2 (segDy seg) (segDx seg) \<rparr>)
      else sampleLoop segs (rest - segLen seg) fallback)"

definition sampleTrack :: "game \<Rightarrow> real \<Rightarrow> pose option" where
  "sampleTrack g t =
     (if trackSegments g = [] \<or> trackLength g = 0 then None
      else Some (sampleLoop (trackSegments g) (t * trackLength g) (last (trackSegments g))))"

section \<open>Surface lookup\<close>

datatype surface = Road | Ground | NoSurface

text \<open>\<open>a || b\<close> on two integers.\<close>

definition orInt :: "int \<Rightarrow> int \<Rightarrow> int" where
  "orInt v d = (if v = 0 then d else v)"

text \<open>
  \<open>Math.floor(x / w)\<close> for a tile size \<open>w\<close>. With \<open>w = 0\<close> the quotient is an infinity
  or NaN, for which no position is accepted as inside the map; that case is \<open>None\<close>.
\<close>

definition tileCoord :: "real \<Rightarrow> int \<Rightarrow> int option" where
  "tileCoord x w = (if w = 0 then None else Some \<lfloor>x / real_of_int w\<rfloor>)"

text \<open>\<open>layer.data[idx] || 0\<close>: a read outside the array is \<open>undefined\<close>.\<close>

definition cellAt :: "32 word list \<Rightarrow> int \<Rightarrow> 32 word" where
  "cellAt cells idx = (if 0 \<le> idx \<and> nat idx < length cells then cells ! nat idx else 0)"

text \<open>The loop of getTileAt, given the layers from the last one to the first.\<close>

fun tileLoop :: "tileLayer list \<Rightarrow> int \<Rightarrow> int \<Rightarrow> 32 word" where
  "tileLoop [] tx ty = 0"
| "tileLoop (layer # layers) tx ty =
     (if \<not> visible layer then tileLoop layers tx ty
      else (let idx = ty * layerWidth layer + tx; rawGid = cellAt (layerData layer) idx
            in if rawGid \<noteq> 0 then rawGid else tileLoop layers tx ty))"

definition getTileAt :: "game \<Rightarrow> tileLayer list \<Rightarrow> real \<Rightarrow> real \<Rightarrow> 32 word" where
  "getTileAt g layers x y =
     (if layers = [] \<or> tiledMapTileWidth g \<le> 0 \<or> tiledMapTileHeight g \<le> 0 then 0
      else (let tx = \<lfloor>x / real_of_int (tiledMapTileWidth g)\<rfloor>;
                ty = \<lfloor>y / real_of_int (tiledMapTileHeight g)\<rfloor>
            in if tx < 0 \<or> ty < 0 then 0
               else (let mapW = orInt (tiledMapWidth g) (layerWidth (hd layers));
                         mapH = orInt (tiledMapHeight g) (layerHeight (hd layers))
                     in if tx \<ge> mapW \<or> ty \<ge> mapH then 0
                        else tileLoop (rev layers) tx ty)))"

text \<open>
  \<open>FLIP_H | FLIP_V | FLIP_D\<close>, the three flip flags in the high bits of a raw tile id.
\<close>

definition FLIP_H :: "32 word" where "FLIP_H = 0x80000000"
definition FLIP_V :: "32 word" where "FLIP_V = 0x40000000"
definition FLIP_D :: "32 word" where "FLIP_D = 0x20000000"

text \<open>The loop that picks the last tileset whose \<open>firstgid\<close> is at most \<open>gid\<close>.\<close>

fun chooseTileset :: "tilesetMeta list \<Rightarrow> int \<Rightarrow> tilesetMeta option \<Rightarrow> tilesetMeta option" where
  "chooseTileset [] gid chosen = chosen"
| "chooseTileset (ts # tss) gid chosen =
     (if gid \<ge> firstgid ts then chooseTileset tss gid (Some ts) else chosen)"

definition getSurfaceFromGid :: "game \<Rightarrow> 32 word \<Rightarrow> surface" where
  "getSurfaceFromGid g rawGid =
     (let gid = rawGid AND NOT (FLIP_H OR FLIP_V OR FLIP_D)
      in if gid = 0 then NoSurface
         else (case chooseTileset (tiledTilesetMeta g) (uint gid) None of
                 None \<Rightarrow> NoSurface
               | Some chosen \<Rightarrow>
                   (let name = toLowerCase (tsName chosen)
                    in if strIncludes name ''road'' \<or> strIncludes name ''asphalt'' then Road
                       else if strIncludes name ''grass'' \<or> strIncludes name ''land''
                               \<or> strIncludes name ''dirt'' \<or> strIncludes name ''sand'' then Ground
                       else NoSurface)))"

text \<open>
  The loop of getSurfaceAtAnyLayer, given the layers from the last one to the first.
\<close>

fun anyLayerLoop :: "game \<Rightarrow> tileLayer list \<Rightarrow> int \<Rightarrow> int \<Rightarrow> bool \<Rightarrow> surface" where
  "anyLayerLoop g [] tx ty foundGround = (if foundGround then Ground else NoSurface)"
| "anyLayerLoop g (layer # layers) tx ty foundGround =
     (if \<not> visible layer then anyLayerLoop g layers tx ty foundGround
      else (let idx = ty * layerWidth layer + tx; rawGid = cellAt (layerData layer) idx
            in if rawGid = 0 then anyLayerLoop g layers tx ty foundGround
               else (let surface = getSurfaceFromGid g rawGid
                     in if surface = Road then Road
                        else anyLayerLoop g layers tx ty (foundGround \<or> surface = Ground))))"

definition getSurfaceAtAnyLayer :: "game \<Rightarrow> real \<Rightarrow> real \<Rightarrow> surface" where
  "getSurfaceAtAnyLayer g x y =
     (if tiledTileLayers g = [] then NoSurface
      else (case (tileCoord x (tiledMapTileWidth g), tileCoord y (tiledMapTileHeight g)) of
              (Some tx, Some ty) \<Rightarrow>
                (if tx < 0 \<or> ty < 0 then NoSurface
                 else (let mapW = orInt (tiledMapWidth g) (layerWidth (hd (tiledTileLayers g)));
                           mapH = orInt (tiledMapHeight g) (layerHeight (hd (tiledTileLayers g)))
                       in if tx \<ge> mapW \<or> ty \<ge> mapH then NoSurface
                          else anyLayerLoop g (rev (tiledTileLayers g)) tx ty False))
            | _ \<Rightarrow> NoSurface))"

text \<open>
  The bounds test at the end of getSurfaceAt, reached with at least one road layer:
  \<open>tx >= 0 && ty >= 0 && tx < mapW && ty < mapH\<close>, where \<open>mapW\<close> and \<open>mapH\<close> are the
  map size or, when that is zero, the size of the first road layer.
\<close>

definition insideMap :: "game \<Rightarrow> real \<Rightarrow> real \<Rightarrow> bool" where
  "insideMap g x y =
     (case (tileCoord x (tiledMapTileWidth g), tileCoord y (tiledMapTileHeight g)) of
        (Some tx, Some ty) \<Rightarrow>
          (let mapW = orInt (tiledMapWidth g) (orInt (layerWidth (hd (tiledRoadLayers g))) 0);
               mapH = orInt (tiledMapHeight g) (orInt (layerHeight (hd (tiledRoadLayers g))) 0)
           in tx \<ge> 0 \<and> ty \<ge> 0 \<and> tx < mapW \<and> ty < mapH)
      | _ \<Rightarrow> False)"

definition getSurfaceAt :: "game \<Rightarrow> real \<Rightarrow> real \<Rightarrow> surface" where
  "getSurfaceAt g x y =
     (if tiledRoadLayers g \<noteq> [] then
        (if getTileAt g (tiledRoadLayers g) x y \<noteq> 0 then Road
         else if tiledGroundLayers g \<noteq> [] \<and> getTileAt g (tiledGroundLayers g) x y \<noteq> 0 then Ground
         else if insideMap g x y then Ground
         else NoSurface)
      else getSurfaceAtAnyLayer g x y)"

section \<open>Respawn\<close>

text \<open>\<open>checkpoints[index]\<close>: \<open>undefined\<close> outside the array.\<close>

definition cpAt :: "checkpoint list \<Rightarrow> int \<Rightarrow> checkpoint option" where
  "cpAt cps i = (if 0 \<le> i \<and> nat i < length cps then Some (cps ! nat i) else None)"

definition getCheckpointSpawn :: "game \<Rightarrow> int \<Rightarrow> pose option" where
  "getCheckpointSpawn g index =
     (case cpAt (checkpoints g) index of
        None \<Rightarrow> None
      | Some cp \<Rightarrow>
          (let mx = (cpX1 cp + cpX2 cp) / 2;
               my = (cpY1 cp + cpY2 cp) / 2;
               lineAngle = atan2 (cpY2 cp - cpY1 cp) (cpX2 cp - cpX1 cp);
               trackAngle = lineAngle + pi / 2;
               backOffset = 30
           in Some \<lparr> poseX = mx - cos trackAngle * backOffset,
                     poseY = my - sin trackAngle * backOffset,
                     poseAngle = trackAngle \<rparr>))"

text \<open>
  \<open>respawnToCheckpoint(index)\<close>. \<open>startSpawn\<close> is always an object, so the early
  return on a missing target is never taken.
\<close>

definition respawnToCheckpoint :: "int \<Rightarrow> game \<Rightarrow> game" where
  "respawnToCheckpoint index g =
     (let spawn = (if index \<ge> 0 then getCheckpointSpawn g index else None);
          target = (case spawn of Some s \<Rightarrow> s | None \<Rightarrow> startSpawn g);
          x = poseX target;
          y = poseY target;
          ang = (if index \<ge> 0 \<and> checkpoints g \<noteq> [] then
                   (let nextIndex = (index + 1) mod int (length (checkpoints g))
                    in case cpAt (checkpoints g) nextIndex of
                         Some next \<Rightarrow>
                           (let nx = (cpX1 next + cpX2 next) / 2;
                                ny = (cpY1 next + cpY2 next) / 2
                            in atan2 (ny - y) (nx - x))
                       | None \<Rightarrow> poseAngle target)
                 else poseAngle target)
      in g\<lparr> car := (car g)\<lparr> posX := x, posY := y, angle := ang, speed := 0 \<rparr>,
            lastX := x, lastY := y \<rparr>)"

section \<open>Vehicle dynamics\<close>

definition accel :: real where "accel = 260"
definition maxSpeed :: real where "maxSpeed = 440"
definition brake :: real where "brake = 340"
definition drag :: real where "drag = 0.98"
definition groundSlow :: real where "groundSlow = 0.92"
definition groundMaxSpeed :: real where "groundMaxSpeed = 0.55"

text \<open>
  The first part of updatePhysics, from \<open>const steeringInput\<close> to \<open>car.y += vy * dt\<close>,
  in the order of the source: the two inputs, the speed update with its clamp, the heading
  update, the position update.
\<close>

definition steeringInput :: "controls \<Rightarrow> real" where
  "steeringInput inp =
     (if keyLeft inp \<or> keyRight inp then (if keyLeft inp then - 1 else 1) else stickValueX inp)"

definition throttle :: "controls \<Rightarrow> real" where
  "throttle inp =
     (let throttleInput = (if keyUp inp then 1 else 0) + (if keyDown inp then - 1 else 0)
                        + (if accelPressed inp then 1 else 0) - (if brakePressed inp then 1 else 0)
      in clamp throttleInput (- 1) 1)"

text \<open>
  The speed update: \<open>car.speed\<close> after the throttle, the ground slow-down and
  \<open>car.speed = clamp(car.speed, -maxSurfaceSpeed * 0.5, maxSurfaceSpeed)\<close>.
\<close>

definition maxSurfaceSpeed :: "surface \<Rightarrow> real" where
  "maxSurfaceSpeed surf = (if surf = Ground then maxSpeed * groundMaxSpeed else maxSpeed)"

definition speedStep :: "surface \<Rightarrow> real \<Rightarrow> real \<Rightarrow> real \<Rightarrow> real" where
  "speedStep surf thr dt s =
     (let s1 = (if thr > 0 then s + accel * thr * dt
                else if thr < 0 then s + brake * thr * dt
                else s * drag);
          s2 = (if surf = Ground then s1 * groundSlow else s1)
      in clamp s2 (- maxSurfaceSpeed surf * 0.5) (maxSurfaceSpeed surf))"

text \<open>The heading update, for the clamped speed \<open>s\<close>.\<close>

definition steerStep :: "real \<Rightarrow> real \<Rightarrow> real \<Rightarrow> real \<Rightarrow> real" where
  "steerStep steer dt s ang =
     (let speedAbs = \<bar>s\<bar>;
          speedFactor = clamp (speedAbs / maxSpeed) 0 1;
          steerStrength = lerp 1.6 3.2 speedFactor
      in if speedAbs > 5 then ang + steer * steerStrength * dt * (if s \<ge> 0 then 1 else - 1)
         else ang)"

definition integrate :: "controls \<Rightarrow> real \<Rightarrow> game \<Rightarrow> game" where
  "integrate inp dt g =
     (let surf = getSurfaceAt g (posX (car g)) (posY (car g));
          s = speedStep surf (throttle inp) dt (speed (car g));
          ang = steerStep (steeringInput inp) dt s (angle (car g));
          vx = cos ang * s;
          vy = sin ang * s
      in g\<lparr> lastX := posX (car g), lastY := posY (car g),
            car := (car g)\<lparr> posX := posX (car g) + vx * dt, posY := posY (car g) + vy * dt,
                            angle := ang, speed := s \<rparr> \<rparr>)"

text \<open>
  The body of the loop over \<open>obstacles\<close>. The flag \<open>collided\<close> only starts the collision
  sound and is left out.
\<close>

fun collideObstacle :: "obstacle \<Rightarrow> vehicle \<Rightarrow> vehicle" where
  "collideObstacle (Rect ox oy ow oh) c =
     (if circleRectCollision (posX c) (posY c) (radius c) ox oy ow oh then
        (let push = resolveCircleRect (posX c) (posY c) (radius c) ox oy ow oh
         in c\<lparr> posX := posX c + px push, posY := posY c + py push, speed := speed c * 0.6 \<rparr>)
      else c)"
| "collideObstacle (Circle ox oy orad) c =
     (if circleCircleCollision \<lparr> px = posX c, py = posY c \<rparr> \<lparr> px = ox, py = oy \<rparr> (radius c + orad) then
        (let push = resolveCircleCollision \<lparr> px = posX c, py = posY c \<rparr> \<lparr> px = ox, py = oy \<rparr>
                      (radius c + orad)
         in c\<lparr> posX := posX c + px push, posY := posY c + py push, speed := speed c * 0.6 \<rparr>)
      else c)"

fun collideObstacles :: "obstacle list \<Rightarrow> vehicle \<Rightarrow> vehicle" where
  "collideObstacles [] c = c"
| "collideObstacles (obs # rest) c = collideObstacles rest (collideObstacle obs c)"

text \<open>\<open>getAIPosition(ai)\<close>\<close>

definition getAIPosition :: "game \<Rightarrow> aiCar \<Rightarrow> point option" where
  "getAIPosition g ai =
     (if useTrack ai then
        (case sampleTrack g (aiT ai) of
           None \<Rightarrow> None
         | Some p \<Rightarrow> Some \<lparr> px = poseX p, py = poseY p \<rparr>)
      else (case (aiX ai, aiY ai) of
              (Some x, Some y) \<Rightarrow> Some \<lparr> px = x, py = y \<rparr>
            | _ \<Rightarrow> None))"

text \<open>The body of the loop over \<open>aiCars\<close>.\<close>

definition collideAI :: "game \<Rightarrow> aiCar \<Rightarrow> vehicle \<Rightarrow> vehicle" where
  "collideAI g ai c =
     (case getAIPosition g ai of
        None \<Rightarrow> c
      | Some pos \<Rightarrow>
          (if circleCircleCollision \<lparr> px = posX c, py = posY c \<rparr> pos (radius c + radius c) then
             (let push = resolveCircleCollision \<lparr> px = posX c, py = posY c \<rparr> pos (radius c + radius c)
              in c\<lparr> posX := posX c + px push, posY := posY c + py push, speed := speed c * 0.7 \<rparr>)
           else c))"

fun collideAICars :: "game \<Rightarrow> aiCar list \<Rightarrow> vehicle \<Rightarrow> vehicle" where
  "collideAICars g [] c = c"
| "collideAICars g (ai # rest) c = collideAICars g rest (collideAI g ai c)"

section \<open>Checkpoint tracker\<close>

text \<open>
  The search loop of updatePhysics: the index of the first checkpoint whose segment the
  movement segment intersects, or \<open>-1\<close>.
\<close>

fun crossedFrom :: "real \<Rightarrow> real \<Rightarrow> real \<Rightarrow> real \<Rightarrow> checkpoint list \<Rightarrow> int \<Rightarrow> int" where
  "crossedFrom lx ly cx cy [] i = - 1"
| "crossedFrom lx ly cx cy (cp # cps) i =
     (if segmentIntersect lx ly cx cy (cpX1 cp) (cpY1 cp) (cpX2 cp) (cpY2 cp) then i
      else crossedFrom lx ly cx cy cps (i + 1))"

definition crossedIndex :: "game \<Rightarrow> int" where
  "crossedIndex g =
     crossedFrom (lastX g) (lastY g) (posX (car g)) (posY (car g)) (checkpoints g) 0"

text \<open>The reaction of updatePhysics to a crossed index (\<open>if (crossedIndex !== -1) ...\<close>).\<close>

definition applyCrossing :: "int \<Rightarrow> game \<Rightarrow> game" where
  "applyCrossing crossed g =
     (if crossed \<noteq> - 1 then
        (if crossed = currentCheckpoint g then
           (if currentCheckpoint g + 1 \<ge> int (length (checkpoints g))
            then g\<lparr> lastCheckpointIndex := crossed, currentCheckpoint := 0, lap := lap g + 1 \<rparr>
            else g\<lparr> lastCheckpointIndex := crossed, currentCheckpoint := currentCheckpoint g + 1 \<rparr>)
         else if crossed > currentCheckpoint g then respawnToCheckpoint (lastCheckpointIndex g) g
         else g)
      else g)"

definition checkpointPass :: "game \<Rightarrow> game" where
  "checkpointPass g = (if checkpoints g \<noteq> [] then applyCrossing (crossedIndex g) g else g)"

text \<open>
  \<open>updatePhysics(dt)\<close>: integration, the collision pass against the obstacles and the AI
  cars, then the checkpoint pass. The audio updates are left out.
\<close>

definition collisionPass :: "game \<Rightarrow> game" where
  "collisionPass g = g\<lparr> car := collideAICars g (aiCars g) (collideObstacles (obstacles g) (car g)) \<rparr>"

definition updatePhysics :: "controls \<Rightarrow> real \<Rightarrow> game \<Rightarrow> game" where
  "updatePhysics inp dt g =
     (if \<not> started g \<or> countdownActive g then g
      else checkpointPass (collisionPass (integrate inp dt g)))"

text \<open>A run of ticks, each with its own inputs and time step.\<close>

fun ticks :: "(controls \<times> real) list \<Rightarrow> game \<Rightarrow> game" where
  "ticks [] g = g"
| "ticks ((inp, dt) # rest) g = ticks rest (updatePhysics inp dt g)"

section \<open>Map document\<close>

text \<open>
  What \<open>fetch\<close> and \<open>res.json()\<close> deliver: the request fails, the response is not ok,
  the body is not JSON, or a document, which may be any JSON value.
\<close>

datatype fetched = FetchError | NotOk | InvalidJson | Document json

text \<open>
  The browser functions the loader calls, applied to the values the code passes to them.
  \<open>atob\<close> throws on a value whose string is not base64 (\<open>None\<close>);
  \<open>decompress format bytes\<close> stands for piping the bytes through
  \<open>new DecompressionStream(format)\<close>, which throws for a format the browser does not
  know and fails on corrupt input (\<open>None\<close>); \<open>loadImage\<close> tells whether the image at a
  path loads, and the path stands for the image then.
\<close>

record env =
  atob :: "json \<Rightarrow> 8 word list option"
  hasDecompressionStream :: bool
  decompress :: "json \<Rightarrow> 8 word list \<Rightarrow> 8 word list option"
  loadImage :: "string \<Rightarrow> bool"

section \<open>Map loader\<close>

text \<open>
  \<open>getObjectProperty(obj, key)\<close> for an object \<open>obj\<close> other than \<open>null\<close>; \<open>null\<close> and
  \<open>undefined\<close> as results are both \<open>None\<close>.
\<close>

definition getObjectProperty :: "json \<Rightarrow> string \<Rightarrow> json option attempt" where
  "getObjectProperty obj key =
     (case member obj ''properties'' of
        Some (JArr props) \<Rightarrow>
          (case findNamed props key of
             Done (Some hit) \<Rightarrow> Done (member hit ''value'')
           | Done None \<Rightarrow> Done None
           | Raised \<Rightarrow> Raised
           | Beyond \<Rightarrow> Beyond)
      | _ \<Rightarrow> Done None)"

text \<open>The little-endian 32-bit words of a byte buffer; trailing bytes are dropped.\<close>

fun uint32s :: "8 word list \<Rightarrow> 32 word list" where
  "uint32s (b0 # b1 # b2 # b3 # bytes) =
     (ucast b0 OR push_bit 8 (ucast b1) OR push_bit 16 (ucast b2) OR push_bit 24 (ucast b3))
       # uint32s bytes"
| "uint32s bytes = []"

text \<open>
  The cells of a layer whose \<open>data\<close> is an array. The module state holds the cells as
  unsigned 32-bit numbers; an array with any other entry is outside the model.
\<close>

definition cellOf :: "json \<Rightarrow> 32 word option" where
  "cellOf v =
     (case v of
        JNum n \<Rightarrow>
          (if n = real_of_int \<lfloor>n\<rfloor> \<and> 0 \<le> n \<and> n < 4294967296 then Some (word_of_int \<lfloor>n\<rfloor>)
           else None)
      | _ \<Rightarrow> None)"

fun cellsOf :: "json list \<Rightarrow> 32 word list option" where
  "cellsOf [] = Some []"
| "cellsOf (v # vs) =
     (case cellOf v of
        None \<Rightarrow> None
      | Some c \<Rightarrow> (case cellsOf vs of None \<Rightarrow> None | Some cs \<Rightarrow> Some (c # cs)))"

text \<open>
  \<open>decodeLayerData(layer)\<close> for a layer other than \<open>null\<close>: \<open>Raised\<close> when \<open>atob\<close> or
  the decompression throws, \<open>Done None\<close> when it returns \<open>null\<close>.
\<close>

definition decodeLayerData :: "env \<Rightarrow> json \<Rightarrow> 32 word list option attempt" where
  "decodeLayerData e layer =
     (case member layer ''data'' of
        None \<Rightarrow> Done None
      | Some (JArr cells) \<Rightarrow>
          (case cellsOf cells of None \<Rightarrow> Beyond | Some decoded \<Rightarrow> Done (Some decoded))
      | Some dat \<Rightarrow>
          (if \<not> truthy (Some dat) \<or> member layer ''encoding'' \<noteq> Some (JStr ''base64'')
           then Done None
           else (case atob e dat of
                   None \<Rightarrow> Raised
                 | Some bytes \<Rightarrow>
                     (case member layer ''compression'' of
                        None \<Rightarrow> Done (Some (uint32s bytes))
                      | Some compression \<Rightarrow>
                          (if \<not> truthy (Some compression) then Done (Some (uint32s bytes))
                           else if \<not> hasDecompressionStream e then Done None
                           else (let format = (if compression = JStr ''zlib''
                                               then JStr ''deflate'' else compression)
                                 in case decompress e format bytes of
                                      None \<Rightarrow> Raised
                                    | Some buffer \<Rightarrow> Done (Some (uint32s buffer))))))))"

text \<open>\<open>path.replace(/\\\\/g, "/")\<close>: every pair of backslashes becomes a slash.\<close>

fun normalizeSlashes :: "string \<Rightarrow> string" where
  "normalizeSlashes (c # d # cs) =
     (if c = CHR 0x5C \<and> d = CHR 0x5C then CHR ''/'' # normalizeSlashes cs
      else c # normalizeSlashes (d # cs))"
| "normalizeSlashes cs = cs"

text \<open>\<open>s.slice(s.indexOf(sub))\<close> for a string that includes \<open>sub\<close>.\<close>

fun sliceFrom :: "string \<Rightarrow> string \<Rightarrow> string" where
  "sliceFrom sub [] = []"
| "sliceFrom sub (c # cs) = (if take (length sub) (c # cs) = sub then c # cs else sliceFrom sub cs)"

text \<open>
  \<open>resolveTilesetImagePath(path)\<close>: \<open>Done None\<close> when it returns \<open>null\<close>. A value that
  counts as true and is not a string has no method \<open>replace\<close>, and the call throws.
\<close>

definition resolveTilesetImagePath :: "json \<Rightarrow> string option attempt" where
  "resolveTilesetImagePath path =
     (if \<not> truthy (Some path) then Done None
      else (case path of
              JStr p \<Rightarrow>
                (let normalized = normalizeSlashes p
                 in if strIncludes normalized ''kenney_racing-pack/''
                    then Done (Some (sliceFrom ''kenney_racing-pack/'' normalized))
                    else Done (Some normalized))
            | _ \<Rightarrow> Raised))"

text \<open>
  The entry of \<open>tilesetMeta\<close> built from an entry \<open>ts\<close> of \<open>map.tilesets\<close>; the read of
  \<open>ts.firstgid\<close> throws if \<open>ts\<close> is \<open>null\<close>.
\<close>

definition tilesetMetaOf :: "json \<Rightarrow> json \<Rightarrow> tilesetMeta attempt" where
  "tilesetMetaOf m ts =
     (if ts = JNull then Raised
      else inModel (do {
        fg \<leftarrow> intOr (member ts ''firstgid'') 0;
        nm \<leftarrow> strOr (member ts ''name'') [];
        iw \<leftarrow> intOr (member ts ''imagewidth'') 0;
        ih \<leftarrow> intOr (member ts ''imageheight'') 0;
        tw \<leftarrow> (if truthy (member ts ''tilewidth'') then intOr (member ts ''tilewidth'') 32
               else intOr (member m ''tilewidth'') 32);
        th \<leftarrow> (if truthy (member ts ''tileheight'') then intOr (member ts ''tileheight'') 32
               else intOr (member m ''tileheight'') 32);
        sp \<leftarrow> intOr (member ts ''spacing'') 0;
        mg \<leftarrow> intOr (member ts ''margin'') 0;
        co \<leftarrow> intOr (member ts ''columns'') 0;
        tc \<leftarrow> intOr (member ts ''tilecount'') 0;
        Some \<lparr> firstgid = fg, tsName = nm, tsImage = orJson (member ts ''image'') JNull,
               imagewidth = iw, imageheight = ih, tilewidth = tw, tileheight = th,
               spacing = sp, margin = mg, columns = co, tilecount = tc \<rparr> }))"

text \<open>\<open>tilesets.map((ts) => ({ ... }))\<close>\<close>

fun tilesetMetas :: "json \<Rightarrow> json list \<Rightarrow> tilesetMeta list attempt" where
  "tilesetMetas m [] = Done []"
| "tilesetMetas m (ts # tss) =
     (case tilesetMetaOf m ts of
        Raised \<Rightarrow> Raised
      | Beyond \<Rightarrow> Beyond
      | Done meta \<Rightarrow>
          (case tilesetMetas m tss of
             Raised \<Rightarrow> Raised
           | Beyond \<Rightarrow> Beyond
           | Done metas \<Rightarrow> Done (meta # metas)))"

text \<open>The loop that loads the tileset images into the map \<open>tilesetImages\<close>.\<close>

fun loadTilesetImages ::
  "env \<Rightarrow> tilesetMeta list \<Rightarrow> (int \<rightharpoonup> string) \<Rightarrow> (int \<rightharpoonup> string) attempt" where
  "loadTilesetImages e [] imgs = Done imgs"
| "loadTilesetImages e (ts # tss) imgs =
     (case resolveTilesetImagePath (tsImage ts) of
        Raised \<Rightarrow> Raised
      | Beyond \<Rightarrow> Beyond
      | Done None \<Rightarrow> loadTilesetImages e tss imgs
      | Done (Some path) \<Rightarrow>
          (if path = [] then loadTilesetImages e tss imgs
           else if loadImage e path then loadTilesetImages e tss (imgs(firstgid ts \<mapsto> path))
           else loadTilesetImages e tss imgs))"

text \<open>
  The loop that raises \<open>tiledMapTileWidth\<close> and \<open>tiledMapTileHeight\<close> to the largest
  tile size of the tilesets.
\<close>

fun widenTiles :: "tilesetMeta list \<Rightarrow> int \<times> int \<Rightarrow> int \<times> int" where
  "widenTiles [] (w, h) = (w, h)"
| "widenTiles (ts # tss) (w, h) =
     widenTiles tss (if tilewidth ts > w then tilewidth ts else w,
                     if tileheight ts > h then tileheight ts else h)"

text \<open>
  The local variables of loadTiledMap while it walks the layers, next to the module
  state \<open>glob\<close>. \<open>newObstacles\<close> and \<open>foundObjects\<close> are declared anew for every
  object layer.
\<close>

record loadState =
  glob :: game
  newTiles :: "trackTile list"
  newTileLayers :: "tileLayer list"
  newAISpawns :: "pose list"
  newAICheckpoints :: "(int \<times> point) list"
  newMapCheckpoints :: "(int \<times> checkpoint) list"
  newObstacles :: "obstacle list"
  foundObjects :: bool

text \<open>
  How a part of loadTiledMap ends: it runs through and leaves a state, it throws and
  leaves the module state of that moment to the handler, or the document is outside the
  model.
\<close>

datatype 'a step = Next 'a | Thrown game | Outside

definition orOutside :: "'a option \<Rightarrow> 'a step" where
  "orOutside v = (case v of Some x \<Rightarrow> Next x | None \<Rightarrow> Outside)"

text \<open>
  \<open>\s\<close> and \<open>\d\<close> on 8-bit characters: the white space below 256 is the range from tab
  to carriage return, the space and the no-break space.
\<close>

definition isSpace :: "char \<Rightarrow> bool" where
  "isSpace c = (let n = (of_char c :: nat) in (9 \<le> n \<and> n \<le> 13) \<or> n = 32 \<or> n = 160)"

definition isDigit :: "char \<Rightarrow> bool" where
  "isDigit c = (let n = (of_char c :: nat) in 48 \<le> n \<and> n \<le> 57)"

text \<open>\<open>/^checkpoint\d+$/.test(name)\<close>\<close>

definition isCheckpointN :: "string \<Rightarrow> bool" where
  "isCheckpointN name =
     (take 10 name = ''checkpoint'' \<and> drop 10 name \<noteq> [] \<and> list_all isDigit (drop 10 name))"

text \<open>\<open>parseInt(digits, 10)\<close> on a string of decimal digits.\<close>

definition parseDigits :: "string \<Rightarrow> int" where
  "parseDigits ds = foldl (\<lambda>n c. 10 * n + (int (of_char c) - 48)) 0 ds"

text \<open>
  \<open>a % b\<close> on integers with \<open>b \<noteq> 0\<close>: the remainder has the sign of the dividend.
\<close>

definition jsRem :: "int \<Rightarrow> int \<Rightarrow> int" where
  "jsRem a b = (if a \<ge> 0 then a mod \<bar>b\<bar> else - ((- a) mod \<bar>b\<bar>))"

text \<open>
  The 32-bit integer that the operator \<open>&\<close> takes from a number: the fraction is cut
  off, and the rest is reduced modulo \<open>2^32\<close>.
\<close>

definition toInt32 :: "real \<Rightarrow> 32 word" where
  "toInt32 v = word_of_int (if v \<ge> 0 then \<lfloor>v\<rfloor> else \<lceil>v\<rceil>)"

text \<open>
  A tile object (\<open>typeof obj.gid === "number"\<close>): the entry pushed to \<open>newTiles\<close>, if
  its tileset and the image of the tileset are found (\<open>Some None\<close> if not).
  \<open>Math.floor(a / b)\<close> on integers is \<open>a div b\<close>; the divisors \<open>ts.tilewidth\<close> and
  \<open>columns\<close> are never zero, because tilesetMetaOf and the fallback of \<open>columns\<close>
  replace a zero.
\<close>

definition tileOfObject ::
  "tilesetMeta list \<Rightarrow> (int \<rightharpoonup> string) \<Rightarrow> json \<Rightarrow> real \<Rightarrow> trackTile option option" where
  "tileOfObject meta imgs obj rawGid =
     (let raw = toInt32 rawGid;
          flipH = (raw AND FLIP_H \<noteq> 0);
          flipV = (raw AND FLIP_V \<noteq> 0);
          flipD = (raw AND FLIP_D \<noteq> 0);
          gid = uint (raw AND NOT (FLIP_H OR FLIP_V OR FLIP_D))
      in case chooseTileset meta gid None of
           None \<Rightarrow> Some None
         | Some ts \<Rightarrow>
             (case imgs (firstgid ts) of
                None \<Rightarrow> Some None
              | Some img \<Rightarrow>
                  (let cols = orInt (columns ts) (max 1 (imagewidth ts div tilewidth ts));
                       tileId = gid - firstgid ts;
                       sx = margin ts + jsRem tileId cols * (tilewidth ts + spacing ts);
                       sy = margin ts + (tileId div cols) * (tileheight ts + spacing ts)
                   in do {
                        x \<leftarrow> numOr (member obj ''x'') 0;
                        y \<leftarrow> numOr (member obj ''y'') 0;
                        w \<leftarrow> numOr (member obj ''width'') (real_of_int (tilewidth ts));
                        h \<leftarrow> numOr (member obj ''height'') (real_of_int (tileheight ts));
                        Some (Some \<lparr> tileImg = img, tileSx = sx, tileSy = sy,
                                     tileSw = tilewidth ts, tileSh = tileheight ts,
                                     tileX = x, tileY = y, tileW = w, tileH = h,
                                     tileRotation = numberOr (member obj ''rotation'') 0,
                                     tileFlipH = flipH, tileFlipV = flipV,
                                     tileFlipD = flipD \<rparr>) })))"

text \<open>
  The names an object is recognised by: \<open>(obj.name || obj.type || "").toLowerCase()\<close>,
  and the same without white space (\<open>name.replace(/\s+/g, "")\<close>).
\<close>

definition objectName :: "json \<Rightarrow> string attempt" where
  "objectName obj =
     lowerOr (if truthy (member obj ''name'') then member obj ''name'' else member obj ''type'')"

definition compactName :: "string \<Rightarrow> string" where
  "compactName name = filter (\<lambda>c. \<not> isSpace c) name"

text \<open>
  The branches of the chain of tests on the name of an object. Each of them is given the
  object and the state of the load; the branches that only read numbers cannot throw.
\<close>

text \<open>\<open>name === "car"\<close>\<close>

definition placeCar :: "json \<Rightarrow> loadState \<Rightarrow> loadState option" where
  "placeCar obj st =
     do {
       cx \<leftarrow> numOr (member obj ''x'') (posX (car (glob st)));
       cy \<leftarrow> numOr (member obj ''y'') (posY (car (glob st)));
       let ang = (case member obj ''rotation'' of
                    Some (JNum rot) \<Rightarrow> degToRad rot
                  | _ \<Rightarrow> angle (car (glob st)));
       Some (st\<lparr> foundObjects := True,
                 glob := (glob st)\<lparr> hasMapObjects := True,
                           car := (car (glob st))\<lparr> posX := cx, posY := cy, angle := ang \<rparr>,
                           startSpawn := \<lparr> poseX = cx, poseY = cy, poseAngle = ang \<rparr> \<rparr> \<rparr>)
     }"

text \<open>\<open>/^checkpoint\d+$/.test(name)\<close>\<close>

definition placeNumberedCheckpoint :: "string \<Rightarrow> json \<Rightarrow> loadState \<Rightarrow> loadState option" where
  "placeNumberedCheckpoint name obj st =
     do {
       x1 \<leftarrow> numOr (member obj ''x'') 0;
       y1 \<leftarrow> numOr (member obj ''y'') 0;
       w \<leftarrow> numOr (member obj ''width'') 0;
       h \<leftarrow> numOr (member obj ''height'') 0;
       let idx = parseDigits (drop 10 name);
       Some (st\<lparr> foundObjects := True,
                 glob := (glob st)\<lparr> hasMapObjects := True \<rparr>,
                 newAICheckpoints := newAICheckpoints st
                   @ [(idx, \<lparr> px = x1 + w / 2, py = y1 + h / 2 \<rparr>)],
                 newMapCheckpoints := newMapCheckpoints st
                   @ [(idx, \<lparr> cpX1 = x1, cpY1 = y1, cpX2 = x1 + w, cpY2 = y1 + h \<rparr>)] \<rparr>)
     }"

text \<open>\<open>nameCompact\<close> is \<open>tracklimitbox\<close>, \<open>tracklimit\<close> or \<open>tracklimit2\<close>.\<close>

definition placeTrackLimit :: "json \<Rightarrow> loadState \<Rightarrow> loadState option" where
  "placeTrackLimit obj st =
     do {
       w \<leftarrow> numOr (member obj ''width'') 0;
       h \<leftarrow> numOr (member obj ''height'') 0;
       x \<leftarrow> (if w > 0 \<and> h > 0 then numOr (member obj ''x'') 0 else Some 0);
       y \<leftarrow> (if w > 0 \<and> h > 0 then numOr (member obj ''y'') 0 else Some 0);
       Some (st\<lparr> foundObjects := True,
                 glob := (glob st)\<lparr> hasMapObjects := True \<rparr>,
                 newObstacles :=
                   (if w > 0 \<and> h > 0 then newObstacles st @ [Rect x y w h]
                    else newObstacles st) \<rparr>)
     }"

text \<open>\<open>name === "ai_spawn"\<close>\<close>

definition placeAISpawn :: "json \<Rightarrow> loadState \<Rightarrow> loadState option" where
  "placeAISpawn obj st =
     do {
       x \<leftarrow> numOr (member obj ''x'') 0;
       y \<leftarrow> numOr (member obj ''y'') 0;
       Some (st\<lparr> newAISpawns := newAISpawns st
                   @ [\<lparr> poseX = x, poseY = y,
                        poseAngle = (case member obj ''rotation'' of
                                       Some (JNum rot) \<Rightarrow> degToRad rot
                                     | _ \<Rightarrow> 0) \<rparr>] \<rparr>)
     }"

text \<open>
  \<open>name === "obstacle"\<close>: \<open>hasMapObjects\<close> is set before getObjectProperty searches the
  properties of the object, which may throw.
\<close>

definition placeObstacle :: "json \<Rightarrow> loadState \<Rightarrow> loadState step" where
  "placeObstacle obj st =
     (let st1 = st\<lparr> foundObjects := True, glob := (glob st)\<lparr> hasMapObjects := True \<rparr> \<rparr>
      in case getObjectProperty obj ''radius'' of
           Raised \<Rightarrow> Thrown (glob st1)
         | Beyond \<Rightarrow> Outside
         | Done r \<Rightarrow>
             orOutside (do {
               x \<leftarrow> numOr (member obj ''x'') 0;
               y \<leftarrow> numOr (member obj ''y'') 0;
               Some (st1\<lparr> newObstacles := newObstacles st1 @ [Circle x y (numberOr r 18)] \<rparr>)
             }))"

text \<open>
  \<open>p.x\<close> and \<open>p.y\<close> of a point of a polyline, where the code adds them to a number: the
  read throws if the point is \<open>null\<close>; coordinates that are not numbers are outside the
  model.
\<close>

definition pointOf :: "json \<Rightarrow> point attempt" where
  "pointOf p =
     (if p = JNull then Raised
      else (case (member p ''x'', member p ''y'') of
              (Some (JNum x), Some (JNum y)) \<Rightarrow> Done \<lparr> px = x, py = y \<rparr>
            | _ \<Rightarrow> Beyond))"

text \<open>
  \<open>name === "checkpoint"\<close>: with a polyline of at least two points the checkpoint runs
  from its first point to its last point, otherwise along the diagonal of the object.
  \<open>hasMapObjects\<close> is set before the points are read.
\<close>

definition placeCheckpoint :: "json \<Rightarrow> loadState \<Rightarrow> loadState step" where
  "placeCheckpoint obj st =
     (let st1 = st\<lparr> foundObjects := True, glob := (glob st)\<lparr> hasMapObjects := True \<rparr> \<rparr>
      in case (numOr (member obj ''x'') 0, numOr (member obj ''y'') 0) of
           (Some baseX, Some baseY) \<Rightarrow>
             (case member obj ''polyline'' of
                Some (JArr (p # q # ps)) \<Rightarrow>
                  (case pointOf p of
                     Raised \<Rightarrow> Thrown (glob st1)
                   | Beyond \<Rightarrow> Outside
                   | Done p0 \<Rightarrow>
                       (case pointOf (last (q # ps)) of
                          Raised \<Rightarrow> Thrown (glob st1)
                        | Beyond \<Rightarrow> Outside
                        | Done p1 \<Rightarrow>
                            Next (st1\<lparr> newMapCheckpoints := newMapCheckpoints st1
                                    @ [(int (length (newMapCheckpoints st1)),
                                        \<lparr> cpX1 = baseX + px p0, cpY1 = baseY + py p0,
                                          cpX2 = baseX + px p1, cpY2 = baseY + py p1 \<rparr>)] \<rparr>)))
              | _ \<Rightarrow>
                  orOutside (do {
                    w \<leftarrow> numOr (member obj ''width'') 0;
                    h \<leftarrow> numOr (member obj ''height'') 0;
                    Some (st1\<lparr> newMapCheckpoints := newMapCheckpoints st1
                            @ [(int (length (newMapCheckpoints st1)),
                                \<lparr> cpX1 = baseX, cpY1 = baseY,
                                  cpX2 = baseX + w, cpY2 = baseY + h \<rparr>)] \<rparr>)
                  }))
         | _ \<Rightarrow> Outside)"

text \<open>
  The body of the loop over the objects of an object layer, for an object that is not a
  tile object: the chain of tests on its name.
\<close>

definition placeObject :: "string \<Rightarrow> json \<Rightarrow> loadState \<Rightarrow> loadState step" where
  "placeObject name obj st =
     (let nameCompact = compactName name
      in if name = ''car'' then orOutside (placeCar obj st)
         else if isCheckpointN name then orOutside (placeNumberedCheckpoint name obj st)
         else if nameCompact = ''tracklimitbox'' \<or> nameCompact = ''tracklimit''
                 \<or> nameCompact = ''tracklimit2'' then orOutside (placeTrackLimit obj st)
         else if name = ''ai_spawn'' then orOutside (placeAISpawn obj st)
         else if name = ''obstacle'' then placeObstacle obj st
         else if name = ''checkpoint'' then placeCheckpoint obj st
         else Next st)"

text \<open>
  The body of the loop over the objects of an object layer. The read of \<open>obj.gid\<close>
  throws if the object is \<open>null\<close>, and the name of an object that is not a tile object
  throws if it is not a string.
\<close>

definition processObject ::
  "tilesetMeta list \<Rightarrow> (int \<rightharpoonup> string) \<Rightarrow> json \<Rightarrow> loadState \<Rightarrow> loadState step" where
  "processObject meta imgs obj st =
     (if obj = JNull then Thrown (glob st)
      else (case member obj ''gid'' of
              Some (JNum rawGid) \<Rightarrow>
                (case tileOfObject meta imgs obj rawGid of
                   None \<Rightarrow> Outside
                 | Some None \<Rightarrow> Next st
                 | Some (Some tile) \<Rightarrow> Next (st\<lparr> newTiles := newTiles st @ [tile] \<rparr>))
            | _ \<Rightarrow>
                (case objectName obj of
                   Raised \<Rightarrow> Thrown (glob st)
                 | Beyond \<Rightarrow> Outside
                 | Done name \<Rightarrow> placeObject name obj st)))"

fun processObjects ::
  "tilesetMeta list \<Rightarrow> (int \<rightharpoonup> string) \<Rightarrow> json list \<Rightarrow> loadState \<Rightarrow> loadState step" where
  "processObjects meta imgs [] st = Next st"
| "processObjects meta imgs (obj # objs) st =
     (case processObject meta imgs obj st of
        Next st1 \<Rightarrow> processObjects meta imgs objs st1
      | Thrown g \<Rightarrow> Thrown g
      | Outside \<Rightarrow> Outside)"

text \<open>
  \<open>objects.find((o) => (o.name || "").toLowerCase() === "track_path" && o.polyline)\<close>:
  the callback throws on an entry that is \<open>null\<close> or whose name is not a string, if the
  search reaches it.
\<close>

fun findTrackPath :: "json list \<Rightarrow> json option attempt" where
  "findTrackPath [] = Done None"
| "findTrackPath (obj # objs) =
     (if obj = JNull then Raised
      else (case lowerOr (member obj ''name'') of
              Raised \<Rightarrow> Raised
            | Beyond \<Rightarrow> Beyond
            | Done name \<Rightarrow>
                (if name = ''track_path'' \<and> truthy (member obj ''polyline'') then Done (Some obj)
                 else findTrackPath objs)))"

text \<open>\<open>trackObj.polyline.map((p) => ({ x: baseX + p.x, y: baseY + p.y }))\<close>\<close>

fun pathPoints :: "real \<Rightarrow> real \<Rightarrow> json list \<Rightarrow> point list attempt" where
  "pathPoints baseX baseY [] = Done []"
| "pathPoints baseX baseY (p # ps) =
     (case pointOf p of
        Raised \<Rightarrow> Raised
      | Beyond \<Rightarrow> Beyond
      | Done q \<Rightarrow>
          (case pathPoints baseX baseY ps of
             Raised \<Rightarrow> Raised
           | Beyond \<Rightarrow> Beyond
           | Done path \<Rightarrow> Done (\<lparr> px = baseX + px q, py = baseY + py q \<rparr> # path)))"

text \<open>
  The track path of a layer named \<open>track\<close>, taken from the object \<open>trackObj\<close> that the
  search has found. A polyline that is not an array has no method \<open>map\<close>, and the call
  throws; \<open>trackPath\<close> is assigned before getObjectProperty searches the properties.
\<close>

definition readTrackPath :: "json \<Rightarrow> game \<Rightarrow> game step" where
  "readTrackPath trackObj g =
     (case (numOr (member trackObj ''x'') 0, numOr (member trackObj ''y'') 0) of
        (Some baseX, Some baseY) \<Rightarrow>
          (case member trackObj ''polyline'' of
             Some (JArr ps) \<Rightarrow>
               (case pathPoints baseX baseY ps of
                  Raised \<Rightarrow> Thrown g
                | Beyond \<Rightarrow> Outside
                | Done path \<Rightarrow>
                    (case getObjectProperty trackObj ''trackWidth'' of
                       Raised \<Rightarrow> Thrown (g\<lparr> trackPath := path \<rparr>)
                     | Beyond \<Rightarrow> Outside
                     | Done w \<Rightarrow>
                         Next (case w of
                                 Some (JNum v) \<Rightarrow> g\<lparr> trackPath := path, trackWidth := v \<rparr>
                               | _ \<Rightarrow> g\<lparr> trackPath := path \<rparr>)))
           | _ \<Rightarrow> Thrown g)
      | _ \<Rightarrow> Outside)"

text \<open>
  The end of the body of the loop over the layers, for an object layer: the replacement
  of \<open>obstacles\<close> and \<open>checkpoints\<close> when a gameplay object was found.
\<close>

definition publishObjects :: "loadState \<Rightarrow> loadState" where
  "publishObjects st =
     (if foundObjects st then
        (let g2 = glob st;
             g3 = (if newObstacles st \<noteq> []
                   then g2\<lparr> obstacles := newObstacles st, hasMapObstacles := True \<rparr> else g2);
             g4 = (if newMapCheckpoints st \<noteq> []
                   then g3\<lparr> checkpoints := map snd (sort_key fst (newMapCheckpoints st)),
                            hasMapCheckpoints := True \<rparr>
                   else g3)
         in st\<lparr> glob := g4\<lparr> currentCheckpoint := 0, lastCheckpointIndex := - 1 \<rparr> \<rparr>)
      else st)"

text \<open>
  An object layer: the name of the layer, the search for the track path, the track path
  of a layer named \<open>track\<close>, the loop over the objects, and the replacement of
  \<open>obstacles\<close> and \<open>checkpoints\<close>.
\<close>

definition processObjectGroup ::
  "tilesetMeta list \<Rightarrow> (int \<rightharpoonup> string) \<Rightarrow> json \<Rightarrow> loadState \<Rightarrow> loadState step" where
  "processObjectGroup meta imgs layer st =
     (case lowerOr (member layer ''name'') of
        Raised \<Rightarrow> Thrown (glob st)
      | Beyond \<Rightarrow> Outside
      | Done lname \<Rightarrow>
          (case findTrackPath (arrayOf (member layer ''objects'')) of
             Raised \<Rightarrow> Thrown (glob st)
           | Beyond \<Rightarrow> Outside
           | Done trackObj \<Rightarrow>
               (case (case trackObj of
                        Some tobj \<Rightarrow>
                          if lname = ''track'' then readTrackPath tobj (glob st)
                          else Next (glob st)
                      | None \<Rightarrow> Next (glob st)) of
                  Thrown g \<Rightarrow> Thrown g
                | Outside \<Rightarrow> Outside
                | Next g1 \<Rightarrow>
                    (case processObjects meta imgs (arrayOf (member layer ''objects''))
                            (st\<lparr> glob := g1, newObstacles := [], foundObjects := False \<rparr>) of
                       Thrown g \<Rightarrow> Thrown g
                     | Outside \<Rightarrow> Outside
                     | Next st1 \<Rightarrow> Next (publishObjects st1)))))"

text \<open>The entry pushed to \<open>newTileLayers\<close> for a tile layer with the cells \<open>decoded\<close>.\<close>

definition tileLayerOf :: "json \<Rightarrow> 32 word list \<Rightarrow> tileLayer option" where
  "tileLayerOf layer decoded =
     do {
       w \<leftarrow> intOr (member layer ''width'') 0;
       h \<leftarrow> intOr (member layer ''height'') 0;
       Some \<lparr> layerName = orJson (member layer ''name'') (JStr []),
              layerData = decoded,
              layerWidth = w,
              layerHeight = h,
              opacity = numberOr (member layer ''opacity'') 1,
              visible = (member layer ''visible'' \<noteq> Some (JBool False)) \<rparr>
     }"

text \<open>
  The loop over the layers. The read of \<open>layer.type\<close> throws if the layer is \<open>null\<close>; a
  tile layer whose payload cannot be decoded throws; an object layer throws as described
  above.
\<close>

fun processLayers ::
  "env \<Rightarrow> tilesetMeta list \<Rightarrow> (int \<rightharpoonup> string) \<Rightarrow> json list \<Rightarrow> loadState
     \<Rightarrow> loadState step" where
  "processLayers e meta imgs [] st = Next st"
| "processLayers e meta imgs (layer # layers) st =
     (if layer = JNull then Thrown (glob st)
      else if member layer ''type'' = Some (JStr ''tilelayer'') then
        (case decodeLayerData e layer of
           Raised \<Rightarrow> Thrown (glob st)
         | Beyond \<Rightarrow> Outside
         | Done None \<Rightarrow> processLayers e meta imgs layers st
         | Done (Some []) \<Rightarrow> processLayers e meta imgs layers st
         | Done (Some (c # cells)) \<Rightarrow>
             (case tileLayerOf layer (c # cells) of
                None \<Rightarrow> Outside
              | Some entry \<Rightarrow>
                  processLayers e meta imgs layers
                    (st\<lparr> newTileLayers := newTileLayers st @ [entry] \<rparr>)))
      else if member layer ''type'' \<noteq> Some (JStr ''objectgroup'') then
        processLayers e meta imgs layers st
      else (case processObjectGroup meta imgs layer st of
              Thrown g \<Rightarrow> Thrown g
            | Outside \<Rightarrow> Outside
            | Next st1 \<Rightarrow> processLayers e meta imgs layers st1))"

text \<open>
  \<open>layers.filter((l) => (l.name || "").toLowerCase().includes(sub))\<close>: the callback
  throws on a layer whose name is not a string.
\<close>

fun layersNamed :: "string \<Rightarrow> tileLayer list \<Rightarrow> tileLayer list attempt" where
  "layersNamed sub [] = Done []"
| "layersNamed sub (l # ls) =
     (case lowerOr (Some (layerName l)) of
        Raised \<Rightarrow> Raised
      | Beyond \<Rightarrow> Beyond
      | Done name \<Rightarrow>
          (case layersNamed sub ls of
             Raised \<Rightarrow> Raised
           | Beyond \<Rightarrow> Beyond
           | Done rest \<Rightarrow> Done (if strIncludes name sub then l # rest else rest)))"

text \<open>
  The statements of loadTiledMap after the loop over the layers. The new track tiles and
  tile layers are assigned before the tile layers are filtered by name.
\<close>

definition finishLoad :: "loadState \<Rightarrow> game step" where
  "finishLoad st =
     (let g0 = glob st;
          g1 = (if newTiles st \<noteq> [] then g0\<lparr> tiledTrackTiles := newTiles st \<rparr> else g0);
          g2 = (if newTileLayers st \<noteq> [] then g1\<lparr> tiledTileLayers := newTileLayers st \<rparr> else g1)
      in case layersNamed ''road'' (tiledTileLayers g2) of
           Raised \<Rightarrow> Thrown g2
         | Beyond \<Rightarrow> Outside
         | Done roadLayers \<Rightarrow>
             (case layersNamed ''ground'' (tiledTileLayers g2) of
                Raised \<Rightarrow> Thrown (g2\<lparr> tiledRoadLayers := roadLayers \<rparr>)
              | Beyond \<Rightarrow> Outside
              | Done groundLayers \<Rightarrow>
                  (let g3 = g2\<lparr> tiledRoadLayers := roadLayers,
                                tiledGroundLayers := groundLayers,
                                aiSpawnPoints := newAISpawns st,
                                aiCheckpoints := map snd (sort_key fst (newAICheckpoints st)) \<rparr>
                   in Next (if tiledTrackTiles g3 \<noteq> [] \<and> \<not> hasMapObjects g3
                            then g3\<lparr> obstacles := [], checkpoints := [],
                                     hasMapObstacles := False, hasMapCheckpoints := False,
                                     currentCheckpoint := 0, lastCheckpointIndex := - 1 \<rparr>
                            else g3))))"

text \<open>How a call of loadTiledMap ends: at the end of its guarded block, or before.\<close>

datatype outcome = Completed | Abandoned

text \<open>
  The lap count after \<open>if (lapProp && typeof lapProp.value === "number") raceLaps = ...\<close>,
  for the result \<open>lapProp\<close> of the search.
\<close>

definition lapsFrom :: "json option \<Rightarrow> int \<Rightarrow> int" where
  "lapsFrom lapProp laps =
     (case lapProp of
        Some p \<Rightarrow> (case member p ''value'' of Some (JNum v) \<Rightarrow> max 1 \<lfloor>v\<rfloor> | _ \<Rightarrow> laps)
      | None \<Rightarrow> laps)"

text \<open>
  The assignments to the tileset and size variables, for the sorted \<open>tilesetMeta\<close> and
  the loaded \<open>tilesetImages\<close>.
\<close>

definition storeSizes ::
  "json \<Rightarrow> tilesetMeta list \<Rightarrow> (int \<rightharpoonup> string) \<Rightarrow> game \<Rightarrow> game option" where
  "storeSizes m tilesetMeta tilesetImages g =
     do {
       tw \<leftarrow> intOr (member m ''tilewidth'') 32;
       th \<leftarrow> intOr (member m ''tileheight'') 32;
       w \<leftarrow> intOr (member m ''width'') 0;
       h \<leftarrow> intOr (member m ''height'') 0;
       let tiles = widenTiles tilesetMeta (tw, th);
       let g2 = g\<lparr> tiledTilesetMeta := tilesetMeta,
                   tiledTilesetImages := tilesetImages,
                   tiledMapTileWidth := fst tiles,
                   tiledMapTileHeight := snd tiles,
                   tiledMapWidth := w,
                   tiledMapHeight := h \<rparr>;
       Some (if w \<noteq> 0 \<and> h \<noteq> 0
             then g2\<lparr> worldWidth := w * fst tiles, worldHeight := h * snd tiles \<rparr>
             else g2)
     }"

text \<open>
  The statements of loadTiledMap on a parsed document \<open>m\<close> before the loop over the
  layers: the lap count, the tilesets and their images, the tile size, the map size and
  the world size. The read of \<open>map.properties\<close> throws if the document is \<open>null\<close>.
\<close>

definition beginLoad :: "env \<Rightarrow> json \<Rightarrow> game \<Rightarrow> game step" where
  "beginLoad e m g =
     (if m = JNull then Thrown g
      else (case findNamed (arrayOf (member m ''properties'')) ''laps'' of
              Raised \<Rightarrow> Thrown g
            | Beyond \<Rightarrow> Outside
            | Done lapProp \<Rightarrow>
                (let g1 = g\<lparr> raceLaps := lapsFrom lapProp (raceLaps g) \<rparr>
                 in case tilesetMetas m (arrayOf (member m ''tilesets'')) of
                      Raised \<Rightarrow> Thrown g1
                    | Beyond \<Rightarrow> Outside
                    | Done metas \<Rightarrow>
                        (case loadTilesetImages e (sort_key firstgid metas) Map.empty of
                           Raised \<Rightarrow> Thrown g1
                         | Beyond \<Rightarrow> Outside
                         | Done tilesetImages \<Rightarrow>
                             orOutside (storeSizes m (sort_key firstgid metas)
                                          tilesetImages g1)))))"

text \<open>
  \<open>loadTiledMap(mapFile)\<close>, for what the request for \<open>mapFile\<close> delivers. The function
  returns nothing; its effect is the module state it leaves. The local arrays
  \<open>tilesetMeta\<close> and \<open>tilesetImages\<close> that the loop reads are the ones just stored in
  \<open>tiledTilesetMeta\<close> and \<open>tiledTilesetImages\<close>. The result is \<open>None\<close> for a document
  outside the model.
\<close>

definition loadTiledMap :: "env \<Rightarrow> fetched \<Rightarrow> game \<Rightarrow> (outcome \<times> game) option" where
  "loadTiledMap e res g =
     (case res of
        FetchError \<Rightarrow> Some (Abandoned, g)
      | NotOk \<Rightarrow> Some (Abandoned, g)
      | InvalidJson \<Rightarrow> Some (Abandoned, g)
      | Document m \<Rightarrow>
          (case beginLoad e m g of
             Thrown t \<Rightarrow> Some (Abandoned, t)
           | Outside \<Rightarrow> None
           | Next g3 \<Rightarrow>
               (case processLayers e (tiledTilesetMeta g3) (tiledTilesetImages g3)
                       (arrayOf (member m ''layers''))
                       \<lparr> glob = g3, newTiles = [], newTileLayers = [], newAISpawns = [],
                         newAICheckpoints = [], newMapCheckpoints = [], newObstacles = [],
                         foundObjects = False \<rparr> of
                  Thrown t \<Rightarrow> Some (Abandoned, t)
                | Outside \<Rightarrow> None
                | Next st \<Rightarrow>
                    (case finishLoad st of
                       Thrown t \<Rightarrow> Some (Abandoned, t)
                     | Outside \<Rightarrow> None
                     | Next g4 \<Rightarrow> Some (Completed, g4)))))"

section \<open>Initial values\<close>

text \<open>
  The values the module-level variables are declared with, before any map is loaded and
  before the race starts.
\<close>

definition initialGame :: game where
  "initialGame =
     \<lparr> started = False,
       countdownActive = False,
       car = \<lparr> posX = 320, posY = 360, angle = degToRad 0, speed = 0, radius = 18 \<rparr>,
       obstacles = [Circle 420 260 18, Circle 880 220 18, Circle 960 500 18, Circle 520 520 18],
       trackWidth = 110,
       trackPath =
         [\<lparr> px = 180, py = 200 \<rparr>, \<lparr> px = 980, py = 200 \<rparr>, \<lparr> px = 980, py = 360 \<rparr>,
          \<lparr> px = 760, py = 360 \<rparr>, \<lparr> px = 760, py = 520 \<rparr>, \<lparr> px = 300, py = 520 \<rparr>,
          \<lparr> px = 300, py = 360 \<rparr>, \<lparr> px = 540, py = 360 \<rparr>, \<lparr> px = 540, py = 200 \<rparr>,
          \<lparr> px = 180, py = 200 \<rparr>],
       checkpoints =
         [\<lparr> cpX1 = 260, cpY1 = 260, cpX2 = 260, cpY2 = 500 \<rparr>,
          \<lparr> cpX1 = 980, cpY1 = 260, cpX2 = 980, cpY2 = 480 \<rparr>,
          \<lparr> cpX1 = 360, cpY1 = 200, cpX2 = 700, cpY2 = 200 \<rparr>,
          \<lparr> cpX1 = 360, cpY1 = 560, cpX2 = 700, cpY2 = 560 \<rparr>],
       hasMapObstacles = False,
       hasMapCheckpoints = False,
       hasMapObjects = False,
       startSpawn = \<lparr> poseX = 320, poseY = 360, poseAngle = degToRad 0 \<rparr>,
       aiSpawnPoints = [],
       aiCars = [],
       aiCheckpoints = [],
       raceLaps = 3,
       trackSegments = [],
       trackLength = 0,
       currentCheckpoint = 0,
       lastCheckpointIndex = - 1,
       lap = 1,
       lastX = 320,
       lastY = 360,
       worldWidth = 1280,
       worldHeight = 720,
       tiledTrackTiles = [],
       tiledTileLayers = [],
       tiledRoadLayers = [],
       tiledGroundLayers = [],
       tiledTilesetMeta = [],
       tiledTilesetImages = Map.empty,
       tiledMapTileWidth = 32,
       tiledMapTileHeight = 32,
       tiledMapWidth = 0,
       tiledMapHeight = 0 \<rparr>"

text \<open>No key held, the stick centered, no pedal pressed.\<close>

definition noInput :: controls where
  "noInput = \<lparr> keyUp = False, keyDown = False, keyLeft = False, keyRight = False,
               stickValueX = 0, accelPressed = False, brakePressed = False \<rparr>"

section \<open>Example inputs\<close>

text \<open>
  A running race with the car just below the third default checkpoint (the segment from
  (360,200) to (700,200)), heading in the direction of increasing \<open>y\<close> at speed 300.
\<close>

definition skipGame :: game where
  "skipGame = initialGame\<lparr> started := True,
      car := \<lparr> posX = 500, posY = 195, angle = pi / 2, speed = 300, radius = 18 \<rparr> \<rparr>"

text \<open>
  The same car in front of four checkpoints, indexed 0 to 3, that lie across its way at
  \<open>y\<close> = 200, 210, 220 and 230.
\<close>

definition lapGame :: game where
  "lapGame = skipGame\<lparr> checkpoints :=
      [\<lparr> cpX1 = 360, cpY1 = 200, cpX2 = 700, cpY2 = 200 \<rparr>,
       \<lparr> cpX1 = 360, cpY1 = 210, cpX2 = 700, cpY2 = 210 \<rparr>,
       \<lparr> cpX1 = 360, cpY1 = 220, cpX2 = 700, cpY2 = 220 \<rparr>,
       \<lparr> cpX1 = 360, cpY1 = 230, cpX2 = 700, cpY2 = 230 \<rparr>] \<rparr>"

text \<open>The centerline (0,0)-(100,0)-(100,100).\<close>

definition cornerTrack :: game where
  "cornerTrack = initialGame\<lparr> trackPath :=
      [\<lparr> px = 0, py = 0 \<rparr>, \<lparr> px = 100, py = 0 \<rparr>, \<lparr> px = 100, py = 100 \<rparr>] \<rparr>"

text \<open>
  A map of two by one tiles of size 32 with a road layer and a ground layer: the left
  tile has a road tile and a ground tile, the right tile has neither.
\<close>

definition roadLayer :: tileLayer where
  "roadLayer = \<lparr> layerName = JStr ''Road'', layerData = [1, 0], layerWidth = 2, layerHeight = 1,
                 opacity = 1, visible = True \<rparr>"

definition groundLayer :: tileLayer where
  "groundLayer = \<lparr> layerName = JStr ''Ground'', layerData = [7, 0], layerWidth = 2, layerHeight = 1,
                   opacity = 1, visible = True \<rparr>"

definition tiledGame :: game where
  "tiledGame = initialGame\<lparr> started := True,
      car := \<lparr> posX = 40, posY = 10, angle = 0, speed = 440, radius = 18 \<rparr>,
      obstacles := [], checkpoints := [],
      tiledTileLayers := [groundLayer, roadLayer],
      tiledRoadLayers := [roadLayer], tiledGroundLayers := [groundLayer],
      tiledMapWidth := 2, tiledMapHeight := 1 \<rparr>"

text \<open>
  A map that declares no size, with a road layer of one tile and a ground layer of two
  tiles; the second tile of the ground layer is set.
\<close>

definition unsizedGame :: game where
  "unsizedGame = initialGame\<lparr>
      tiledTileLayers :=
        [\<lparr> layerName = JStr ''ground'', layerData = [0, 5], layerWidth = 2, layerHeight = 1,
           opacity = 1, visible = True \<rparr>,
         \<lparr> layerName = JStr ''road'', layerData = [1], layerWidth = 1, layerHeight = 1,
           opacity = 1, visible = True \<rparr>],
      tiledRoadLayers :=
        [\<lparr> layerName = JStr ''road'', layerData = [1], layerWidth = 1, layerHeight = 1,
           opacity = 1, visible = True \<rparr>],
      tiledGroundLayers :=
        [\<lparr> layerName = JStr ''ground'', layerData = [0, 5], layerWidth = 2, layerHeight = 1,
           opacity = 1, visible = True \<rparr>] \<rparr>"

text \<open>
  A browser described on the payloads of the examples: \<open>atob("AQAAAA==")\<close> is the four
  bytes 1, 0, 0, 0, and \<open>atob\<close> throws on every other value; no image loads.
\<close>

definition demoEnv :: env where
  "demoEnv = \<lparr> atob = (\<lambda>v. if v = JStr ''AQAAAA=='' then Some [1, 0, 0, 0] else None),
               hasDecompressionStream = True,
               decompress = (\<lambda>format bytes. None),
               loadImage = (\<lambda>path. False) \<rparr>"

text \<open>The document \<open>{}\<close>.\<close>

definition emptyMap :: json where
  "emptyMap = JObj []"

text \<open>
  A map document without a size that holds the two layers of \<open>unsizedGame\<close> as arrays.
\<close>

definition unsizedMap :: json where
  "unsizedMap = JObj [(''layers'', JArr
      [JObj [(''type'', JStr ''tilelayer''), (''name'', JStr ''ground''),
             (''data'', JArr [JNum 0, JNum 5]), (''width'', JNum 2), (''height'', JNum 1)],
       JObj [(''type'', JStr ''tilelayer''), (''name'', JStr ''road''),
             (''data'', JArr [JNum 1]), (''width'', JNum 1), (''height'', JNum 1)]])]"

text \<open>An object named \<open>obstacle\<close> at (10,10), and an object layer that holds it.\<close>

definition coneObject :: json where
  "coneObject = JObj [(''name'', JStr ''obstacle''), (''x'', JNum 10), (''y'', JNum 10)]"

definition coneLayer :: json where
  "coneLayer = JObj [(''type'', JStr ''objectgroup''), (''name'', JStr ''objects''),
                     (''objects'', JArr [coneObject])]"

text \<open>The map property \<open>"laps": 5\<close>.\<close>

definition fiveLaps :: json where
  "fiveLaps = JObj [(''name'', JStr ''laps''), (''value'', JNum 5)]"

text \<open>
  A tile layer named \<open>road\<close> with a base64 payload, one tile high and \<open>w\<close> tiles wide.
\<close>

definition payloadLayer :: "string \<Rightarrow> real \<Rightarrow> json" where
  "payloadLayer payload w =
     JObj [(''type'', JStr ''tilelayer''), (''name'', JStr ''road''), (''data'', JStr payload),
           (''encoding'', JStr ''base64''), (''width'', JNum w), (''height'', JNum 1)]"

text \<open>
  A map with \<open>"laps": 5\<close>, that object layer, and a tile layer whose payload \<open>"!!!"\<close> is
  not base64.
\<close>

definition brokenMap :: json where
  "brokenMap = JObj [(''width'', JNum 2), (''height'', JNum 1),
                     (''properties'', JArr [fiveLaps]),
                     (''layers'', JArr [coneLayer, payloadLayer ''!!!'' 2])]"

text \<open>The same map with the payload \<open>"AQAAAA=="\<close> and a width of one tile.\<close>

definition smallMap :: json where
  "smallMap = JObj [(''width'', JNum 1), (''height'', JNum 1),
                    (''properties'', JArr [fiveLaps]),
                    (''layers'', JArr [coneLayer, payloadLayer ''AQAAAA=='' 1])]"

text \<open>A map whose only content is \<open>"laps": 0\<close>, and one with \<open>"laps": 2.7\<close>.\<close>

definition zeroLapsMap :: json where
  "zeroLapsMap =
     JObj [(''properties'', JArr [JObj [(''name'', JStr ''laps''), (''value'', JNum 0)]])]"

definition fracLapsMap :: json where
  "fracLapsMap =
     JObj [(''properties'', JArr [JObj [(''name'', JStr ''laps''), (''value'', JNum 2.7)]])]"

text \<open>
  A map whose list of properties has \<open>null\<close> in front of \<open>"laps": 5\<close>.
\<close>

definition nullPropMap :: json where
  "nullPropMap = JObj [(''properties'', JArr [JNull, fiveLaps])]"

text \<open>
  A layer named \<open>track\<close> with the track path (0,0)-(100,0) of width 80, and a layer with
  a car at (50,60) that is rotated by 90 degrees, the obstacle at (10,10) and a checkpoint
  from (1,2) to (4,6).
\<close>

definition trackLayer :: json where
  "trackLayer = JObj [(''type'', JStr ''objectgroup''), (''name'', JStr ''track''),
      (''objects'', JArr
        [JObj [(''name'', JStr ''track_path''),
               (''polyline'', JArr [JObj [(''x'', JNum 0), (''y'', JNum 0)],
                                    JObj [(''x'', JNum 100), (''y'', JNum 0)]]),
               (''properties'', JArr [JObj [(''name'', JStr ''trackWidth''),
                                            (''value'', JNum 80)]])]])]"

definition carObject :: json where
  "carObject = JObj [(''name'', JStr ''car''), (''x'', JNum 50), (''y'', JNum 60),
                     (''rotation'', JNum 90)]"

definition gateObject :: json where
  "gateObject = JObj [(''name'', JStr ''checkpoint''), (''x'', JNum 1), (''y'', JNum 2),
                      (''width'', JNum 3), (''height'', JNum 4)]"

definition objectsLayer :: json where
  "objectsLayer = JObj [(''type'', JStr ''objectgroup''), (''name'', JStr ''objects''),
                        (''objects'', JArr [carObject, coneObject, gateObject])]"

text \<open>
  A map of two by one tiles of 64 by 48 pixels with \<open>"laps": 5\<close>, a tileset named
  \<open>road\<close>, these two layers, and \<open>null\<close> in the place of a third layer.
\<close>

definition halfMap :: json where
  "halfMap = JObj [(''width'', JNum 2), (''height'', JNum 1),
                   (''tilewidth'', JNum 64), (''tileheight'', JNum 48),
                   (''properties'', JArr [fiveLaps]),
                   (''tilesets'', JArr [JObj [(''firstgid'', JNum 1), (''name'', JStr ''road'')]]),
                   (''layers'', JArr [trackLayer, objectsLayer, JNull])]"

text \<open>The same browser, in which every image loads.\<close>

definition imageEnv :: env where
  "imageEnv = demoEnv\<lparr> loadImage := (\<lambda>path. True) \<rparr>"

text \<open>
  A map with a tileset \<open>tiles.png\<close> of two columns, an object layer with a tile object
  at (5,6), and a tile layer of one tile whose name is the number 5.
\<close>

definition numberedMap :: json where
  "numberedMap = JObj
     [(''tilesets'', JArr
        [JObj [(''firstgid'', JNum 1), (''name'', JStr ''tiles''),
               (''image'', JStr ''tiles.png''), (''imagewidth'', JNum 64)]]),
      (''layers'', JArr
        [JObj [(''type'', JStr ''objectgroup''), (''name'', JStr ''decor''),
               (''objects'', JArr [JObj [(''gid'', JNum 1), (''x'', JNum 5), (''y'', JNum 6)]])],
         JObj [(''type'', JStr ''tilelayer''), (''name'', JNum 5), (''data'', JArr [JNum 1]),
               (''width'', JNum 1), (''height'', JNum 1)]])]"

text \<open>
  The module state that the load of \<open>brokenMap\<close> leaves behind, starting from the initial
  values.
\<close>

definition brokenGame :: game where
  "brokenGame = initialGame\<lparr>
      raceLaps := 5, tiledMapWidth := 2, tiledMapHeight := 1, worldWidth := 64,
      worldHeight := 32, hasMapObjects := True, obstacles := [Circle 10 10 18],
      hasMapObstacles := True \<rparr>"

text \<open>The module state after the load of \<open>smallMap\<close>.\<close>

definition smallGame :: game where
  "smallGame = initialGame\<lparr>
      raceLaps := 5, tiledMapWidth := 1, tiledMapHeight := 1, worldWidth := 32,
      worldHeight := 32, hasMapObjects := True, obstacles := [Circle 10 10 18],
      hasMapObstacles := True,
      tiledTileLayers :=
        [\<lparr> layerName = JStr ''road'', layerData = [1], layerWidth = 1, layerHeight = 1,
           opacity = 1, visible = True \<rparr>],
      tiledRoadLayers :=
        [\<lparr> layerName = JStr ''road'', layerData = [1], layerWidth = 1, layerHeight = 1,
           opacity = 1, visible = True \<rparr>] \<rparr>"

text \<open>
  The initial values with two checkpoints passed, and the module state that the load of
  \<open>halfMap\<close> leaves behind when it starts there.
\<close>

definition midRace :: game where
  "midRace = initialGame\<lparr> currentCheckpoint := 2, lastCheckpointIndex := 1 \<rparr>"

definition halfGame :: game where
  "halfGame = midRace\<lparr>
      raceLaps := 5,
      tiledTilesetMeta :=
        [\<lparr> firstgid = 1, tsName = ''road'', tsImage = JNull, imagewidth = 0, imageheight = 0,
           tilewidth = 64, tileheight = 48, spacing = 0, margin = 0, columns = 0,
           tilecount = 0 \<rparr>],
      tiledMapTileWidth := 64, tiledMapTileHeight := 48,
      tiledMapWidth := 2, tiledMapHeight := 1, worldWidth := 128, worldHeight := 48,
      trackPath := [\<lparr> px = 0, py = 0 \<rparr>, \<lparr> px = 100, py = 0 \<rparr>],
      trackWidth := 80,
      hasMapObjects := True,
      car := \<lparr> posX = 50, posY = 60, angle = degToRad 90, speed = 0, radius = 18 \<rparr>,
      startSpawn := \<lparr> poseX = 50, poseY = 60, poseAngle = degToRad 90 \<rparr>,
      obstacles := [Circle 10 10 18], hasMapObstacles := True,
      checkpoints := [\<lparr> cpX1 = 1, cpY1 = 2, cpX2 = 4, cpY2 = 6 \<rparr>],
      hasMapCheckpoints := True,
      currentCheckpoint := 0, lastCheckpointIndex := - 1 \<rparr>"

text \<open>The module state that the load of \<open>numberedMap\<close> leaves behind.\<close>

definition numberedGame :: game where
  "numberedGame = initialGame\<lparr>
      tiledTilesetMeta :=
        [\<lparr> firstgid = 1, tsName = ''tiles'', tsImage = JStr ''tiles.png'', imagewidth = 64,
           imageheight = 0, tilewidth = 32, tileheight = 32, spacing = 0, margin = 0,
           columns = 0, tilecount = 0 \<rparr>],
      tiledTilesetImages := [1 \<mapsto> ''tiles.png''],
      tiledTrackTiles :=
        [\<lparr> tileImg = ''tiles.png'', tileSx = 0, tileSy = 0, tileSw = 32, tileSh = 32,
           tileX = 5, tileY = 6, tileW = 32, tileH = 32, tileRotation = 0,
           tileFlipH = False, tileFlipV = False, tileFlipD = False \<rparr>],
      tiledTileLayers :=
        [\<lparr> layerName = JNum 5, layerData = [1], layerWidth = 1, layerHeight = 1,
           opacity = 1, visible = True \<rparr>] \<rparr>"

section \<open>Notions used in the statements and proofs\<close>

text \<open>
  The index that the movement of one tick crosses: \<open>crossedIndex\<close> of the state after
  integration and collisions, or \<open>-1\<close> when updatePhysics returns at its first line.
\<close>

definition tickCrossed :: "controls \<Rightarrow> real \<Rightarrow> game \<Rightarrow> int" where
  "tickCrossed inp dt g =
     (if \<not> started g \<or> countdownActive g then - 1
      else crossedIndex (collisionPass (integrate inp dt g)))"

text \<open>The checkpoints crossed during a run of ticks, in the order of the ticks.\<close>

fun crossings :: "(controls \<times> real) list \<Rightarrow> game \<Rightarrow> int list" where
  "crossings [] g = []"
| "crossings ((inp, dt) # rest) g =
     (if tickCrossed inp dt g = - 1 then crossings rest (updatePhysics inp dt g)
      else tickCrossed inp dt g # crossings rest (updatePhysics inp dt g))"

text \<open>
  A speed \<open>s\<close> that lies between \<open>lo\<close> and \<open>hi\<close> and is no larger in absolute value
  than \<open>s0\<close>.
\<close>

definition speedWithin :: "real \<Rightarrow> real \<Rightarrow> real \<Rightarrow> real \<Rightarrow> bool" where
  "speedWithin lo hi s0 s \<longleftrightarrow> lo \<le> s \<and> s \<le> hi \<and> \<bar>s\<bar> \<le> \<bar>s0\<bar>"

text \<open>
  A track segment of positive length whose end point is its start point plus its
  direction vector.
\<close>

definition segOk :: "segment \<Rightarrow> bool" where
  "segOk seg \<longleftrightarrow> 0 < segLen seg \<and> px (segB seg) = px (segA seg) + segDx seg
     \<and> py (segB seg) = py (segA seg) + segDy seg"

text \<open>
  The race of \<open>lapGame\<close> with the car at height \<open>y\<close> and speed \<open>v\<close>, the previous
  position at height \<open>ly\<close>, and the progress \<open>c\<close>, \<open>l\<close>, \<open>n\<close>.
\<close>

definition lapState :: "real \<Rightarrow> real \<Rightarrow> real \<Rightarrow> int \<Rightarrow> int \<Rightarrow> int \<Rightarrow> game" where
  "lapState ly y v c l n = lapGame\<lparr>
      car := \<lparr> posX = 500, posY = y, angle = pi / 2, speed = v, radius = 18 \<rparr>,
      currentCheckpoint := c, lastCheckpointIndex := l, lap := n, lastX := 500, lastY := ly \<rparr>"

text \<open>\<open>skipGame\<close> after the movement of one tick of 1/30 s without input.\<close>

definition movedGame :: game where
  "movedGame = skipGame\<lparr> lastX := 500, lastY := 195,
      car := \<lparr> posX = 500, posY = 204.8, angle = pi / 2, speed = 294, radius = 18 \<rparr> \<rparr>"

text \<open>
  The module state that a part of loadTiledMap leaves, whether it runs through or
  throws; \<open>None\<close> outside the model.
\<close>

definition after :: "('a \<Rightarrow> game) \<Rightarrow> 'a step \<Rightarrow> game option" where
  "after f r = (case r of Next x \<Rightarrow> Some (f x) | Thrown g \<Rightarrow> Some g | Outside \<Rightarrow> None)"

text \<open>
  Two module states that agree on every variable that the loop over the layers does not
  assign.
\<close>

definition loopKeeps :: "game \<Rightarrow> game \<Rightarrow> bool" where
  "loopKeeps g g' \<longleftrightarrow>
     raceLaps g' = raceLaps g
     \<and> tiledTilesetMeta g' = tiledTilesetMeta g
     \<and> tiledTilesetImages g' = tiledTilesetImages g
     \<and> tiledMapTileWidth g' = tiledMapTileWidth g
     \<and> tiledMapTileHeight g' = tiledMapTileHeight g
     \<and> tiledMapWidth g' = tiledMapWidth g
     \<and> tiledMapHeight g' = tiledMapHeight g
     \<and> worldWidth g' = worldWidth g
     \<and> worldHeight g' = worldHeight g
     \<and> tiledTrackTiles g' = tiledTrackTiles g
     \<and> tiledTileLayers g' = tiledTileLayers g
     \<and> tiledRoadLayers g' = tiledRoadLayers g
     \<and> tiledGroundLayers g' = tiledGroundLayers g
     \<and> aiSpawnPoints g' = aiSpawnPoints g
     \<and> aiCheckpoints g' = aiCheckpoints g
     \<and> aiCars g' = aiCars g
     \<and> trackSegments g' = trackSegments g
     \<and> trackLength g' = trackLength g
     \<and> started g' = started g
     \<and> countdownActive g' = countdownActive g
     \<and> lap g' = lap g
     \<and> lastX g' = lastX g
     \<and> lastY g' = lastY g
     \<and> speed (car g') = speed (car g)
     \<and> radius (car g') = radius (car g)"

text \<open>
  Two module states that agree on every variable that loadTiledMap assigns only after
  the tile layers have been filtered by name, or never: the road and ground layers, the
  spawn points and checkpoints of the AI cars, the track segments, and the state of the
  race.
\<close>

definition lateKept :: "game \<Rightarrow> game \<Rightarrow> bool" where
  "lateKept g g' \<longleftrightarrow>
     tiledRoadLayers g' = tiledRoadLayers g
     \<and> tiledGroundLayers g' = tiledGroundLayers g
     \<and> aiSpawnPoints g' = aiSpawnPoints g
     \<and> aiCheckpoints g' = aiCheckpoints g
     \<and> aiCars g' = aiCars g
     \<and> trackSegments g' = trackSegments g
     \<and> trackLength g' = trackLength g
     \<and> started g' = started g
     \<and> countdownActive g' = countdownActive g
     \<and> lap g' = lap g
     \<and> lastX g' = lastX g
     \<and> lastY g' = lastY g
     \<and> speed (car g') = speed (car g)
     \<and> radius (car g') = radius (car g)"

text \<open>
  Two module states that agree on the track tiles, the tile layers and the variables
  named above.
\<close>

definition loadKeeps :: "game \<Rightarrow> game \<Rightarrow> bool" where
  "loadKeeps g g' \<longleftrightarrow>
     tiledTrackTiles g' = tiledTrackTiles g
     \<and> tiledTileLayers g' = tiledTileLayers g
     \<and> lateKept g g'"

section \<open>Collision resolution\<close>

lemma hypot_sq: "hypot x y * hypot x y = x * x + y * y"
  by (simp add: hypot_def add_nonneg_nonneg)

lemma hypot_nonneg: "0 \<le> hypot x y"
  by (simp add: hypot_def add_nonneg_nonneg)

lemma hypot_eq_0_iff: "hypot x y = 0 \<longleftrightarrow> x = 0 \<and> y = 0"
  by (simp add: hypot_def add_nonneg_eq_0_iff)


lemma hypot_zero [simp]: "hypot 0 0 = 0"
  by (simp add: hypot_def)

lemma hypot_axis [simp]: "hypot x 0 = \<bar>x\<bar>" "hypot 0 y = \<bar>y\<bar>"
  by (simp_all add: hypot_def)

lemma pushed_norm:
  fixes d dx dy r :: real
  assumes d: "d * d = dx * dx + dy * dy" and nz: "d \<noteq> 0"
  shows "(dx + dx / d * (r - d)) * (dx + dx / d * (r - d))
       + (dy + dy / d * (r - d)) * (dy + dy / d * (r - d)) = r * r"
proof -
  have x: "dx + dx / d * (r - d) = dx * r / d" using nz by (simp add: field_simps)
  have y: "dy + dy / d * (r - d) = dy * r / d" using nz by (simp add: field_simps)
  have "dx * r / d * (dx * r / d) + dy * r / d * (dy * r / d)
        = (dx * dx + dy * dy) * (r * r) / (d * d)"
    by (simp add: add_divide_distrib algebra_simps)
  also have "\<dots> = (d * d) * (r * r) / (d * d)" by (simp only: d)
  also have "\<dots> = r * r" using nz by simp
  finally show ?thesis by (simp only: x y)
qed

lemma circle_push:
  fixes r :: real
  assumes "px a \<noteq> px b \<or> py a \<noteq> py b"
  defines "a' \<equiv> translate a (resolveCircleCollision a b r)"
  shows "(px a' - px b) * (px a' - px b) + (py a' - py b) * (py a' - py b) = r * r"
proof -
  let ?dx = "px a - px b" and ?dy = "py a - py b"
  let ?d = "hypot ?dx ?dy"
  have nz: "?d \<noteq> 0" using assms(1) by (simp add: hypot_eq_0_iff)
  have x: "px a' - px b = ?dx + ?dx / ?d * (r - ?d)"
    using nz by (simp add: a'_def resolveCircleCollision_def translate_def orNum_def Let_def)
  have y: "py a' - py b = ?dy + ?dy / ?d * (r - ?d)"
    using nz by (simp add: a'_def resolveCircleCollision_def translate_def orNum_def Let_def)
  show ?thesis
    unfolding x y by (rule pushed_norm [OF hypot_sq nz])
qed

lemma circle_sep:
  assumes "px a \<noteq> px b \<or> py a \<noteq> py b"
  shows "\<not> circleCircleCollision (translate a (resolveCircleCollision a b r)) b r"
  using circle_push [OF assms, of r] by (simp add: circleCircleCollision_def Let_def)

lemma clamp_push:
  fixes c lo w k :: real
  assumes "0 \<le> w" and "- 1 \<le> k"
  shows "clamp (c + (c - clamp c lo (lo + w)) * k) lo (lo + w) = clamp c lo (lo + w)"
proof -
  consider "c < lo" | "lo \<le> c \<and> c \<le> lo + w" | "lo + w < c" by linarith
  then show ?thesis
  proof cases
    case 1
    then have n: "clamp c lo (lo + w) = lo" using assms by (simp add: clamp_def)
    have "(lo - c) * k \<ge> (lo - c) * (- 1)"
      using 1 assms by (intro mult_left_mono) simp_all
    then have "c + (c - lo) * k \<le> lo" by (simp add: algebra_simps)
    then show ?thesis using assms unfolding n by (simp add: clamp_def)
  next
    case 2
    then have n: "clamp c lo (lo + w) = c" by (simp add: clamp_def)
    show ?thesis unfolding n by (simp add: n)
  next
    case 3
    then have n: "clamp c lo (lo + w) = lo + w" using assms by (simp add: clamp_def)
    have "(c - (lo + w)) * k \<ge> (c - (lo + w)) * (- 1)"
      using 3 assms by (intro mult_left_mono) simp_all
    then have "lo + w \<le> c + (c - (lo + w)) * k" by (simp add: algebra_simps)
    then show ?thesis using assms unfolding n by (simp add: clamp_def)
  qed
qed

lemma rect_push:
  fixes cx cy r rx ry rw rh :: real
  assumes r: "0 \<le> r" and w: "0 \<le> rw" and h: "0 \<le> rh"
    and out: "cx \<noteq> clamp cx rx (rx + rw) \<or> cy \<noteq> clamp cy ry (ry + rh)"
  defines "push \<equiv> resolveCircleRect cx cy r rx ry rw rh"
  shows "\<not> circleRectCollision (cx + px push) (cy + py push) r rx ry rw rh"
proof -
  let ?nx = "clamp cx rx (rx + rw)" and ?ny = "clamp cy ry (ry + rh)"
  let ?dx = "cx - ?nx" and ?dy = "cy - ?ny"
  let ?d = "hypot ?dx ?dy"
  have nz: "?d \<noteq> 0" using out by (simp add: hypot_eq_0_iff)
  then have pos: "0 < ?d" using hypot_nonneg [of ?dx ?dy] by linarith
  let ?k = "(r - ?d) / ?d"
  have k: "- 1 \<le> ?k" using pos r by (simp add: field_simps)
  have px: "px push = ?dx * ?k" and py: "py push = ?dy * ?k"
    using nz by (simp_all add: push_def resolveCircleRect_def orNum_def Let_def)
  have nx': "clamp (cx + px push) rx (rx + rw) = ?nx"
    unfolding px by (rule clamp_push [OF w k])
  have ny': "clamp (cy + py push) ry (ry + rh) = ?ny"
    unfolding py by (rule clamp_push [OF h k])
  have n: "(?dx + ?dx / ?d * (r - ?d)) * (?dx + ?dx / ?d * (r - ?d))
      + (?dy + ?dy / ?d * (r - ?d)) * (?dy + ?dy / ?d * (r - ?d)) = r * r"
    by (rule pushed_norm [OF hypot_sq nz])
  have ex: "cx + px push - ?nx = ?dx + ?dx / ?d * (r - ?d)" unfolding px by simp
  have ey: "cy + py push - ?ny = ?dy + ?dy / ?d * (r - ?d)" unfolding py by simp
  have "(cx + px push - ?nx) * (cx + px push - ?nx)
      + (cy + py push - ?ny) * (cy + py push - ?ny) = r * r"
    unfolding ex ey by (rule n)
  then show ?thesis
    unfolding circleRectCollision_def Let_def nx' ny' by simp
qed


text \<open>
  C2, as the code has it. With the two centers coincident, \<open>dx\<close> and \<open>dy\<close> are zero and
  the zero distance is replaced by the divisor 1, so the translation returned by
  resolveCircleCollision is the zero vector for every radius sum: the resolution leaves
  the vehicle where it is, at distance 0 from the obstacle center. The same holds for
  resolveCircleRect when the circle center is its own nearest point of the rectangle.
\<close>

theorem resolve_coincident_is_zero:
  "resolveCircleCollision a a r = \<lparr> px = 0, py = 0 \<rparr>
   \<and> translate a (resolveCircleCollision a a r) = a
   \<and> resolveCircleRect cx cy r cx cy 0 0 = \<lparr> px = 0, py = 0 \<rparr>"
  by (simp add: resolveCircleCollision_def resolveCircleRect_def translate_def
      orNum_def clamp_def Let_def)

text \<open>C2, at the obstacle (100,100) with radius 18 and a vehicle of radius 18.\<close>

theorem resolve_coincident_is_zero_witness:
  "resolveCircleCollision \<lparr> px = 100, py = 100 \<rparr> \<lparr> px = 100, py = 100 \<rparr> (18 + 18)
     = \<lparr> px = 0, py = 0 \<rparr>
   \<and> resolveCircleRect 100 100 (18 + 18) 100 100 0 0 = \<lparr> px = 0, py = 0 \<rparr>"
  using resolve_coincident_is_zero [of "\<lparr> px = 100, py = 100 \<rparr>" "18 + 18" 100 100]
  by simp

text \<open>
  C2, the claim as stated fails. Obstacle circle at (100,100) with radius 18, vehicle
  circle of radius 18 at (100,100): the pair is reported as overlapping, and after the
  resolution translation the vehicle is still at (100,100), at distance 0 from the
  obstacle center, not 36.
\<close>

theorem resolve_coincident_counterexample:
  "circleCircleCollision \<lparr> px = 100, py = 100 \<rparr> \<lparr> px = 100, py = 100 \<rparr> (18 + 18)
   \<and> translate \<lparr> px = 100, py = 100 \<rparr>
        (resolveCircleCollision \<lparr> px = 100, py = 100 \<rparr> \<lparr> px = 100, py = 100 \<rparr> (18 + 18))
      = \<lparr> px = 100, py = 100 \<rparr>
   \<and> hypot (px (translate \<lparr> px = 100, py = 100 \<rparr>
        (resolveCircleCollision \<lparr> px = 100, py = 100 \<rparr> \<lparr> px = 100, py = 100 \<rparr> (18 + 18))) - 100)
        (py (translate \<lparr> px = 100, py = 100 \<rparr>
        (resolveCircleCollision \<lparr> px = 100, py = 100 \<rparr> \<lparr> px = 100, py = 100 \<rparr> (18 + 18))) - 100)
      \<noteq> 36"
  by (simp add: resolveCircleCollision_def circleCircleCollision_def translate_def
      orNum_def Let_def)

text \<open>
  C5, for the pairs the resolution moves. For two circles whose centers differ, and for a
  circle of radius at least 0 and a rectangle of width and height at least 0 whose
  nearest point to the circle center is not the center itself (the center is outside the
  rectangle), the circle translated by the vector of resolveCircleCollision, or of
  resolveCircleRect, is no longer reported as overlapping by the collision test: its
  distance to the other center, or to the rectangle, is the radius sum.
\<close>

theorem resolution_separates:
  "(px a \<noteq> px b \<or> py a \<noteq> py b \<longrightarrow>
      \<not> circleCircleCollision (translate a (resolveCircleCollision a b r)) b r)
   \<and> (0 \<le> r \<and> 0 \<le> rw \<and> 0 \<le> rh
        \<and> (cx \<noteq> clamp cx rx (rx + rw) \<or> cy \<noteq> clamp cy ry (ry + rh)) \<longrightarrow>
      \<not> circleRectCollision (cx + px (resolveCircleRect cx cy r rx ry rw rh))
            (cy + py (resolveCircleRect cx cy r rx ry rw rh)) r rx ry rw rh)"
proof (intro conjI impI)
  assume "px a \<noteq> px b \<or> py a \<noteq> py b"
  then show "\<not> circleCircleCollision (translate a (resolveCircleCollision a b r)) b r"
    by (rule circle_sep)
next
  assume h: "0 \<le> r \<and> 0 \<le> rw \<and> 0 \<le> rh
    \<and> (cx \<noteq> clamp cx rx (rx + rw) \<or> cy \<noteq> clamp cy ry (ry + rh))"
  then have "0 \<le> r" "0 \<le> rw" "0 \<le> rh"
    "cx \<noteq> clamp cx rx (rx + rw) \<or> cy \<noteq> clamp cy ry (ry + rh)" by simp_all
  then show "\<not> circleRectCollision (cx + px (resolveCircleRect cx cy r rx ry rw rh))
            (cy + py (resolveCircleRect cx cy r rx ry rw rh)) r rx ry rw rh"
    by (rule rect_push)
qed


text \<open>
  C5, at a vehicle 10 to the left of an obstacle center with radius sum 36, and at a
  circle of radius 18 whose center is 5 above the rectangle from (0,0) to (100,100):
  both pairs overlap before the translation and do not overlap after it.
\<close>

theorem resolution_separates_witness:
  "circleCircleCollision \<lparr> px = 100, py = 100 \<rparr> \<lparr> px = 110, py = 100 \<rparr> 36
   \<and> translate \<lparr> px = 100, py = 100 \<rparr>
        (resolveCircleCollision \<lparr> px = 100, py = 100 \<rparr> \<lparr> px = 110, py = 100 \<rparr> 36)
       = \<lparr> px = 74, py = 100 \<rparr>
   \<and> \<not> circleCircleCollision \<lparr> px = 74, py = 100 \<rparr> \<lparr> px = 110, py = 100 \<rparr> 36
   \<and> circleRectCollision 50 (- 5) 18 0 0 100 100
   \<and> resolveCircleRect 50 (- 5) 18 0 0 100 100 = \<lparr> px = 0, py = - 13 \<rparr>
   \<and> \<not> circleRectCollision (50 + 0) (- 5 + - 13) 18 0 0 100 100"
proof -
  have t: "translate \<lparr> px = 100, py = 100 \<rparr>
        (resolveCircleCollision \<lparr> px = 100, py = 100 \<rparr> \<lparr> px = 110, py = 100 \<rparr> 36)
       = \<lparr> px = 74, py = 100 \<rparr>"
    by (simp add: resolveCircleCollision_def translate_def orNum_def Let_def)
  have p: "resolveCircleRect 50 (- 5) 18 0 0 100 100 = \<lparr> px = 0, py = - 13 \<rparr>"
    by (simp add: resolveCircleRect_def clamp_def orNum_def Let_def)
  have c: "\<not> circleCircleCollision (translate \<lparr> px = 100, py = 100 \<rparr>
        (resolveCircleCollision \<lparr> px = 100, py = 100 \<rparr> \<lparr> px = 110, py = 100 \<rparr> 36))
        \<lparr> px = 110, py = 100 \<rparr> 36"
    using resolution_separates [where a = "\<lparr> px = 100, py = 100 \<rparr>"
      and b = "\<lparr> px = 110, py = 100 \<rparr>" and r = 36]
    by simp
  have n: "(50::real) \<noteq> clamp 50 0 (0 + 100) \<or> (- 5::real) \<noteq> clamp (- 5) 0 (0 + 100)"
    by (simp add: clamp_def)
  have r: "\<not> circleRectCollision (50 + px (resolveCircleRect 50 (- 5) 18 0 0 100 100))
            (- 5 + py (resolveCircleRect 50 (- 5) 18 0 0 100 100)) 18 0 0 100 100"
    using resolution_separates [where r = 18 and rw = 100 and rh = 100 and cx = 50 and cy = "- 5"
      and rx = 0 and ry = 0] n
    by simp
  have o: "circleCircleCollision \<lparr> px = 100, py = 100 \<rparr> \<lparr> px = 110, py = 100 \<rparr> 36"
    "circleRectCollision 50 (- 5) 18 0 0 100 100"
    by (simp_all add: circleCircleCollision_def circleRectCollision_def clamp_def Let_def)
  show ?thesis
    using c r o unfolding t p by simp
qed


text \<open>
  C5, the claim as stated fails. A circle of radius 18 centered at (50,50), inside the
  rectangle from (0,0) to (100,100), is reported as overlapping; the translation is the
  zero vector and the translated circle is still reported as overlapping. The same
  happens for two circles with the same center.
\<close>

theorem resolution_inside_counterexample:
  "circleRectCollision 50 50 18 0 0 100 100
   \<and> resolveCircleRect 50 50 18 0 0 100 100 = \<lparr> px = 0, py = 0 \<rparr>
   \<and> circleRectCollision (50 + px (resolveCircleRect 50 50 18 0 0 100 100))
         (50 + py (resolveCircleRect 50 50 18 0 0 100 100)) 18 0 0 100 100
   \<and> circleCircleCollision \<lparr> px = 7, py = 9 \<rparr> \<lparr> px = 7, py = 9 \<rparr> 36
   \<and> circleCircleCollision
         (translate \<lparr> px = 7, py = 9 \<rparr>
            (resolveCircleCollision \<lparr> px = 7, py = 9 \<rparr> \<lparr> px = 7, py = 9 \<rparr> 36))
         \<lparr> px = 7, py = 9 \<rparr> 36"
  by (simp add: circleCircleCollision_def resolveCircleCollision_def translate_def
      circleRectCollision_def resolveCircleRect_def clamp_def orNum_def Let_def)


section \<open>Checkpoint progress\<close>

lemma integrate_fields:
  "checkpoints (integrate inp dt g) = checkpoints g"
  "currentCheckpoint (integrate inp dt g) = currentCheckpoint g"
  "lastCheckpointIndex (integrate inp dt g) = lastCheckpointIndex g"
  "lap (integrate inp dt g) = lap g"
  "started (integrate inp dt g) = started g"
  "countdownActive (integrate inp dt g) = countdownActive g"
  "startSpawn (integrate inp dt g) = startSpawn g"
  by (simp_all add: integrate_def Let_def)

lemma collisionPass_fields:
  "checkpoints (collisionPass g) = checkpoints g"
  "currentCheckpoint (collisionPass g) = currentCheckpoint g"
  "lastCheckpointIndex (collisionPass g) = lastCheckpointIndex g"
  "lap (collisionPass g) = lap g"
  "started (collisionPass g) = started g"
  "countdownActive (collisionPass g) = countdownActive g"
  "startSpawn (collisionPass g) = startSpawn g"
  "lastX (collisionPass g) = lastX g"
  "lastY (collisionPass g) = lastY g"
  by (simp_all add: collisionPass_def)

lemma respawn_fields:
  "checkpoints (respawnToCheckpoint i g) = checkpoints g"
  "currentCheckpoint (respawnToCheckpoint i g) = currentCheckpoint g"
  "lastCheckpointIndex (respawnToCheckpoint i g) = lastCheckpointIndex g"
  "lap (respawnToCheckpoint i g) = lap g"
  "started (respawnToCheckpoint i g) = started g"
  "countdownActive (respawnToCheckpoint i g) = countdownActive g"
  "startSpawn (respawnToCheckpoint i g) = startSpawn g"
  "speed (car (respawnToCheckpoint i g)) = 0"
  by (simp_all add: respawnToCheckpoint_def Let_def)

lemma crossedFrom_range:
  "crossedFrom lx ly cx cy cps i = - 1 \<or>
   (i \<le> crossedFrom lx ly cx cy cps i \<and> crossedFrom lx ly cx cy cps i < i + int (length cps))"
  if "0 \<le> i"
  using that
proof (induction cps arbitrary: i)
  case Nil
  then show ?case by simp
next
  case (Cons cp cps)
  show ?case
  proof (cases "segmentIntersect lx ly cx cy (cpX1 cp) (cpY1 cp) (cpX2 cp) (cpY2 cp)")
    case True
    then show ?thesis by simp
  next
    case False
    have "0 \<le> i + 1" using Cons.prems by simp
    from Cons.IH [OF this] False show ?thesis by auto
  qed
qed

lemma crossedIndex_range:
  "crossedIndex g = - 1 \<or> (0 \<le> crossedIndex g \<and> crossedIndex g < int (length (checkpoints g)))"
  using crossedFrom_range [of 0 "lastX g" "lastY g" "posX (car g)" "posY (car g)" "checkpoints g"]
  by (simp add: crossedIndex_def)

lemma applyCrossing_fields:
  "checkpoints (applyCrossing i g) = checkpoints g"
  "started (applyCrossing i g) = started g"
  "countdownActive (applyCrossing i g) = countdownActive g"
  "startSpawn (applyCrossing i g) = startSpawn g"
  by (simp_all add: applyCrossing_def respawn_fields)

lemma applyCrossing_current:
  "currentCheckpoint (applyCrossing i g) =
     (if i \<noteq> - 1 \<and> i = currentCheckpoint g
      then (if currentCheckpoint g + 1 \<ge> int (length (checkpoints g)) then 0 else currentCheckpoint g + 1)
      else currentCheckpoint g)"
  by (simp add: applyCrossing_def respawn_fields)

lemma applyCrossing_lap:
  "lap (applyCrossing i g) =
     (if i \<noteq> - 1 \<and> i = currentCheckpoint g \<and> currentCheckpoint g + 1 \<ge> int (length (checkpoints g))
      then lap g + 1 else lap g)"
  by (simp add: applyCrossing_def respawn_fields)

lemma step_mod:
  fixes c n :: int
  assumes "0 \<le> c" "c < n"
  shows "(if c + 1 \<ge> n then 0 else c + 1) = (c + 1) mod n"
proof (cases "c + 1 \<ge> n")
  case True
  then have "c + 1 = n" using assms by simp
  then show ?thesis by simp
next
  case False
  then show ?thesis using assms by simp
qed

lemma updatePhysics_running:
  "started g \<Longrightarrow> \<not> countdownActive g \<Longrightarrow>
   updatePhysics inp dt g = checkpointPass (collisionPass (integrate inp dt g))"
  by (simp add: updatePhysics_def)

lemma moved_fields:
  "checkpoints (collisionPass (integrate inp dt g)) = checkpoints g"
  "currentCheckpoint (collisionPass (integrate inp dt g)) = currentCheckpoint g"
  "lastCheckpointIndex (collisionPass (integrate inp dt g)) = lastCheckpointIndex g"
  "lap (collisionPass (integrate inp dt g)) = lap g"
  "startSpawn (collisionPass (integrate inp dt g)) = startSpawn g"
  by (simp_all add: collisionPass_fields integrate_fields)

lemma checkpointPass_crossed:
  "crossedIndex g \<noteq> - 1 \<Longrightarrow> checkpointPass g = applyCrossing (crossedIndex g) g"
  by (cases "checkpoints g") (simp_all add: checkpointPass_def crossedIndex_def)


text \<open>
  C3. In a tick of a running race whose movement segment crosses a checkpoint (the first
  one in index order, \<open>i\<close>), with \<open>n\<close> checkpoints: \<open>i\<close> is an index of the list;
  if \<open>i\<close> is \<open>currentCheckpoint\<close>, then \<open>currentCheckpoint\<close> advances by exactly 1
  modulo \<open>n\<close> and \<open>i\<close> is recorded as the last passed index; otherwise
  \<open>currentCheckpoint\<close> is unchanged. If \<open>i\<close> is greater than \<open>currentCheckpoint\<close>,
  in particular two or more ahead, the tick ends with respawnToCheckpoint at the last
  passed index; if \<open>i\<close> is less, the checkpoint pass changes nothing.
\<close>

theorem checkpoint_progress_monotonic:
  assumes run: "started g" "\<not> countdownActive g"
    and cross: "crossedIndex (collisionPass (integrate inp dt g)) \<noteq> - 1"
  shows "let m = collisionPass (integrate inp dt g);
             i = crossedIndex m;
             n = int (length (checkpoints g));
             g' = updatePhysics inp dt g
         in 0 \<le> i \<and> i < n
          \<and> (i = currentCheckpoint g \<longrightarrow>
                currentCheckpoint g' = (currentCheckpoint g + 1) mod n \<and> lastCheckpointIndex g' = i)
          \<and> (i \<noteq> currentCheckpoint g \<longrightarrow> currentCheckpoint g' = currentCheckpoint g)
          \<and> (i > currentCheckpoint g \<longrightarrow> g' = respawnToCheckpoint (lastCheckpointIndex g) m)
          \<and> (i \<ge> currentCheckpoint g + 2 \<longrightarrow>
                g' = respawnToCheckpoint (lastCheckpointIndex g) m
                \<and> currentCheckpoint g' = currentCheckpoint g)
          \<and> (i < currentCheckpoint g \<longrightarrow> g' = m)"
proof -
  define m where "m = collisionPass (integrate inp dt g)"
  define i where "i = crossedIndex m"
  define n where "n = int (length (checkpoints g))"
  have g': "updatePhysics inp dt g = applyCrossing i m"
    using run cross by (simp add: updatePhysics_running checkpointPass_crossed m_def i_def)
  have m: "checkpoints m = checkpoints g" "currentCheckpoint m = currentCheckpoint g"
    "lastCheckpointIndex m = lastCheckpointIndex g"
    by (simp_all add: m_def moved_fields)
  have ne: "i \<noteq> - 1" using cross by (simp add: i_def m_def)
  have rng: "0 \<le> i \<and> i < n"
    using crossedIndex_range [of m] ne by (simp add: i_def n_def m)
  have adv: "currentCheckpoint (applyCrossing i m) = (currentCheckpoint g + 1) mod n"
    if "i = currentCheckpoint g"
  proof -
    have "0 \<le> currentCheckpoint g" "currentCheckpoint g < n" using rng that by simp_all
    from step_mod [OF this] show ?thesis
      using that ne by (simp only: applyCrossing_current m n_def) simp
  qed
  have lst: "lastCheckpointIndex (applyCrossing i m) = i" if "i = currentCheckpoint g"
    using that ne by (simp add: applyCrossing_def m)
  have stay: "currentCheckpoint (applyCrossing i m) = currentCheckpoint g"
    if "i \<noteq> currentCheckpoint g"
    using that by (simp add: applyCrossing_current m)
  have resp: "applyCrossing i m = respawnToCheckpoint (lastCheckpointIndex g) m"
    if "i > currentCheckpoint g"
    using that ne by (simp add: applyCrossing_def m)
  have noop: "applyCrossing i m = m" if "i < currentCheckpoint g"
    using that by (simp add: applyCrossing_def m)
  have two: "applyCrossing i m = respawnToCheckpoint (lastCheckpointIndex g) m
     \<and> currentCheckpoint (applyCrossing i m) = currentCheckpoint g"
    if "i \<ge> currentCheckpoint g + 2"
    using that resp stay by simp
  show ?thesis
    unfolding Let_def m_def [symmetric] i_def [symmetric] n_def [symmetric] g'
    using rng adv lst stay resp noop two by blast
qed

lemma moved_cur: "collisionPass (integrate noInput (1/30) (skipGame\<lparr> currentCheckpoint := c \<rparr>))
   = skipGame\<lparr> currentCheckpoint := c, lastX := 500, lastY := 195,
       car := \<lparr> posX = 500, posY = 195 + 294 / 30, angle = pi / 2, speed = 294, radius = 18 \<rparr> \<rparr>"
  by (simp add: collisionPass_def integrate_def skipGame_def initialGame_def noInput_def
      getSurfaceAt_def getSurfaceAtAnyLayer_def speedStep_def steerStep_def throttle_def
      steeringInput_def clamp_def lerp_def Let_def drag_def maxSpeed_def maxSurfaceSpeed_def
      circleCircleCollision_def)

lemma crossed_cur: "crossedIndex (collisionPass (integrate noInput (1/30) (skipGame\<lparr> currentCheckpoint := c \<rparr>))) = 2"
  unfolding moved_cur
  by (simp add: crossedIndex_def skipGame_def initialGame_def segmentIntersect_def Let_def)


text \<open>
  C3, on the four default checkpoints with the car crossing checkpoint 2: with
  \<open>currentCheckpoint\<close> 0 the tick respawns and leaves it 0, with 2 it advances to 3,
  with 3 the crossing is ignored.
\<close>

theorem checkpoint_progress_witness:
  "started skipGame \<and> \<not> countdownActive skipGame
   \<and> length (checkpoints skipGame) = 4
   \<and> crossedIndex (collisionPass (integrate noInput (1/30) (skipGame\<lparr> currentCheckpoint := 0 \<rparr>))) = 2
   \<and> updatePhysics noInput (1/30) (skipGame\<lparr> currentCheckpoint := 0 \<rparr>)
       = respawnToCheckpoint (- 1)
           (collisionPass (integrate noInput (1/30) (skipGame\<lparr> currentCheckpoint := 0 \<rparr>)))
   \<and> currentCheckpoint (updatePhysics noInput (1/30) (skipGame\<lparr> currentCheckpoint := 0 \<rparr>)) = 0
   \<and> currentCheckpoint (updatePhysics noInput (1/30) (skipGame\<lparr> currentCheckpoint := 2 \<rparr>)) = 3
   \<and> updatePhysics noInput (1/30) (skipGame\<lparr> currentCheckpoint := 3 \<rparr>)
       = collisionPass (integrate noInput (1/30) (skipGame\<lparr> currentCheckpoint := 3 \<rparr>))"
proof -
  have s: "started (skipGame\<lparr> currentCheckpoint := c \<rparr>)"
    "\<not> countdownActive (skipGame\<lparr> currentCheckpoint := c \<rparr>)" 
    "length (checkpoints (skipGame\<lparr> currentCheckpoint := c \<rparr>)) = 4"
    "lastCheckpointIndex (skipGame\<lparr> currentCheckpoint := c \<rparr>) = - 1" for c
    by (simp_all add: skipGame_def initialGame_def)
  have t: "started skipGame" "\<not> countdownActive skipGame" "length (checkpoints skipGame) = 4"
    by (simp_all add: skipGame_def initialGame_def)
  have c: "crossedIndex (collisionPass (integrate noInput (1/30) (skipGame\<lparr> currentCheckpoint := c \<rparr>))) \<noteq> - 1" for c
    by (simp add: crossed_cur)
  show ?thesis
    using checkpoint_progress_monotonic [OF s(1,2) c, of 0]
      checkpoint_progress_monotonic [OF s(1,2) c, of 2]
      checkpoint_progress_monotonic [OF s(1,2) c, of 3]
    by (simp add: Let_def crossed_cur s t respawn_fields moved_fields)
qed


text \<open>
  C9. A respawn with a negative index, as triggered by a skip while
  \<open>lastCheckpointIndex\<close> is \<open>-1\<close>, puts the car at the position and heading of
  \<open>startSpawn\<close>, sets its speed to zero and resets \<open>lastX\<close> and \<open>lastY\<close> to the new
  position; nothing else changes and no checkpoint is consulted.
\<close>

theorem respawn_before_first_checkpoint:
  "(index < 0 \<longrightarrow>
      respawnToCheckpoint index g =
        g\<lparr> car := (car g)\<lparr> posX := poseX (startSpawn g), posY := poseY (startSpawn g),
                             angle := poseAngle (startSpawn g), speed := 0 \<rparr>,
           lastX := poseX (startSpawn g), lastY := poseY (startSpawn g) \<rparr>)
   \<and> (lastCheckpointIndex g = - 1 \<and> crossedIndex g \<noteq> - 1 \<and> crossedIndex g > currentCheckpoint g \<longrightarrow>
      checkpointPass g =
        g\<lparr> car := (car g)\<lparr> posX := poseX (startSpawn g), posY := poseY (startSpawn g),
                             angle := poseAngle (startSpawn g), speed := 0 \<rparr>,
           lastX := poseX (startSpawn g), lastY := poseY (startSpawn g) \<rparr>)"
proof -
  have r: "respawnToCheckpoint index g =
        g\<lparr> car := (car g)\<lparr> posX := poseX (startSpawn g), posY := poseY (startSpawn g),
                             angle := poseAngle (startSpawn g), speed := 0 \<rparr>,
           lastX := poseX (startSpawn g), lastY := poseY (startSpawn g) \<rparr>" if "index < 0" for index
    using that by (simp add: respawnToCheckpoint_def Let_def)
  show ?thesis
    using r [of "- 1"] r [of index]
    by (auto simp: checkpointPass_crossed applyCrossing_def)
qed


text \<open>
  C9, on the default race after the car has crossed checkpoint 2 first: the checkpoint
  pass puts it back at the start pose (320, 360, heading 0).
\<close>

theorem respawn_before_first_checkpoint_witness:
  "lastCheckpointIndex movedGame = - 1 \<and> crossedIndex movedGame = 2
   \<and> currentCheckpoint movedGame = 0
   \<and> startSpawn movedGame = \<lparr> poseX = 320, poseY = 360, poseAngle = 0 \<rparr>
   \<and> car (checkpointPass movedGame)
       = \<lparr> posX = 320, posY = 360, angle = 0, speed = 0, radius = 18 \<rparr>
   \<and> lastX (checkpointPass movedGame) = 320 \<and> lastY (checkpointPass movedGame) = 360
   \<and> car (respawnToCheckpoint (- 1) movedGame)
       = \<lparr> posX = 320, posY = 360, angle = 0, speed = 0, radius = 18 \<rparr>"
proof -
  have c: "crossedIndex movedGame = 2"
    by (simp add: crossedIndex_def movedGame_def skipGame_def initialGame_def
        segmentIntersect_def Let_def)
  have f: "lastCheckpointIndex movedGame = - 1" "currentCheckpoint movedGame = 0"
    "startSpawn movedGame = \<lparr> poseX = 320, poseY = 360, poseAngle = 0 \<rparr>"
    "radius (car movedGame) = 18"
    by (simp_all add: movedGame_def skipGame_def initialGame_def degToRad_def)
  show ?thesis
    using respawn_before_first_checkpoint [of "- 1" movedGame]
    by (simp add: c f)
qed


section \<open>Lap counting\<close>

lemma checkpointPass_none:
  "crossedIndex g = - 1 \<Longrightarrow> checkpointPass g = g"
  by (simp add: checkpointPass_def applyCrossing_def)

lemma updatePhysics_applyCrossing:
  "updatePhysics inp dt g =
     (if \<not> started g \<or> countdownActive g then g
      else applyCrossing (tickCrossed inp dt g) (collisionPass (integrate inp dt g)))"
  by (cases "crossedIndex (collisionPass (integrate inp dt g)) = - 1")
     (simp_all add: updatePhysics_def tickCrossed_def checkpointPass_none checkpointPass_crossed
       applyCrossing_def)

lemma tick_checkpoints [simp]: "checkpoints (updatePhysics inp dt g) = checkpoints g"
  by (simp add: updatePhysics_applyCrossing applyCrossing_fields moved_fields)

lemma tick_lap:
  "lap (updatePhysics inp dt g) =
     (if tickCrossed inp dt g \<noteq> - 1 \<and> tickCrossed inp dt g = currentCheckpoint g
         \<and> currentCheckpoint g + 1 \<ge> int (length (checkpoints g))
      then lap g + 1 else lap g)"
  by (auto simp: updatePhysics_applyCrossing applyCrossing_lap moved_fields tickCrossed_def)

lemma tick_current:
  "currentCheckpoint (updatePhysics inp dt g) =
     (if tickCrossed inp dt g \<noteq> - 1 \<and> tickCrossed inp dt g = currentCheckpoint g
      then (if currentCheckpoint g + 1 \<ge> int (length (checkpoints g)) then 0
            else currentCheckpoint g + 1)
      else currentCheckpoint g)"
  by (auto simp: updatePhysics_applyCrossing applyCrossing_current moved_fields tickCrossed_def)

lemma ticks_no_crossing:
  "crossings ts g = [] \<Longrightarrow>
   lap (ticks ts g) = lap g \<and> currentCheckpoint (ticks ts g) = currentCheckpoint g"
proof (induction ts arbitrary: g)
  case Nil
  then show ?case by simp
next
  case (Cons t ts)
  obtain inp dt where t: "t = (inp, dt)" by (cases t)
  from Cons.prems have n: "tickCrossed inp dt g = - 1" and r: "crossings ts (updatePhysics inp dt g) = []"
    by (simp_all add: t split: if_splits)
  from Cons.IH [OF r] show ?case by (simp add: t tick_lap tick_current n)
qed

lemma ticks_cycle:
  assumes "0 \<le> k" "k < int (length (checkpoints g))" "currentCheckpoint g = k"
    and "crossings ts g = map int [nat k..<length (checkpoints g)]"
  shows "lap (ticks ts g) = lap g + 1 \<and> currentCheckpoint (ticks ts g) = 0"
  using assms
proof (induction ts arbitrary: g k)
  case Nil
  then show ?case by auto
next
  case (Cons t ts)
  obtain inp dt where t: "t = (inp, dt)" by (cases t)
  let ?g = "updatePhysics inp dt g"
  let ?n = "length (checkpoints g)"
  have up: "[nat k..<?n] = nat k # [nat k + 1..<?n]"
    using Cons.prems(1,2) by (simp add: upt_conv_Cons)
  show ?case
  proof (cases "tickCrossed inp dt g = - 1")
    case True
    have "crossings ts ?g = map int [nat k..<length (checkpoints ?g)]"
      using Cons.prems(4) True by (simp add: t)
    moreover have "currentCheckpoint ?g = k" "lap ?g = lap g"
      using True Cons.prems(3) by (simp_all add: tick_current tick_lap)
    moreover have "k < int (length (checkpoints ?g))" using Cons.prems(2) by simp
    ultimately show ?thesis
      using Cons.IH [of k ?g] Cons.prems(1) by (simp add: t)
  next
    case False
    from Cons.prems(4) False have hd: "tickCrossed inp dt g = k"
      and tl: "crossings ts ?g = map int [nat k + 1..<?n]"
      using Cons.prems(1) by (simp_all add: t up)
    show ?thesis
    proof (cases "k + 1 \<ge> int ?n")
      case True
      then have "[nat k + 1..<?n] = []" by simp
      with tl have e: "crossings ts ?g = []" by simp
      have "lap ?g = lap g + 1" "currentCheckpoint ?g = 0"
        using hd False True Cons.prems(3) by (simp_all add: tick_lap tick_current)
      with ticks_no_crossing [OF e] show ?thesis by (simp add: t)
    next
      case F: False
      have c: "currentCheckpoint ?g = k + 1" and l: "lap ?g = lap g"
        using hd False F Cons.prems(3) by (simp_all add: tick_lap tick_current)
      have n: "nat (k + 1) = nat k + 1" using Cons.prems(1) by simp
      have "crossings ts ?g = map int [nat (k + 1)..<length (checkpoints ?g)]"
        using tl by (simp add: n)
      moreover have "0 \<le> k + 1" "k + 1 < int (length (checkpoints ?g))"
        using Cons.prems(1) F by simp_all
      ultimately show ?thesis
        using Cons.IH [of "k + 1" ?g] c l by (simp add: t)
    qed
  qed
qed

lemma ticks_prefix:
  assumes "0 \<le> j" "j \<le> k" "k < int (length (checkpoints g))" "currentCheckpoint g = j"
    and "crossings ts g = map int [nat j..<nat k]"
  shows "lap (ticks ts g) = lap g \<and> currentCheckpoint (ticks ts g) = k"
  using assms
proof (induction ts arbitrary: g j)
  case Nil
  then show ?case by auto
next
  case (Cons t ts)
  obtain inp dt where t: "t = (inp, dt)" by (cases t)
  let ?g = "updatePhysics inp dt g"
  show ?case
  proof (cases "tickCrossed inp dt g = - 1")
    case True
    have "crossings ts ?g = map int [nat j..<nat k]"
      using Cons.prems(5) True by (simp add: t)
    moreover have "currentCheckpoint ?g = j" "lap ?g = lap g"
      using True Cons.prems(4) by (simp_all add: tick_current tick_lap)
    moreover have "k < int (length (checkpoints ?g))" using Cons.prems(3) by simp
    ultimately show ?thesis
      using Cons.IH [of j ?g] Cons.prems(1,2) by (simp add: t)
  next
    case False
    have lt: "j < k"
    proof (rule ccontr)
      assume "\<not> j < k"
      then have "[nat j..<nat k] = []" using Cons.prems(2) by simp
      with Cons.prems(5) False show False by (simp add: t)
    qed
    have up: "[nat j..<nat k] = nat j # [nat j + 1..<nat k]"
      using Cons.prems(1) lt by (simp add: upt_conv_Cons)
    from Cons.prems(5) False have hd: "tickCrossed inp dt g = j"
      and tl: "crossings ts ?g = map int [nat j + 1..<nat k]"
      using Cons.prems(1) by (simp_all add: t up)
    have nw: "\<not> j + 1 \<ge> int (length (checkpoints g))" using lt Cons.prems(3) by simp
    have c: "currentCheckpoint ?g = j + 1" and l: "lap ?g = lap g"
      using hd False nw Cons.prems(4) by (simp_all add: tick_lap tick_current)
    have n: "nat (j + 1) = nat j + 1" using Cons.prems(1) by simp
    have "crossings ts ?g = map int [nat (j + 1)..<nat k]" using tl by (simp add: n)
    moreover have "0 \<le> j + 1" "j + 1 \<le> k" "k < int (length (checkpoints ?g))"
      using Cons.prems(1,3) lt by simp_all
    ultimately show ?thesis
      using Cons.IH [of "j + 1" ?g] c l by (simp add: t)
  qed
qed


text \<open>
  C4. For a run of ticks that starts with \<open>currentCheckpoint\<close> 0: if the checkpoints
  crossed during the run are 0, 1, ..., N-1 in this order, the run increments \<open>lap\<close> by
  exactly 1 and ends with \<open>currentCheckpoint\<close> 0; if they are only 0, ..., k-1 with
  k < N, \<open>lap\<close> is unchanged and \<open>currentCheckpoint\<close> is k. In a single tick, \<open>lap\<close>
  changes only when the crossed index is \<open>currentCheckpoint\<close> and is the last of the
  list; a crossing of any other index, which respawns or is ignored, leaves \<open>lap\<close> as it
  is.
\<close>

theorem lap_once_per_cycle:
  "(currentCheckpoint g = 0 \<and> checkpoints g \<noteq> []
      \<and> crossings ts g = map int [0..<length (checkpoints g)] \<longrightarrow>
        lap (ticks ts g) = lap g + 1 \<and> currentCheckpoint (ticks ts g) = 0)
   \<and> (currentCheckpoint g = 0 \<and> k < length (checkpoints g)
      \<and> crossings ts g = map int [0..<k] \<longrightarrow>
        lap (ticks ts g) = lap g \<and> currentCheckpoint (ticks ts g) = int k)
   \<and> (tickCrossed inp dt g \<noteq> currentCheckpoint g \<longrightarrow> lap (updatePhysics inp dt g) = lap g)
   \<and> lap (updatePhysics inp dt g) =
        (if tickCrossed inp dt g \<noteq> - 1 \<and> tickCrossed inp dt g = currentCheckpoint g
            \<and> currentCheckpoint g + 1 \<ge> int (length (checkpoints g))
         then lap g + 1 else lap g)"
proof -
  have full: "lap (ticks ts g) = lap g + 1 \<and> currentCheckpoint (ticks ts g) = 0"
    if "currentCheckpoint g = 0" "checkpoints g \<noteq> []"
      "crossings ts g = map int [0..<length (checkpoints g)]"
    using ticks_cycle [of 0 g ts] that by simp
  have part: "lap (ticks ts g) = lap g \<and> currentCheckpoint (ticks ts g) = int k"
    if "currentCheckpoint g = 0" "k < length (checkpoints g)" "crossings ts g = map int [0..<k]"
    using ticks_prefix [of 0 "int k" g ts] that by simp
  show ?thesis using full part by (simp add: tick_lap)
qed

lemmas tick_defs = collisionPass_def integrate_def lapState_def lapGame_def skipGame_def
  initialGame_def noInput_def getSurfaceAt_def getSurfaceAtAnyLayer_def speedStep_def
  steerStep_def throttle_def steeringInput_def clamp_def lerp_def Let_def drag_def maxSpeed_def
  maxSurfaceSpeed_def circleCircleCollision_def

lemmas cross_defs = crossedIndex_def lapState_def lapGame_def skipGame_def initialGame_def
  segmentIntersect_def Let_def

lemma lap_running: "started (lapState ly y v c l n)" "\<not> countdownActive (lapState ly y v c l n)"
  "started lapGame" "\<not> countdownActive lapGame"
  "checkpoints (lapState ly y v c l n) \<noteq> []" "length (checkpoints (lapState ly y v c l n)) = 4"
  "currentCheckpoint (lapState ly y v c l n) = c" "lap (lapState ly y v c l n) = n"
  "checkpoints lapGame \<noteq> []" "length (checkpoints lapGame) = 4"
  "currentCheckpoint lapGame = 0" "lap lapGame = 1"
  by (simp_all add: lapState_def lapGame_def skipGame_def initialGame_def)

lemma move0: "collisionPass (integrate noInput (1/30) lapGame) = lapState 195 (1024 / 5) 294 0 (- 1) 1"
  by (simp add: tick_defs)

lemma move1: "collisionPass (integrate noInput (1/30) (lapState ly (1024 / 5) 294 c l n))
    = lapState (1024 / 5) (53601 / 250) (7203 / 25) c l n"
  by (simp add: tick_defs)

lemma move2: "collisionPass (integrate noInput (1/30) (lapState ly (53601 / 250) (7203 / 25) c l n))
    = lapState (53601 / 250) (2797699 / 12500) (352947 / 1250) c l n"
  by (simp add: tick_defs)

lemma move3: "collisionPass (integrate noInput (1/30) (lapState ly (2797699 / 12500) (352947 / 1250) c l n))
    = lapState (2797699 / 12500) (145649751 / 625000) (17294403 / 62500) c l n"
  by (simp add: tick_defs)

lemma cross0: "crossedIndex (lapState 195 (1024 / 5) 294 c l n) = 0"
  by (simp add: cross_defs)

lemma cross1: "crossedIndex (lapState (1024 / 5) (53601 / 250) (7203 / 25) c l n) = 1"
  by (simp add: cross_defs)

lemma cross2: "crossedIndex (lapState (53601 / 250) (2797699 / 12500) (352947 / 1250) c l n) = 2"
  by (simp add: cross_defs)

lemma cross3: "crossedIndex (lapState (2797699 / 12500) (145649751 / 625000) (17294403 / 62500) c l n) = 3"
  by (simp add: cross_defs)

lemma apply_next:
  "0 \<le> c \<Longrightarrow> c + 1 < 4 \<Longrightarrow> applyCrossing c (lapState ly y v c l n) = lapState ly y v (c + 1) c n"
  by (simp add: applyCrossing_def lapState_def lapGame_def skipGame_def initialGame_def)

lemma apply_wrap: "applyCrossing 3 (lapState ly y v 3 l n) = lapState ly y v 0 3 (n + 1)"
  by (simp add: applyCrossing_def lapState_def lapGame_def skipGame_def initialGame_def)

lemma upd0: "updatePhysics noInput (1/30) lapGame = lapState 195 (1024 / 5) 294 1 0 1"
  using apply_next [of 0 195 "1024 / 5" 294 "- 1" 1]
  by (simp add: updatePhysics_def lap_running move0 checkpointPass_def cross0)

lemma upd1: "updatePhysics noInput (1/30) (lapState 195 (1024 / 5) 294 1 0 1)
    = lapState (1024 / 5) (53601 / 250) (7203 / 25) 2 1 1"
  using apply_next [of 1 "1024 / 5" "53601 / 250" "7203 / 25" 0 1]
  by (simp add: updatePhysics_def lap_running move1 checkpointPass_def cross1)

lemma upd2: "updatePhysics noInput (1/30) (lapState (1024 / 5) (53601 / 250) (7203 / 25) 2 1 1)
    = lapState (53601 / 250) (2797699 / 12500) (352947 / 1250) 3 2 1"
  using apply_next [of 2 "53601 / 250" "2797699 / 12500" "352947 / 1250" 1 1]
  by (simp add: updatePhysics_def lap_running move2 checkpointPass_def cross2)

lemma upd3: "updatePhysics noInput (1/30) (lapState (53601 / 250) (2797699 / 12500) (352947 / 1250) 3 2 1)
    = lapState (2797699 / 12500) (145649751 / 625000) (17294403 / 62500) 0 3 2"
  using apply_wrap [of "2797699 / 12500" "145649751 / 625000" "17294403 / 62500" 2 1]
  by (simp add: updatePhysics_def lap_running move3 checkpointPass_def cross3)

lemma lap_crossings:
  "crossings [(noInput, 1/30), (noInput, 1/30), (noInput, 1/30), (noInput, 1/30)] lapGame
     = [0, 1, 2, 3]"
  by (simp add: tickCrossed_def lap_running upd0 upd1 upd2 upd3 move0 move1 move2 move3
      cross0 cross1 cross2 cross3)


text \<open>
  C4, on four checkpoints across the way of the car: four ticks cross the checkpoints
  0, 1, 2, 3 and take \<open>lap\<close> from 1 to 2 with \<open>currentCheckpoint\<close> back at 0; on the
  default checkpoints, crossing checkpoint 2 with \<open>currentCheckpoint\<close> 0 (a skip) or 3
  (already passed) leaves \<open>lap\<close> at 1.
\<close>

theorem lap_once_per_cycle_witness:
  "currentCheckpoint lapGame = 0 \<and> length (checkpoints lapGame) = 4 \<and> lap lapGame = 1
   \<and> crossings [(noInput, 1/30), (noInput, 1/30), (noInput, 1/30), (noInput, 1/30)] lapGame
       = [0, 1, 2, 3]
   \<and> lap (ticks [(noInput, 1/30), (noInput, 1/30), (noInput, 1/30), (noInput, 1/30)] lapGame) = 2
   \<and> currentCheckpoint
        (ticks [(noInput, 1/30), (noInput, 1/30), (noInput, 1/30), (noInput, 1/30)] lapGame) = 0
   \<and> crossings [(noInput, 1/30), (noInput, 1/30)] lapGame = [0, 1]
   \<and> lap (ticks [(noInput, 1/30), (noInput, 1/30)] lapGame) = 1
   \<and> currentCheckpoint (ticks [(noInput, 1/30), (noInput, 1/30)] lapGame) = 2
   \<and> tickCrossed noInput (1/30) (skipGame\<lparr> currentCheckpoint := 0 \<rparr>) = 2
   \<and> lap (updatePhysics noInput (1/30) (skipGame\<lparr> currentCheckpoint := 0 \<rparr>)) = 1
   \<and> lap (updatePhysics noInput (1/30) (skipGame\<lparr> currentCheckpoint := 3 \<rparr>)) = 1"
proof -
  have u: "[0..<4] = [0, 1, 2, 3]" "[0..<2] = [0, 1]" by (simp_all add: upt_rec)
  have s: "started (skipGame\<lparr> currentCheckpoint := c \<rparr>)"
    "\<not> countdownActive (skipGame\<lparr> currentCheckpoint := c \<rparr>)"
    "lap (skipGame\<lparr> currentCheckpoint := c \<rparr>) = 1" for c
    by (simp_all add: skipGame_def initialGame_def)
  let ?ts = "[(noInput, 1/30), (noInput, 1/30), (noInput, 1/30), (noInput, 1/30)]"
  let ?two = "[(noInput, 1/30), (noInput, 1/30)]"
  have c: "crossings ?ts lapGame = map int [0..<length (checkpoints lapGame)]"
    by (simp only: lap_crossings lap_running u) simp
  have full: "lap (ticks ?ts lapGame) = 2 \<and> currentCheckpoint (ticks ?ts lapGame) = 0"
    using lap_once_per_cycle [of lapGame ?ts 0 noInput "1/30"] c
    by (simp add: lap_running del: ticks.simps crossings.simps)
  have c2: "crossings ?two lapGame = [0, 1]"
    by (simp add: tickCrossed_def lap_running upd0 upd1 move0 move1 cross0 cross1)
  then have c2': "crossings ?two lapGame = map int [0..<2]"
    by (simp only: u) simp
  have part: "lap (ticks ?two lapGame) = 1 \<and> currentCheckpoint (ticks ?two lapGame) = 2"
    using lap_once_per_cycle [of lapGame ?two 2 noInput "1/30"] c2'
    by (simp add: lap_running del: ticks.simps crossings.simps)
  have t: "tickCrossed noInput (1/30) (skipGame\<lparr> currentCheckpoint := c \<rparr>) = 2" for c
    by (simp add: tickCrossed_def s crossed_cur)
  have skip: "lap (updatePhysics noInput (1/30) (skipGame\<lparr> currentCheckpoint := 0 \<rparr>)) = 1"
    using lap_once_per_cycle [of "skipGame\<lparr> currentCheckpoint := 0 \<rparr>" "[]" 0 noInput "1/30"]
    by (simp add: t s)
  have old: "lap (updatePhysics noInput (1/30) (skipGame\<lparr> currentCheckpoint := 3 \<rparr>)) = 1"
    using lap_once_per_cycle [of "skipGame\<lparr> currentCheckpoint := 3 \<rparr>" "[]" 0 noInput "1/30"]
    by (simp add: t s)
  show ?thesis
    using full part c2 skip old t [of 0] lap_crossings
    by (simp only: lap_running)
qed


section \<open>Surface classification\<close>

lemma orInt_zero [simp]: "orInt v 0 = v"
  by (simp add: orInt_def)

lemma road_lookup_outside:
  "\<not> insideMap g x y \<Longrightarrow> getTileAt g (tiledRoadLayers g) x y = 0"
  by (auto simp: getTileAt_def insideMap_def tileCoord_def Let_def not_less not_le
      split: if_splits)

lemma lookup_outside_sized:
  "tiledMapWidth g \<noteq> 0 \<Longrightarrow> tiledMapHeight g \<noteq> 0 \<Longrightarrow> \<not> insideMap g x y \<Longrightarrow>
   getTileAt g layers x y = 0"
  by (auto simp: getTileAt_def insideMap_def tileCoord_def Let_def orInt_def not_less not_le
      split: if_splits)


text \<open>
  C10, with the map size taken into account. With at least one road layer: a position
  that hits a road tile is classified as road, whatever the ground layers hold; a
  position inside the map bounds that hits no road tile is classified as ground; a
  position outside the map bounds is classified as none when no ground layer reports a
  tile there, which is always so when the map has a width and a height other than zero.
\<close>

theorem surface_with_road_layers:
  assumes "tiledRoadLayers g \<noteq> []"
  shows "(getTileAt g (tiledRoadLayers g) x y \<noteq> 0 \<longrightarrow> getSurfaceAt g x y = Road)
       \<and> (insideMap g x y \<and> getTileAt g (tiledRoadLayers g) x y = 0
            \<longrightarrow> getSurfaceAt g x y = Ground)
       \<and> (\<not> insideMap g x y
            \<and> (tiledGroundLayers g = [] \<or> getTileAt g (tiledGroundLayers g) x y = 0)
            \<longrightarrow> getSurfaceAt g x y = NoSurface)
       \<and> (\<not> insideMap g x y \<and> tiledMapWidth g \<noteq> 0 \<and> tiledMapHeight g \<noteq> 0
            \<longrightarrow> getSurfaceAt g x y = NoSurface)"
proof -
  have out: "getSurfaceAt g x y = NoSurface"
    if "\<not> insideMap g x y" "tiledGroundLayers g = [] \<or> getTileAt g (tiledGroundLayers g) x y = 0"
    using that assms road_lookup_outside [of g x y] by (auto simp: getSurfaceAt_def)
  have sized: "getSurfaceAt g x y = NoSurface"
    if "\<not> insideMap g x y" "tiledMapWidth g \<noteq> 0" "tiledMapHeight g \<noteq> 0"
    using that out lookup_outside_sized [of g x y "tiledGroundLayers g"] by simp
  show ?thesis using assms out sized by (auto simp: getSurfaceAt_def)
qed

lemma tiled_eval:
  "tiledRoadLayers tiledGame \<noteq> []"
  "getTileAt tiledGame (tiledRoadLayers tiledGame) 10 10 = 1"
  "getTileAt tiledGame (tiledGroundLayers tiledGame) 10 10 = 7"
  "getTileAt tiledGame (tiledRoadLayers tiledGame) 40 10 = 0"
  "getTileAt tiledGame (tiledGroundLayers tiledGame) 40 10 = 0"
  "insideMap tiledGame 40 10"
  "\<not> insideMap tiledGame 100 10"
  "tiledMapWidth tiledGame = 2" "tiledMapHeight tiledGame = 1"
  by (simp_all add: tiledGame_def initialGame_def roadLayer_def groundLayer_def getTileAt_def
      insideMap_def tileCoord_def orInt_def cellAt_def Let_def)


text \<open>
  C10, on a map of two by one tiles: (10,10) has a road tile and a ground tile and is
  road, (40,10) has neither and is ground, (100,10) is outside and is none.
\<close>

theorem surface_with_road_layers_witness:
  "tiledRoadLayers tiledGame \<noteq> []
   \<and> getTileAt tiledGame (tiledGroundLayers tiledGame) 10 10 \<noteq> 0
   \<and> getSurfaceAt tiledGame 10 10 = Road
   \<and> insideMap tiledGame 40 10
   \<and> getSurfaceAt tiledGame 40 10 = Ground
   \<and> \<not> insideMap tiledGame 100 10
   \<and> getSurfaceAt tiledGame 100 10 = NoSurface"
  using surface_with_road_layers [of tiledGame 10 10]
    surface_with_road_layers [of tiledGame 40 10]
    surface_with_road_layers [of tiledGame 100 10]
  by (simp add: tiled_eval)


lemma unsized_begin: "beginLoad demoEnv unsizedMap initialGame = Next initialGame"
  by (simp add: beginLoad_def unsizedMap_def member_def arrayOf_def storeSizes_def intOr_def
      orOutside_def lapsFrom_def initialGame_def)

lemma unsized_layers:
  "processLayers demoEnv [] Map.empty (arrayOf (member unsizedMap ''layers''))
     \<lparr> glob = initialGame, newTiles = [], newTileLayers = [], newAISpawns = [],
       newAICheckpoints = [], newMapCheckpoints = [], newObstacles = [], foundObjects = False \<rparr>
   = Next \<lparr> glob = initialGame, newTiles = [],
       newTileLayers =
         [\<lparr> layerName = JStr ''ground'', layerData = [0, 5], layerWidth = 2, layerHeight = 1,
            opacity = 1, visible = True \<rparr>,
          \<lparr> layerName = JStr ''road'', layerData = [1], layerWidth = 1, layerHeight = 1,
            opacity = 1, visible = True \<rparr>],
       newAISpawns = [], newAICheckpoints = [], newMapCheckpoints = [], newObstacles = [],
       foundObjects = False \<rparr>"
  by (simp add: unsizedMap_def member_def arrayOf_def decodeLayerData_def cellOf_def
      tileLayerOf_def intOr_def orJson_def numberOr_def)

lemma lower_names:
  "lowerOr (Some (JStr ''ground'')) = Done ''ground''"
  "lowerOr (Some (JStr ''road'')) = Done ''road''"
  by (simp_all add: lowerOr_def toLowerCase_def lowerChar_def)

lemma initial_tiles:
  "tiledTilesetMeta initialGame = []" "tiledTilesetImages initialGame = Map.empty"
  "tiledTrackTiles initialGame = []" "tiledTileLayers initialGame = []"
  "raceLaps initialGame = 3"
  by (simp_all add: initialGame_def)

lemma unsized_load:
  "loadTiledMap demoEnv (Document unsizedMap) initialGame = Some (Completed, unsizedGame)"
  by (simp add: loadTiledMap_def unsized_begin initial_tiles unsized_layers finishLoad_def
      lower_names unsizedGame_def Let_def)
    (simp add: initialGame_def)

text \<open>
  C10, the claim as stated fails. A map document without a size, with a ground layer of
  two tiles and a road layer of one tile, loads into \<open>unsizedGame\<close>. There the bounds
  are those of the first road layer (one tile), while the lookup in the ground layers
  uses the first ground layer (two tiles): the position (40,10) is outside the map bounds
  and is classified as ground.
\<close>

theorem surface_unsized_counterexample:
  "loadTiledMap demoEnv (Document unsizedMap) initialGame = Some (Completed, unsizedGame)
   \<and> tiledRoadLayers unsizedGame \<noteq> []
   \<and> \<not> insideMap unsizedGame 40 10
   \<and> getSurfaceAt unsizedGame 40 10 = Ground"
  by (simp add: unsized_load)
    (simp add: unsizedGame_def initialGame_def getSurfaceAt_def getTileAt_def
      insideMap_def tileCoord_def orInt_def cellAt_def Let_def)

section \<open>Speed bounds\<close>

lemma clamp_bounds: "lo \<le> hi \<Longrightarrow> lo \<le> clamp v lo hi \<and> clamp v lo hi \<le> hi"
  by (simp add: clamp_def)

lemma maxSurfaceSpeed_pos: "0 < maxSurfaceSpeed surf" and maxSurfaceSpeed_le: "maxSurfaceSpeed surf \<le> maxSpeed"
  by (simp_all add: maxSurfaceSpeed_def maxSpeed_def groundMaxSpeed_def)

lemma speedStep_bounds:
  "- maxSurfaceSpeed surf * 0.5 \<le> speedStep surf thr dt s \<and> speedStep surf thr dt s \<le> maxSurfaceSpeed surf"
proof -
  have "- maxSurfaceSpeed surf * 0.5 \<le> maxSurfaceSpeed surf" using maxSurfaceSpeed_pos [of surf] by simp
  from clamp_bounds [OF this] show ?thesis
    by (simp add: speedStep_def Let_def)
qed

lemma damp_keeps:
  fixes s k lo hi :: real
  assumes "lo \<le> 0" "0 \<le> hi" "lo \<le> s" "s \<le> hi" "0 \<le> k" "k \<le> 1"
  shows "lo \<le> s * k \<and> s * k \<le> hi"
proof (cases "0 \<le> s")
  case True
  have "0 \<le> s * k" using True assms by simp
  moreover have "s * k \<le> s * 1" using True assms by (intro mult_left_mono) simp_all
  ultimately show ?thesis using assms by simp
next
  case False
  then have neg: "s \<le> 0" by simp
  have "s * k \<le> 0" using neg assms by (simp add: mult_nonpos_nonneg)
  moreover have "s * 1 \<le> s * k" using neg assms by (intro mult_left_mono_neg) simp_all
  ultimately show ?thesis using assms by simp
qed

lemma damp_abs:
  fixes s k :: real
  assumes "0 \<le> k" "k \<le> 1"
  shows "\<bar>s * k\<bar> \<le> \<bar>s\<bar>"
proof -
  have "\<bar>s * k\<bar> = \<bar>s\<bar> * k" using assms by (simp add: abs_mult)
  also have "\<dots> \<le> \<bar>s\<bar> * 1" using assms by (intro mult_left_mono) simp_all
  finally show ?thesis by simp
qed

lemma collideObstacle_speed:
  "speed (collideObstacle obs c) = speed c \<or> speed (collideObstacle obs c) = speed c * 0.6"
  by (cases obs) (simp_all add: Let_def)

lemma collideAI_speed:
  "speed (collideAI g ai c) = speed c \<or> speed (collideAI g ai c) = speed c * 0.7"
  by (simp add: collideAI_def Let_def split: option.splits)

lemma speedWithin_damp:
  assumes "lo \<le> 0" "0 \<le> hi" "speedWithin lo hi s0 s" "0 \<le> k" "k \<le> 1"
  shows "speedWithin lo hi s0 (s * k)"
proof -
  have "lo \<le> s * k \<and> s * k \<le> hi" using assms damp_keeps [of lo hi s k] by (simp add: speedWithin_def)
  moreover have "\<bar>s * k\<bar> \<le> \<bar>s0\<bar>" using assms damp_abs [of k s] by (simp add: speedWithin_def)
  ultimately show ?thesis by (simp add: speedWithin_def)
qed

lemma collideObstacles_within:
  assumes "lo \<le> 0" "0 \<le> hi"
  shows "speedWithin lo hi s0 (speed c) \<Longrightarrow> speedWithin lo hi s0 (speed (collideObstacles obss c))"
proof (induction obss arbitrary: c)
  case Nil
  then show ?case by simp
next
  case (Cons obs obss)
  have d: "speedWithin lo hi s0 (speed c * 0.6)"
    by (rule speedWithin_damp [OF assms Cons.prems]) simp_all
  have "speedWithin lo hi s0 (speed (collideObstacle obs c))"
    using collideObstacle_speed [of obs c]
  proof
    assume "speed (collideObstacle obs c) = speed c"
    then show ?thesis using Cons.prems by (simp only:)
  next
    assume "speed (collideObstacle obs c) = speed c * 0.6"
    then show ?thesis using d by (simp only:)
  qed
  from Cons.IH [OF this] show ?case by simp
qed

lemma collideAICars_within:
  assumes "lo \<le> 0" "0 \<le> hi"
  shows "speedWithin lo hi s0 (speed c) \<Longrightarrow> speedWithin lo hi s0 (speed (collideAICars g ais c))"
proof (induction ais arbitrary: c)
  case Nil
  then show ?case by simp
next
  case (Cons ai ais)
  have d: "speedWithin lo hi s0 (speed c * 0.7)"
    by (rule speedWithin_damp [OF assms Cons.prems]) simp_all
  have "speedWithin lo hi s0 (speed (collideAI g ai c))"
    using collideAI_speed [of g ai c]
  proof
    assume "speed (collideAI g ai c) = speed c"
    then show ?thesis using Cons.prems by (simp only:)
  next
    assume "speed (collideAI g ai c) = speed c * 0.7"
    then show ?thesis using d by (simp only:)
  qed
  from Cons.IH [OF this] show ?case by simp
qed

lemma collisionPass_within:
  assumes "lo \<le> 0" "0 \<le> hi" "lo \<le> speed (car g)" "speed (car g) \<le> hi"
  shows "speedWithin lo hi (speed (car g)) (speed (car (collisionPass g)))"
proof -
  have "speedWithin lo hi (speed (car g)) (speed (car g))" using assms by (simp add: speedWithin_def)
  from collideAICars_within [OF assms(1,2) collideObstacles_within [OF assms(1,2) this]]
  show ?thesis by (simp add: collisionPass_def)
qed

lemma collisionPass_abs: "\<bar>speed (car (collisionPass g))\<bar> \<le> \<bar>speed (car g)\<bar>"
  using collisionPass_within [of "- \<bar>speed (car g)\<bar>" "\<bar>speed (car g)\<bar>" g]
  by (simp add: speedWithin_def)

lemma checkpointPass_speed:
  "speed (car (checkpointPass g)) = speed (car g) \<or> speed (car (checkpointPass g)) = 0"
  by (simp add: checkpointPass_def applyCrossing_def respawn_fields)

lemma integrate_speed:
  "speed (car (integrate inp dt g))
     = speedStep (getSurfaceAt g (posX (car g)) (posY (car g))) (throttle inp) dt (speed (car g))"
  by (simp add: integrate_def Let_def)

lemma updatePhysics_surface_bound:
  assumes "started g" "\<not> countdownActive g"
  shows "- maxSurfaceSpeed (getSurfaceAt g (posX (car g)) (posY (car g))) * 0.5
           \<le> speed (car (updatePhysics inp dt g))
       \<and> speed (car (updatePhysics inp dt g))
           \<le> maxSurfaceSpeed (getSurfaceAt g (posX (car g)) (posY (car g)))"
proof -
  let ?M = "maxSurfaceSpeed (getSurfaceAt g (posX (car g)) (posY (car g)))"
  let ?i = "integrate inp dt g"
  have b: "- ?M * 0.5 \<le> speed (car ?i)" "speed (car ?i) \<le> ?M"
    using speedStep_bounds by (simp_all add: integrate_speed)
  have lo: "- ?M * 0.5 \<le> 0" and hi: "0 \<le> ?M" using maxSurfaceSpeed_pos [of "getSurfaceAt g (posX (car g)) (posY (car g))"] by simp_all
  from collisionPass_within [OF lo hi b]
  have c: "- ?M * 0.5 \<le> speed (car (collisionPass ?i))" "speed (car (collisionPass ?i)) \<le> ?M"
    by (simp_all add: speedWithin_def)
  show ?thesis
    using checkpointPass_speed [of "collisionPass ?i"] c lo hi
    by (auto simp: updatePhysics_running [OF assms])
qed

lemma updatePhysics_bound:
  assumes "- 0.5 * maxSpeed \<le> speed (car g)" "speed (car g) \<le> maxSpeed"
  shows "- 0.5 * maxSpeed \<le> speed (car (updatePhysics inp dt g))
       \<and> speed (car (updatePhysics inp dt g)) \<le> maxSpeed"
proof (cases "started g \<and> \<not> countdownActive g")
  case True
  then have r: "started g" "\<not> countdownActive g" by simp_all
  show ?thesis
    using updatePhysics_surface_bound [OF r, of inp dt]
      maxSurfaceSpeed_le [of "getSurfaceAt g (posX (car g)) (posY (car g))"]
    by simp
next
  case False
  then show ?thesis using assms by (auto simp: updatePhysics_def)
qed

lemma ticks_bound:
  "- 0.5 * maxSpeed \<le> speed (car g) \<Longrightarrow> speed (car g) \<le> maxSpeed \<Longrightarrow>
   - 0.5 * maxSpeed \<le> speed (car (ticks ts g)) \<and> speed (car (ticks ts g)) \<le> maxSpeed"
proof (induction ts arbitrary: g)
  case Nil
  then show ?case by simp
next
  case (Cons t ts)
  obtain inp dt where t: "t = (inp, dt)" by (cases t)
  from updatePhysics_bound [OF Cons.prems, of inp dt] Cons.IH [of "updatePhysics inp dt g"]
  show ?case by (simp add: t)
qed


text \<open>
  C6. After an update of a running race, whatever the inputs, the time step and the speed
  before, the speed lies between minus half the surface maximum and the surface maximum,
  where the surface is the one under the car before it moves; the surface maximum is
  \<open>maxSpeed\<close> on road and on no surface, and \<open>maxSpeed\<close> times the factor 0.55 on
  ground. Hence a speed between \<open>-0.5 * maxSpeed\<close> and \<open>maxSpeed\<close> stays there, and
  within \<open>maxSpeed\<close> in absolute value, through every run of ticks. The collision pass
  never increases the absolute value of the speed.
\<close>

theorem speed_stays_bounded:
  "(started g \<and> \<not> countdownActive g \<longrightarrow>
      - maxSurfaceSpeed (getSurfaceAt g (posX (car g)) (posY (car g))) * 0.5
          \<le> speed (car (updatePhysics inp dt g))
      \<and> speed (car (updatePhysics inp dt g))
          \<le> maxSurfaceSpeed (getSurfaceAt g (posX (car g)) (posY (car g))))
   \<and> maxSurfaceSpeed Road = maxSpeed \<and> maxSurfaceSpeed NoSurface = maxSpeed
   \<and> maxSurfaceSpeed Ground = maxSpeed * groundMaxSpeed \<and> groundMaxSpeed < 1
   \<and> (- 0.5 * maxSpeed \<le> speed (car g) \<and> speed (car g) \<le> maxSpeed \<longrightarrow>
        - 0.5 * maxSpeed \<le> speed (car (ticks ts g)) \<and> speed (car (ticks ts g)) \<le> maxSpeed
        \<and> \<bar>speed (car (ticks ts g))\<bar> \<le> maxSpeed)
   \<and> \<bar>speed (car (collisionPass g))\<bar> \<le> \<bar>speed (car g)\<bar>"
proof -
  have t: "- 0.5 * maxSpeed \<le> speed (car (ticks ts g)) \<and> speed (car (ticks ts g)) \<le> maxSpeed
        \<and> \<bar>speed (car (ticks ts g))\<bar> \<le> maxSpeed"
    if "- 0.5 * maxSpeed \<le> speed (car g)" "speed (car g) \<le> maxSpeed"
  proof -
    have m: "0 < maxSpeed" by (simp add: maxSpeed_def)
    from ticks_bound [OF that, of ts] m show ?thesis by (auto simp: abs_le_iff)
  qed
  show ?thesis
    using updatePhysics_surface_bound [of g inp dt] t collisionPass_abs [of g]
    by (simp add: maxSurfaceSpeed_def groundMaxSpeed_def)
qed


text \<open>
  C6, for a car at speed 440 on a ground position of the two-tile map: after one tick its
  speed is between -121 and 242.
\<close>

theorem speed_stays_bounded_witness:
  "started tiledGame \<and> \<not> countdownActive tiledGame
   \<and> speed (car tiledGame) = 440
   \<and> getSurfaceAt tiledGame (posX (car tiledGame)) (posY (car tiledGame)) = Ground
   \<and> speed (car (updatePhysics noInput (1/30) tiledGame)) \<le> 242
   \<and> - 121 \<le> speed (car (updatePhysics noInput (1/30) tiledGame))
   \<and> speed (car (ticks [(noInput, 1/30), (noInput, 1/30)] tiledGame)) \<le> 440"
proof -
  have c: "posX (car tiledGame) = 40" "posY (car tiledGame) = 10" "speed (car tiledGame) = 440"
    "started tiledGame" "\<not> countdownActive tiledGame"
    by (simp_all add: tiledGame_def initialGame_def)
  have s: "getSurfaceAt tiledGame 40 10 = Ground"
    by (simp add: getSurfaceAt_def tiled_eval)
  show ?thesis
    using speed_stays_bounded [of tiledGame noInput "1/30" "[(noInput, 1/30), (noInput, 1/30)]"]
    by (simp add: c s maxSurfaceSpeed_def maxSpeed_def groundMaxSpeed_def)
qed


section \<open>Centerline sampling\<close>

lemma buildLoop_acc:
  "buildLoop ps segs acc = (segs @ fst (buildLoop ps [] 0), acc + snd (buildLoop ps [] 0))"
proof (induction ps arbitrary: segs acc)
  case Nil
  then show ?case by simp
next
  case (Cons a ps)
  show ?case
  proof (cases ps)
    case Nil
    then show ?thesis by simp
  next
    case (Cons b ps')
    let ?len = "hypot (px b - px a) (py b - py a)"
    let ?seg = "\<lparr> segA = a, segB = b, segLen = ?len, segDx = px b - px a, segDy = py b - py a \<rparr>"
    note IH = Cons.IH [unfolded Cons]
    show ?thesis
    proof (cases "?len \<le> 0")
      case True
      then show ?thesis using IH [of segs acc] by (simp add: Cons Let_def)
    next
      case False
      then show ?thesis
        using IH [of "segs @ [?seg]" "acc + ?len"] IH [of "[?seg]" ?len]
        by (simp add: Cons Let_def)
    qed
  qed
qed

lemma buildLoop_step:
  "buildLoop (a # b # ps) [] 0 =
     (let dx = px b - px a; dy = py b - py a; len = hypot dx dy
      in if len \<le> 0 then buildLoop (b # ps) [] 0
         else (\<lparr> segA = a, segB = b, segLen = len, segDx = dx, segDy = dy \<rparr>
                 # fst (buildLoop (b # ps) [] 0),
               len + snd (buildLoop (b # ps) [] 0)))"
  using buildLoop_acc [of "b # ps" "[\<lparr> segA = a, segB = b, segLen = hypot (px b - px a) (py b - py a),
      segDx = px b - px a, segDy = py b - py a \<rparr>]" "hypot (px b - px a) (py b - py a)"]
  by (simp add: Let_def)

lemma buildLoop_props:
  "list_all segOk (fst (buildLoop ps [] 0))
   \<and> snd (buildLoop ps [] 0) = sum_list (map segLen (fst (buildLoop ps [] 0)))
   \<and> (fst (buildLoop ps [] 0) \<noteq> [] \<longrightarrow>
        px (segA (hd (fst (buildLoop ps [] 0)))) = px (hd ps)
      \<and> py (segA (hd (fst (buildLoop ps [] 0)))) = py (hd ps)
      \<and> px (segB (last (fst (buildLoop ps [] 0)))) = px (last ps)
      \<and> py (segB (last (fst (buildLoop ps [] 0)))) = py (last ps))
   \<and> (fst (buildLoop ps [] 0) = [] \<longrightarrow> ps \<noteq> [] \<longrightarrow>
        px (hd ps) = px (last ps) \<and> py (hd ps) = py (last ps))"
proof (induction ps)
  case Nil
  then show ?case by simp
next
  case (Cons a ps)
  show ?case
  proof (cases ps)
    case Nil
    then show ?thesis by simp
  next
    case (Cons b ps')
    let ?dx = "px b - px a" and ?dy = "py b - py a"
    let ?len = "hypot ?dx ?dy"
    let ?rest = "fst (buildLoop (b # ps') [] 0)"
    note IH = Cons.IH [unfolded Cons]
    show ?thesis
    proof (cases "?len \<le> 0")
      case True
      then have "?len = 0" using hypot_nonneg [of ?dx ?dy] by linarith
      then have same: "px a = px b" "py a = py b" by (simp_all add: hypot_eq_0_iff)
      have st: "buildLoop (a # b # ps') [] 0 = buildLoop (b # ps') [] 0"
        using True by (simp add: buildLoop_step Let_def del: buildLoop.simps)
      show ?thesis unfolding Cons st using IH same by auto
    next
      case False
      then have pos: "0 < ?len" by simp
      let ?seg = "\<lparr> segA = a, segB = b, segLen = ?len, segDx = ?dx, segDy = ?dy \<rparr>"
      have st: "buildLoop (a # b # ps') [] 0 = (?seg # ?rest, ?len + snd (buildLoop (b # ps') [] 0))"
        using False by (simp add: buildLoop_step Let_def del: buildLoop.simps)
      have ok: "segOk ?seg" using pos by (simp add: segOk_def)
      show ?thesis unfolding Cons st using IH ok by (cases "?rest = []") auto
    qed
  qed
qed

lemma sampleLoop_start:
  assumes "segs \<noteq> []" "0 < segLen (hd segs)"
  shows "sampleLoop segs 0 fb =
     \<lparr> poseX = px (segA (hd segs)), poseY = py (segA (hd segs)),
       poseAngle = atan2 (segDy (hd segs)) (segDx (hd segs)) \<rparr>"
  using assms by (cases segs) (simp_all add: Let_def)

lemma sum_nonneg: "list_all segOk segs \<Longrightarrow> 0 \<le> sum_list (map segLen segs)"
  by (induction segs) (auto simp: segOk_def)

lemma sum_pos:
  "list_all segOk segs \<Longrightarrow> segs \<noteq> [] \<Longrightarrow> 0 < sum_list (map segLen segs)"
  using sum_nonneg [of "tl segs"] by (cases segs) (auto simp: segOk_def intro: add_pos_nonneg)

lemma sampleLoop_end:
  assumes "list_all segOk segs" "segs \<noteq> []"
  shows "sampleLoop segs (sum_list (map segLen segs)) fb =
     \<lparr> poseX = px (segB (last segs)), poseY = py (segB (last segs)),
       poseAngle = atan2 (segDy (last segs)) (segDx (last segs)) \<rparr>"
  using assms
proof (induction segs)
  case Nil
  then show ?case by simp
next
  case (Cons seg segs)
  then have ok: "segOk seg" by simp
  show ?case
  proof (cases "segs = []")
    case True
    then show ?thesis using ok by (simp add: Let_def segOk_def)
  next
    case False
    from Cons.prems have all: "list_all segOk segs" by simp
    have "0 < sum_list (map segLen segs)" by (rule sum_pos [OF all False])
    then have "\<not> segLen seg + sum_list (map segLen segs) \<le> segLen seg" by simp
    then show ?thesis using Cons.IH [OF all False] False by simp
  qed
qed

lemma buildTrackSegments_eq:
  "buildTrackSegments g = g\<lparr> trackSegments := fst (buildLoop (trackPath g) [] 0),
                               trackLength := snd (buildLoop (trackPath g) [] 0) \<rparr>"
  by (simp add: buildTrackSegments_def split: prod.splits)

lemma segOk_pos: "list_all segOk segs \<Longrightarrow> list_all (\<lambda>seg. 0 < segLen seg) segs"
  by (induction segs) (simp_all add: segOk_def)

lemma atan2_axes [simp]: "0 < x \<Longrightarrow> atan2 0 x = 0" "0 < y \<Longrightarrow> atan2 y 0 = pi / 2"
  by (simp_all add: atan2_def)


text \<open>
  C7. When buildTrackSegments yields at least one segment: every stored segment has a
  positive length, \<open>trackLength\<close> is the sum of the segment lengths, \<open>sampleTrack\<close> at 0
  is the first point of \<open>trackPath\<close> with the heading of the first segment, and
  \<open>sampleTrack\<close> at 1 is the last point of \<open>trackPath\<close> with the heading of the last
  segment. For the centerline (0,0)-(100,0)-(100,100): \<open>trackLength\<close> is 200,
  \<open>sampleTrack\<close> at 0.25 is (50,0) with heading 0, and at 0.75 it is (100,50) with
  heading \<open>\<pi>/2\<close>.
\<close>

theorem centerline_sampling:
  "(trackSegments (buildTrackSegments g) \<noteq> [] \<longrightarrow>
      list_all (\<lambda>seg. 0 < segLen seg) (trackSegments (buildTrackSegments g))
      \<and> trackLength (buildTrackSegments g)
          = sum_list (map segLen (trackSegments (buildTrackSegments g)))
      \<and> sampleTrack (buildTrackSegments g) 0
          = Some \<lparr> poseX = px (hd (trackPath g)), poseY = py (hd (trackPath g)),
                   poseAngle = atan2 (segDy (hd (trackSegments (buildTrackSegments g))))
                                     (segDx (hd (trackSegments (buildTrackSegments g)))) \<rparr>
      \<and> sampleTrack (buildTrackSegments g) 1
          = Some \<lparr> poseX = px (last (trackPath g)), poseY = py (last (trackPath g)),
                   poseAngle = atan2 (segDy (last (trackSegments (buildTrackSegments g))))
                                     (segDx (last (trackSegments (buildTrackSegments g)))) \<rparr>)
   \<and> (trackPath g = [\<lparr> px = 0, py = 0 \<rparr>, \<lparr> px = 100, py = 0 \<rparr>, \<lparr> px = 100, py = 100 \<rparr>] \<longrightarrow>
        trackLength (buildTrackSegments g) = 200
        \<and> sampleTrack (buildTrackSegments g) 0.25
            = Some \<lparr> poseX = 50, poseY = 0, poseAngle = 0 \<rparr>
        \<and> sampleTrack (buildTrackSegments g) 0.75
            = Some \<lparr> poseX = 100, poseY = 50, poseAngle = pi / 2 \<rparr>)"
proof -
  let ?g = "buildTrackSegments g"
  let ?segs = "trackSegments ?g"
  have segs: "?segs = fst (buildLoop (trackPath g) [] 0)"
    and tlen: "trackLength ?g = snd (buildLoop (trackPath g) [] 0)"
    by (simp_all add: buildTrackSegments_eq)
  have gen: "list_all (\<lambda>seg. 0 < segLen seg) ?segs
      \<and> trackLength ?g = sum_list (map segLen ?segs)
      \<and> sampleTrack ?g 0
          = Some \<lparr> poseX = px (hd (trackPath g)), poseY = py (hd (trackPath g)),
                   poseAngle = atan2 (segDy (hd ?segs)) (segDx (hd ?segs)) \<rparr>
      \<and> sampleTrack ?g 1
          = Some \<lparr> poseX = px (last (trackPath g)), poseY = py (last (trackPath g)),
                   poseAngle = atan2 (segDy (last ?segs)) (segDx (last ?segs)) \<rparr>"
    if ne: "?segs \<noteq> []"
  proof -
    note p = buildLoop_props [of "trackPath g", folded segs tlen]
    from p have ok: "list_all segOk ?segs" and len: "trackLength ?g = sum_list (map segLen ?segs)"
      by simp_all
    from p ne have ends: "px (segA (hd ?segs)) = px (hd (trackPath g))"
      "py (segA (hd ?segs)) = py (hd (trackPath g))"
      "px (segB (last ?segs)) = px (last (trackPath g))"
      "py (segB (last ?segs)) = py (last (trackPath g))" by simp_all
    have pos: "0 < trackLength ?g" unfolding len by (rule sum_pos [OF ok ne])
    have hd: "0 < segLen (hd ?segs)" using ok ne by (cases ?segs) (simp_all add: segOk_def)
    have s0: "sampleTrack ?g 0 = Some (sampleLoop ?segs 0 (last ?segs))"
      using ne pos by (simp add: sampleTrack_def)
    have "sampleTrack ?g 1 = Some (sampleLoop ?segs (trackLength ?g) (last ?segs))"
      using ne pos by (simp add: sampleTrack_def)
    then have s1: "sampleTrack ?g 1
        = Some (sampleLoop ?segs (sum_list (map segLen ?segs)) (last ?segs))"
      by (simp only: len)
    have e0: "sampleTrack ?g 0
          = Some \<lparr> poseX = px (hd (trackPath g)), poseY = py (hd (trackPath g)),
                   poseAngle = atan2 (segDy (hd ?segs)) (segDx (hd ?segs)) \<rparr>"
      unfolding s0 sampleLoop_start [OF ne hd] ends ..
    have e1: "sampleTrack ?g 1
          = Some \<lparr> poseX = px (last (trackPath g)), poseY = py (last (trackPath g)),
                   poseAngle = atan2 (segDy (last ?segs)) (segDx (last ?segs)) \<rparr>"
      unfolding s1 sampleLoop_end [OF ok ne] ends ..
    show ?thesis using segOk_pos [OF ok] len e0 e1 by blast
  qed
  have ex: "trackLength ?g = 200
        \<and> sampleTrack ?g 0.25 = Some \<lparr> poseX = 50, poseY = 0, poseAngle = 0 \<rparr>
        \<and> sampleTrack ?g 0.75 = Some \<lparr> poseX = 100, poseY = 50, poseAngle = pi / 2 \<rparr>"
    if "trackPath g = [\<lparr> px = 0, py = 0 \<rparr>, \<lparr> px = 100, py = 0 \<rparr>, \<lparr> px = 100, py = 100 \<rparr>]"
    by (simp add: that buildTrackSegments_def sampleTrack_def Let_def)
  show ?thesis using gen ex by blast
qed


text \<open>C7, on the centerline (0,0)-(100,0)-(100,100), with its two end points.\<close>

theorem centerline_sampling_witness:
  "trackPath cornerTrack = [\<lparr> px = 0, py = 0 \<rparr>, \<lparr> px = 100, py = 0 \<rparr>, \<lparr> px = 100, py = 100 \<rparr>]
   \<and> length (trackSegments (buildTrackSegments cornerTrack)) = 2
   \<and> trackLength (buildTrackSegments cornerTrack) = 200
   \<and> sampleTrack (buildTrackSegments cornerTrack) 0 = Some \<lparr> poseX = 0, poseY = 0, poseAngle = 0 \<rparr>
   \<and> sampleTrack (buildTrackSegments cornerTrack) 0.25 = Some \<lparr> poseX = 50, poseY = 0, poseAngle = 0 \<rparr>
   \<and> sampleTrack (buildTrackSegments cornerTrack) 0.75
       = Some \<lparr> poseX = 100, poseY = 50, poseAngle = pi / 2 \<rparr>
   \<and> sampleTrack (buildTrackSegments cornerTrack) 1
       = Some \<lparr> poseX = 100, poseY = 100, poseAngle = pi / 2 \<rparr>"
proof -
  have p: "trackPath cornerTrack
      = [\<lparr> px = 0, py = 0 \<rparr>, \<lparr> px = 100, py = 0 \<rparr>, \<lparr> px = 100, py = 100 \<rparr>]"
    by (simp add: cornerTrack_def)
  have s: "trackSegments (buildTrackSegments cornerTrack)
      = [\<lparr> segA = \<lparr> px = 0, py = 0 \<rparr>, segB = \<lparr> px = 100, py = 0 \<rparr>, segLen = 100,
           segDx = 100, segDy = 0 \<rparr>,
         \<lparr> segA = \<lparr> px = 100, py = 0 \<rparr>, segB = \<lparr> px = 100, py = 100 \<rparr>, segLen = 100,
           segDx = 0, segDy = 100 \<rparr>]"
    by (simp add: buildTrackSegments_def p Let_def)
  show ?thesis
    using centerline_sampling [of cornerTrack]
    by (simp add: p s)
qed


section \<open>Map loading\<close>

lemma loopKeeps_refl: "loopKeeps g g"
  by (simp add: loopKeeps_def)

lemma loopKeeps_trans: "loopKeeps a b \<Longrightarrow> loopKeeps b c \<Longrightarrow> loopKeeps a c"
  by (simp add: loopKeeps_def)

lemma loopKeeps_loadKeeps: "loopKeeps g g' \<Longrightarrow> loadKeeps g g'"
  by (simp add: loopKeeps_def loadKeeps_def lateKept_def)

lemma loadKeeps_trans: "loadKeeps a b \<Longrightarrow> loadKeeps b c \<Longrightarrow> loadKeeps a c"
  by (simp add: loadKeeps_def lateKept_def)

lemma after_simps:
  "after f (Next x) = Some (f x)" "after f (Thrown g) = Some g" "after f Outside = None"
  by (simp_all add: after_def)

lemma placeCar_keeps: "placeCar obj st = Some st' \<Longrightarrow> loopKeeps (glob st) (glob st')"
  by (auto simp: placeCar_def loopKeeps_def Let_def split: Option.bind_splits)

lemma placeNumberedCheckpoint_keeps:
  "placeNumberedCheckpoint name obj st = Some st' \<Longrightarrow> loopKeeps (glob st) (glob st')"
  by (auto simp: placeNumberedCheckpoint_def loopKeeps_def Let_def split: Option.bind_splits)

lemma placeTrackLimit_keeps:
  "placeTrackLimit obj st = Some st' \<Longrightarrow> loopKeeps (glob st) (glob st')"
  by (auto simp: placeTrackLimit_def loopKeeps_def Let_def split: Option.bind_splits)

lemma placeAISpawn_keeps:
  "placeAISpawn obj st = Some st' \<Longrightarrow> loopKeeps (glob st) (glob st')"
  by (auto simp: placeAISpawn_def loopKeeps_def Let_def split: Option.bind_splits)

lemma placeObstacle_keeps:
  "after glob (placeObstacle obj st) = Some g' \<Longrightarrow> loopKeeps (glob st) g'"
  by (auto simp: placeObstacle_def after_def orOutside_def loopKeeps_def Let_def
      split: Option.bind_splits attempt.splits option.splits)

lemma placeCheckpoint_keeps:
  "after glob (placeCheckpoint obj st) = Some g' \<Longrightarrow> loopKeeps (glob st) g'"
  by (auto simp: placeCheckpoint_def after_def orOutside_def loopKeeps_def Let_def
      split: Option.bind_splits attempt.splits option.splits json.splits list.splits)

lemma after_orOutside: "after f (orOutside v) = Some g' \<longleftrightarrow> (\<exists>x. v = Some x \<and> f x = g')"
  by (auto simp: after_def orOutside_def split: option.splits)

lemma placeObject_keeps:
  "after glob (placeObject name obj st) = Some g' \<Longrightarrow> loopKeeps (glob st) g'"
  unfolding placeObject_def Let_def
  by (auto simp: after_orOutside placeCar_keeps placeNumberedCheckpoint_keeps
      placeTrackLimit_keeps placeAISpawn_keeps placeObstacle_keeps placeCheckpoint_keeps
      loopKeeps_refl after_simps split: if_splits)

lemma processObject_keeps:
  "after glob (processObject meta imgs obj st) = Some g' \<Longrightarrow> loopKeeps (glob st) g'"
  unfolding processObject_def
  by (auto simp: placeObject_keeps loopKeeps_refl after_simps
      split: if_splits option.splits json.splits attempt.splits)

lemma processObjects_keeps:
  "after glob (processObjects meta imgs objs st) = Some g' \<Longrightarrow> loopKeeps (glob st) g'"
proof (induction objs arbitrary: st)
  case Nil
  then show ?case by (simp add: after_def loopKeeps_refl)
next
  case (Cons obj objs)
  show ?case
  proof (cases "processObject meta imgs obj st")
    case (Next st1)
    then have a: "loopKeeps (glob st) (glob st1)"
      using processObject_keeps [of meta imgs obj st "glob st1"] by (simp add: after_def)
    from Cons.prems Next have "after glob (processObjects meta imgs objs st1) = Some g'" by simp
    then have "loopKeeps (glob st1) g'" by (rule Cons.IH)
    with a show ?thesis by (rule loopKeeps_trans)
  next
    case (Thrown g)
    with Cons.prems have "g = g'" by (simp add: after_def)
    with Thrown show ?thesis
      using processObject_keeps [of meta imgs obj st g'] by (simp add: after_def)
  next
    case Outside
    with Cons.prems show ?thesis by (simp add: after_def)
  qed
qed

lemma readTrackPath_keeps:
  "after id (readTrackPath trackObj g) = Some g' \<Longrightarrow> loopKeeps g g'"
  by (auto simp: readTrackPath_def after_def loopKeeps_def
      split: option.splits json.splits attempt.splits)

lemma publishObjects_keeps: "loopKeeps (glob st) (glob (publishObjects st))"
  by (simp add: publishObjects_def loopKeeps_def Let_def)

lemma processObjectGroup_keeps:
  assumes "after glob (processObjectGroup meta imgs layer st) = Some g'"
  shows "loopKeeps (glob st) g'"
proof -
  show ?thesis
  proof (cases "lowerOr (member layer ''name'')")
    case (Done lname)
    show ?thesis
    proof (cases "findTrackPath (arrayOf (member layer ''objects''))")
      case (Done trackObj)
      define r where "r = (case trackObj of
            Some tobj \<Rightarrow> if lname = ''track'' then readTrackPath tobj (glob st) else Next (glob st)
          | None \<Rightarrow> Next (glob st))"
      have rk: "loopKeeps (glob st) g1" if "after id r = Some g1" for g1
        using that readTrackPath_keeps [of _ "glob st" g1]
        by (auto simp: r_def after_simps loopKeeps_refl split: option.splits if_splits)
      show ?thesis
      proof (cases r)
        case (Next g1)
        then have k1: "loopKeeps (glob st) g1" using rk by (simp add: after_simps)
        define st0 where "st0 = st\<lparr> glob := g1, newObstacles := [], foundObjects := False \<rparr>"
        have g0: "glob st0 = g1" by (simp add: st0_def)
        show ?thesis
        proof (cases "processObjects meta imgs (arrayOf (member layer ''objects'')) st0")
          case (Next st1)
          then have "loopKeeps g1 (glob st1)"
            using processObjects_keeps
              [of meta imgs "arrayOf (member layer ''objects'')" st0 "glob st1"] g0
            by (simp add: after_simps)
          moreover have "g' = glob (publishObjects st1)"
            using assms \<open>lowerOr (member layer ''name'') = Done lname\<close>
              \<open>findTrackPath (arrayOf (member layer ''objects'')) = Done trackObj\<close>
              \<open>r = Next g1\<close> Next
            by (simp add: processObjectGroup_def after_simps r_def [symmetric] st0_def [symmetric])
          ultimately show ?thesis
            using k1 publishObjects_keeps [of st1] loopKeeps_trans by blast
        next
          case (Thrown t)
          then have "loopKeeps g1 t"
            using processObjects_keeps
              [of meta imgs "arrayOf (member layer ''objects'')" st0 t] g0
            by (simp add: after_simps)
          moreover have "g' = t"
            using assms \<open>lowerOr (member layer ''name'') = Done lname\<close>
              \<open>findTrackPath (arrayOf (member layer ''objects'')) = Done trackObj\<close>
              \<open>r = Next g1\<close> Thrown
            by (simp add: processObjectGroup_def after_simps r_def [symmetric] st0_def [symmetric])
          ultimately show ?thesis using k1 loopKeeps_trans by blast
        next
          case Outside
          then show ?thesis
            using assms \<open>lowerOr (member layer ''name'') = Done lname\<close>
              \<open>findTrackPath (arrayOf (member layer ''objects'')) = Done trackObj\<close>
              \<open>r = Next g1\<close>
            by (simp add: processObjectGroup_def after_simps r_def [symmetric] st0_def [symmetric])
        qed
      next
        case (Thrown t)
        then have "loopKeeps (glob st) t" using rk by (simp add: after_simps)
        moreover have "g' = t"
          using assms \<open>lowerOr (member layer ''name'') = Done lname\<close>
            \<open>findTrackPath (arrayOf (member layer ''objects'')) = Done trackObj\<close> Thrown
          by (simp add: processObjectGroup_def after_simps r_def [symmetric])
        ultimately show ?thesis by simp
      next
        case Outside
        then show ?thesis
          using assms \<open>lowerOr (member layer ''name'') = Done lname\<close>
            \<open>findTrackPath (arrayOf (member layer ''objects'')) = Done trackObj\<close>
          by (simp add: processObjectGroup_def after_simps r_def [symmetric])
      qed
    next
      case Raised
      then show ?thesis using assms Done
        by (simp add: processObjectGroup_def after_simps loopKeeps_refl)
    next
      case Beyond
      then show ?thesis using assms Done by (simp add: processObjectGroup_def after_simps)
    qed
  next
    case Raised
    then show ?thesis using assms by (simp add: processObjectGroup_def after_simps loopKeeps_refl)
  next
    case Beyond
    then show ?thesis using assms by (simp add: processObjectGroup_def after_simps)
  qed
qed

lemma processLayers_keeps:
  "after glob (processLayers e meta imgs layers st) = Some g' \<Longrightarrow> loopKeeps (glob st) g'"
proof (induction layers arbitrary: st)
  case Nil
  then show ?case by (simp add: after_simps loopKeeps_refl)
next
  case (Cons layer layers)
  have skip: "loopKeeps (glob st) g'"
    if "after glob (processLayers e meta imgs layers st) = Some g'"
    using that by (rule Cons.IH)
  have push: "loopKeeps (glob st) g'"
    if "after glob (processLayers e meta imgs layers
          (st\<lparr> newTileLayers := newTileLayers st @ [entry] \<rparr>)) = Some g'" for entry
    using Cons.IH [OF that] by simp
  show ?case
  proof (cases "layer = JNull")
    case True
    with Cons.prems show ?thesis by (simp add: after_simps loopKeeps_refl)
  next
    case False
    show ?thesis
    proof (cases "member layer ''type'' = Some (JStr ''tilelayer'')")
      case True
      with False Cons.prems show ?thesis
        by (auto simp: after_simps loopKeeps_refl skip push
            split: attempt.splits option.splits list.splits)
    next
      case nt: False
      show ?thesis
      proof (cases "member layer ''type'' = Some (JStr ''objectgroup'')")
        case True
        show ?thesis
        proof (cases "processObjectGroup meta imgs layer st")
          case (Next st1)
          then have "loopKeeps (glob st) (glob st1)"
            using processObjectGroup_keeps [of meta imgs layer st "glob st1"]
            by (simp add: after_simps)
          moreover have "after glob (processLayers e meta imgs layers st1) = Some g'"
            using Cons.prems False nt True Next by simp
          then have "loopKeeps (glob st1) g'" by (rule Cons.IH)
          ultimately show ?thesis by (rule loopKeeps_trans)
        next
          case (Thrown t)
          then have "loopKeeps (glob st) t"
            using processObjectGroup_keeps [of meta imgs layer st t] by (simp add: after_simps)
          moreover have "g' = t" using Cons.prems False nt True Thrown by (simp add: after_simps)
          ultimately show ?thesis by simp
        next
          case Outside
          then show ?thesis using Cons.prems False nt True by (simp add: after_simps)
        qed
      next
        case False
        with \<open>layer \<noteq> JNull\<close> nt Cons.prems show ?thesis by (simp add: skip)
      qed
    qed
  qed
qed

lemma lateKept_refl: "lateKept g g"
  by (simp add: lateKept_def)

lemma lateKept_trans: "lateKept a b \<Longrightarrow> lateKept b c \<Longrightarrow> lateKept a c"
  by (simp add: lateKept_def)

lemma loadKeeps_refl: "loadKeeps g g"
  by (simp add: loadKeeps_def lateKept_def)

lemma storeSizes_keeps:
  "storeSizes m metas imgs g = Some g' \<Longrightarrow> loadKeeps g g' \<and> raceLaps g' = raceLaps g"
  by (auto simp: storeSizes_def loadKeeps_def lateKept_def Let_def
      split: Option.bind_splits if_splits)

lemma beginLoad_keeps:
  assumes "after id (beginLoad e m g) = Some g1"
  shows "loadKeeps g g1"
    and "raceLaps g1 =
           (case findNamed (arrayOf (member m ''properties'')) ''laps'' of
              Done lapProp \<Rightarrow> lapsFrom lapProp (raceLaps g)
            | _ \<Rightarrow> raceLaps g)"
proof -
  have k: "loadKeeps g (g\<lparr> raceLaps := n \<rparr>)" for n
    by (simp add: loadKeeps_def lateKept_def)
  have s: "loadKeeps g g' \<and> raceLaps g' = n"
    if "storeSizes m metas imgs (g\<lparr> raceLaps := n \<rparr>) = Some g'" for metas imgs n g'
    using storeSizes_keeps [OF that] k [of n] loadKeeps_trans by auto
  have "loadKeeps g g1 \<and> raceLaps g1 =
           (case findNamed (arrayOf (member m ''properties'')) ''laps'' of
              Done lapProp \<Rightarrow> lapsFrom lapProp (raceLaps g)
            | _ \<Rightarrow> raceLaps g)"
  proof (cases "m = JNull")
    case True
    with assms show ?thesis
      by (simp add: beginLoad_def after_simps loadKeeps_refl member_def arrayOf_def lapsFrom_def)
  next
    case False
    with assms show ?thesis
      by (auto simp: beginLoad_def after_simps after_orOutside loadKeeps_refl k s Let_def
          split: attempt.splits)
  qed
  then show "loadKeeps g g1"
    and "raceLaps g1 =
           (case findNamed (arrayOf (member m ''properties'')) ''laps'' of
              Done lapProp \<Rightarrow> lapsFrom lapProp (raceLaps g)
            | _ \<Rightarrow> raceLaps g)"
    by simp_all
qed

lemma lowerOr_not_beyond: "lowerOr v \<noteq> Beyond"
  by (simp add: lowerOr_def split: option.splits json.splits)

lemma layersNamed_not_beyond: "layersNamed sub ls \<noteq> Beyond"
  by (induction ls) (auto simp: lowerOr_not_beyond split: attempt.splits)

lemma layersNamed_raised: "layersNamed a ls = Raised \<longleftrightarrow> layersNamed b ls = Raised"
  by (induction ls) (auto split: attempt.splits)

lemma finishLoad_thrown:
  assumes "finishLoad st = Thrown t"
  shows "raceLaps t = raceLaps (glob st)" and "lateKept (glob st) t"
    and "layersNamed ''road'' (tiledTileLayers t) = Raised"
proof -
  define g2 where "g2 = (let g0 = glob st;
      g1 = (if newTiles st \<noteq> [] then g0\<lparr> tiledTrackTiles := newTiles st \<rparr> else g0)
    in if newTileLayers st \<noteq> [] then g1\<lparr> tiledTileLayers := newTileLayers st \<rparr> else g1)"
  have k: "raceLaps g2 = raceLaps (glob st)" "lateKept (glob st) g2"
    by (simp_all add: g2_def lateKept_def Let_def)
  have f: "finishLoad st =
     (case layersNamed ''road'' (tiledTileLayers g2) of
        Raised \<Rightarrow> Thrown g2
      | Beyond \<Rightarrow> Outside
      | Done roadLayers \<Rightarrow>
          (case layersNamed ''ground'' (tiledTileLayers g2) of
             Raised \<Rightarrow> Thrown (g2\<lparr> tiledRoadLayers := roadLayers \<rparr>)
           | Beyond \<Rightarrow> Outside
           | Done groundLayers \<Rightarrow>
               (let g3 = g2\<lparr> tiledRoadLayers := roadLayers,
                             tiledGroundLayers := groundLayers,
                             aiSpawnPoints := newAISpawns st,
                             aiCheckpoints := map snd (sort_key fst (newAICheckpoints st)) \<rparr>
                in Next (if tiledTrackTiles g3 \<noteq> [] \<and> \<not> hasMapObjects g3
                         then g3\<lparr> obstacles := [], checkpoints := [],
                                  hasMapObstacles := False, hasMapCheckpoints := False,
                                  currentCheckpoint := 0, lastCheckpointIndex := - 1 \<rparr>
                         else g3))))"
    unfolding finishLoad_def g2_def Let_def by (rule refl)
  have r: "layersNamed ''road'' (tiledTileLayers g2) = Raised \<and> t = g2"
  proof (cases "layersNamed ''road'' (tiledTileLayers g2)")
    case (Done roadLayers)
    then have "layersNamed ''ground'' (tiledTileLayers g2) \<noteq> Raised"
      using layersNamed_raised [of "''ground''" "tiledTileLayers g2" "''road''"] by simp
    with assms Done show ?thesis
      by (simp add: f Let_def split: attempt.splits)
  next
    case Raised
    with assms show ?thesis by (simp add: f)
  next
    case Beyond
    with assms show ?thesis by (simp add: f)
  qed
  with k show "raceLaps t = raceLaps (glob st)" and "lateKept (glob st) t"
    and "layersNamed ''road'' (tiledTileLayers t) = Raised"
    by simp_all
qed

lemma finishLoad_next:
  assumes "finishLoad st = Next g'"
  shows "raceLaps g' = raceLaps (glob st)"
    and "layersNamed ''road'' (tiledTileLayers g') = Done (tiledRoadLayers g')"
    and "layersNamed ''ground'' (tiledTileLayers g') = Done (tiledGroundLayers g')"
  using assms
  by (auto simp: finishLoad_def Let_def split: attempt.splits if_splits)

lemma processLayers_leaves:
  assumes "processLayers e meta imgs layers st = r" and "after glob r = Some g'"
  shows "loopKeeps (glob st) g'"
  using processLayers_keeps [of e meta imgs layers st g'] assms by simp

lemma processLayers_next:
  assumes "processLayers e meta imgs layers st = Next st'" and "layer \<in> set layers"
  shows "layer \<noteq> JNull"
    and "member layer ''type'' = Some (JStr ''tilelayer'') \<longrightarrow> decodeLayerData e layer \<noteq> Raised"
proof -
  have "layer \<noteq> JNull
      \<and> (member layer ''type'' = Some (JStr ''tilelayer'') \<longrightarrow> decodeLayerData e layer \<noteq> Raised)"
    using assms
  proof (induction layers arbitrary: st)
    case Nil
    then show ?case by simp
  next
    case (Cons l ls)
    from Cons.prems(1) have l: "l \<noteq> JNull"
      "member l ''type'' = Some (JStr ''tilelayer'') \<longrightarrow> decodeLayerData e l \<noteq> Raised"
      by (auto split: if_splits)
    from Cons.prems(1) obtain st1 where "processLayers e meta imgs ls st1 = Next st'"
      by (auto split: if_splits attempt.splits option.splits list.splits step.splits)
    then have "layer \<in> set ls \<Longrightarrow> ?case" by (rule Cons.IH)
    with Cons.prems(2) l show ?case by auto
  qed
  then show "layer \<noteq> JNull"
    and "member layer ''type'' = Some (JStr ''tilelayer'') \<longrightarrow> decodeLayerData e layer \<noteq> Raised"
    by simp_all
qed

text \<open>The ways in which loadTiledMap ends on a document.\<close>

lemma loadTiledMap_cases:
  assumes "loadTiledMap e (Document m) g = Some (oc, g')"
  obtains
    (early) "beginLoad e m g = Thrown g'" "oc = Abandoned"
  | (loop) g3 where "beginLoad e m g = Next g3"
      "processLayers e (tiledTilesetMeta g3) (tiledTilesetImages g3)
         (arrayOf (member m ''layers''))
         \<lparr> glob = g3, newTiles = [], newTileLayers = [], newAISpawns = [],
           newAICheckpoints = [], newMapCheckpoints = [], newObstacles = [],
           foundObjects = False \<rparr> = Thrown g'" "oc = Abandoned"
  | (late) g3 st where "beginLoad e m g = Next g3"
      "processLayers e (tiledTilesetMeta g3) (tiledTilesetImages g3)
         (arrayOf (member m ''layers''))
         \<lparr> glob = g3, newTiles = [], newTileLayers = [], newAISpawns = [],
           newAICheckpoints = [], newMapCheckpoints = [], newObstacles = [],
           foundObjects = False \<rparr> = Next st" "finishLoad st = Thrown g'" "oc = Abandoned"
  | (full) g3 st where "beginLoad e m g = Next g3"
      "processLayers e (tiledTilesetMeta g3) (tiledTilesetImages g3)
         (arrayOf (member m ''layers''))
         \<lparr> glob = g3, newTiles = [], newTileLayers = [], newAISpawns = [],
           newAICheckpoints = [], newMapCheckpoints = [], newObstacles = [],
           foundObjects = False \<rparr> = Next st" "finishLoad st = Next g'" "oc = Completed"
  using assms by (auto simp: loadTiledMap_def split: step.splits)

lemma loadTiledMap_raceLaps:
  assumes "loadTiledMap e (Document m) g = Some (oc, g')"
  shows "raceLaps g' =
           (case findNamed (arrayOf (member m ''properties'')) ''laps'' of
              Done lapProp \<Rightarrow> lapsFrom lapProp (raceLaps g)
            | _ \<Rightarrow> raceLaps g)"
  using assms
proof (cases rule: loadTiledMap_cases)
  case early
  then show ?thesis using beginLoad_keeps(2) [of e m g g'] by (simp add: after_simps)
next
  case (loop g3)
  then show ?thesis
    using beginLoad_keeps(2) [of e m g g3] processLayers_leaves [OF loop(2), of g']
    by (simp add: after_simps loopKeeps_def)
next
  case (late g3 st)
  then show ?thesis
    using beginLoad_keeps(2) [of e m g g3]
      processLayers_leaves [OF late(2), of "glob st"] finishLoad_thrown(1) [of st g']
    by (simp add: after_simps loopKeeps_def)
next
  case (full g3 st)
  then show ?thesis
    using beginLoad_keeps(2) [of e m g g3]
      processLayers_leaves [OF full(2), of "glob st"] finishLoad_next(1) [of st g']
    by (simp add: after_simps loopKeeps_def)
qed

lemma loadTiledMap_abandoned:
  assumes "loadTiledMap e (Document m) g = Some (Abandoned, g')"
  shows "lateKept g g'"
    and "tiledTileLayers g' = tiledTileLayers g \<and> tiledTrackTiles g' = tiledTrackTiles g
         \<or> layersNamed ''road'' (tiledTileLayers g') = Raised"
proof -
  have "lateKept g g' \<and> (tiledTileLayers g' = tiledTileLayers g \<and> tiledTrackTiles g' = tiledTrackTiles g
         \<or> layersNamed ''road'' (tiledTileLayers g') = Raised)"
    using assms
  proof (cases rule: loadTiledMap_cases)
    case early
    then show ?thesis using beginLoad_keeps(1) [of e m g g']
      by (simp add: after_simps loadKeeps_def)
  next
    case (loop g3)
    then have "loadKeeps g g3" "loopKeeps g3 g'"
      using beginLoad_keeps(1) [of e m g g3] processLayers_leaves [OF loop(2), of g']
      by (simp_all add: after_simps)
    then have "loadKeeps g g'" using loopKeeps_loadKeeps loadKeeps_trans by blast
    then show ?thesis by (simp add: loadKeeps_def)
  next
    case (late g3 st)
    then have "loadKeeps g g3" "loopKeeps g3 (glob st)"
      using beginLoad_keeps(1) [of e m g g3] processLayers_leaves [OF late(2), of "glob st"]
      by (simp_all add: after_simps)
    then have "loadKeeps g (glob st)" using loopKeeps_loadKeeps loadKeeps_trans by blast
    then have "lateKept g (glob st)" by (simp add: loadKeeps_def)
    with late show ?thesis
      using finishLoad_thrown(2,3) [of st g'] lateKept_trans by blast
  next
    case (full g3 st)
    then show ?thesis by simp
  qed
  then show "lateKept g g'"
    and "tiledTileLayers g' = tiledTileLayers g \<and> tiledTrackTiles g' = tiledTrackTiles g
         \<or> layersNamed ''road'' (tiledTileLayers g') = Raised"
    by simp_all
qed

lemma loadTiledMap_completed:
  assumes "loadTiledMap e r g = Some (Completed, g')"
  shows "layersNamed ''road'' (tiledTileLayers g') = Done (tiledRoadLayers g')"
    and "layersNamed ''ground'' (tiledTileLayers g') = Done (tiledGroundLayers g')"
    and "\<exists>m. r = Document m \<and> m \<noteq> JNull
           \<and> (\<forall>layer \<in> set (arrayOf (member m ''layers'')).
                 layer \<noteq> JNull
                 \<and> (member layer ''type'' = Some (JStr ''tilelayer'')
                      \<longrightarrow> decodeLayerData e layer \<noteq> Raised))"
proof -
  obtain m where r: "r = Document m"
    using assms by (cases r) (simp_all add: loadTiledMap_def)
  have "layersNamed ''road'' (tiledTileLayers g') = Done (tiledRoadLayers g')
      \<and> layersNamed ''ground'' (tiledTileLayers g') = Done (tiledGroundLayers g')
      \<and> m \<noteq> JNull
      \<and> (\<forall>layer \<in> set (arrayOf (member m ''layers'')).
                 layer \<noteq> JNull
                 \<and> (member layer ''type'' = Some (JStr ''tilelayer'')
                      \<longrightarrow> decodeLayerData e layer \<noteq> Raised))"
    using assms [unfolded r]
  proof (cases rule: loadTiledMap_cases)
    case (full g3 st)
    have "m \<noteq> JNull" using full(1) by (auto simp: beginLoad_def)
    then show ?thesis
      using finishLoad_next(2,3) [of st g'] processLayers_next [OF full(2)] full(3) by blast
  qed simp_all
  with r show "layersNamed ''road'' (tiledTileLayers g') = Done (tiledRoadLayers g')"
    and "layersNamed ''ground'' (tiledTileLayers g') = Done (tiledGroundLayers g')"
    and "\<exists>m. r = Document m \<and> m \<noteq> JNull
           \<and> (\<forall>layer \<in> set (arrayOf (member m ''layers'')).
                 layer \<noteq> JNull
                 \<and> (member layer ''type'' = Some (JStr ''tilelayer'')
                      \<longrightarrow> decodeLayerData e layer \<noteq> Raised))"
    by simp_all
qed


text \<open>
  C8, as the code has it. After loadTiledMap on a parsed document, also when the load is
  abandoned later, the lap count is: the floor of the value of the first map property
  named \<open>laps\<close>, raised to 1 if it is less, when the search of the list of map
  properties finds that property and its value is a number; the previous lap count
  otherwise, which includes the search that throws on an entry \<open>null\<close> in front of the
  property. A load that does not get a document leaves the lap count as it is.
\<close>

theorem laps_property_override:
  "(loadTiledMap e (Document m) g = Some (oc, g') \<longrightarrow>
      raceLaps g' =
        (case findNamed (arrayOf (member m ''properties'')) ''laps'' of
           Done (Some lapProp) \<Rightarrow>
             (case member lapProp ''value'' of
                Some (JNum v) \<Rightarrow> max 1 \<lfloor>v\<rfloor>
              | _ \<Rightarrow> raceLaps g)
         | _ \<Rightarrow> raceLaps g))
   \<and> map_option (raceLaps \<circ> snd) (loadTiledMap e FetchError g) = Some (raceLaps g)
   \<and> map_option (raceLaps \<circ> snd) (loadTiledMap e NotOk g) = Some (raceLaps g)
   \<and> map_option (raceLaps \<circ> snd) (loadTiledMap e InvalidJson g) = Some (raceLaps g)"
proof -
  have "raceLaps g' =
        (case findNamed (arrayOf (member m ''properties'')) ''laps'' of
           Done (Some lapProp) \<Rightarrow>
             (case member lapProp ''value'' of
                Some (JNum v) \<Rightarrow> max 1 \<lfloor>v\<rfloor>
              | _ \<Rightarrow> raceLaps g)
         | _ \<Rightarrow> raceLaps g)"
    if "loadTiledMap e (Document m) g = Some (oc, g')"
    using loadTiledMap_raceLaps [OF that]
    by (simp add: lapsFrom_def split: attempt.splits option.splits)
  then show ?thesis by (simp add: loadTiledMap_def)
qed

text \<open>A map without tilesets, size and layers.\<close>

lemma plain_begin:
  assumes "m \<noteq> JNull" and "findNamed (arrayOf (member m ''properties'')) ''laps'' = Done lapProp"
    and "member m ''tilesets'' = None" and "member m ''tilewidth'' = None"
    and "member m ''tileheight'' = None" and "member m ''width'' = None"
    and "member m ''height'' = None"
  shows "beginLoad demoEnv m initialGame
           = Next (initialGame\<lparr> raceLaps := lapsFrom lapProp 3 \<rparr>)"
  using assms
  by (simp add: beginLoad_def arrayOf_def storeSizes_def intOr_def orOutside_def)
    (simp add: initialGame_def)

lemma plain_load:
  assumes "m \<noteq> JNull" and "findNamed (arrayOf (member m ''properties'')) ''laps'' = Done lapProp"
    and "member m ''tilesets'' = None" and "member m ''tilewidth'' = None"
    and "member m ''tileheight'' = None" and "member m ''width'' = None"
    and "member m ''height'' = None" and "member m ''layers'' = None"
  shows "loadTiledMap demoEnv (Document m) initialGame
           = Some (Completed, initialGame\<lparr> raceLaps := lapsFrom lapProp 3 \<rparr>)"
  using assms(8)
  by (simp add: loadTiledMap_def plain_begin [OF assms(1-7)] arrayOf_def finishLoad_def
      initial_tiles Let_def)
    (simp add: initialGame_def)

lemma frac_load:
  "loadTiledMap demoEnv (Document fracLapsMap) initialGame
     = Some (Completed, initialGame\<lparr> raceLaps := 2 \<rparr>)"
proof -
  have "lapsFrom (Some (JObj [(''name'', JStr ''laps''), (''value'', JNum 2.7)])) 3 = 2"
    by (simp add: lapsFrom_def member_def)
  then show ?thesis
    using plain_load [of fracLapsMap "Some (JObj [(''name'', JStr ''laps''), (''value'', JNum 2.7)])"]
    by (simp add: fracLapsMap_def member_def arrayOf_def)
qed

lemma zero_load:
  "loadTiledMap demoEnv (Document zeroLapsMap) initialGame
     = Some (Completed, initialGame\<lparr> raceLaps := 1 \<rparr>)"
  using plain_load [of zeroLapsMap "Some (JObj [(''name'', JStr ''laps''), (''value'', JNum 0)])"]
  by (simp add: zeroLapsMap_def member_def arrayOf_def lapsFrom_def)

lemma empty_load:
  "loadTiledMap demoEnv (Document emptyMap) initialGame = Some (Completed, initialGame)"
  using plain_load [of emptyMap None]
  by (simp add: emptyMap_def member_def arrayOf_def lapsFrom_def) (simp add: initialGame_def)

lemma nullProp_load:
  "loadTiledMap demoEnv (Document nullPropMap) initialGame = Some (Abandoned, initialGame)"
  by (simp add: loadTiledMap_def beginLoad_def nullPropMap_def member_def arrayOf_def)

lemma null_load:
  "loadTiledMap demoEnv (Document JNull) initialGame = Some (Abandoned, initialGame)"
  by (simp add: loadTiledMap_def beginLoad_def)

text \<open>
  C8, for \<open>"laps": 2.7\<close> (the lap count becomes 2), for a map without properties, and
  for a list of properties with \<open>null\<close> in front of \<open>"laps": 5\<close> (the search throws
  and the lap count stays 3).
\<close>

theorem laps_property_override_witness:
  "raceLaps initialGame = 3
   \<and> loadTiledMap demoEnv (Document fracLapsMap) initialGame
       = Some (Completed, initialGame\<lparr> raceLaps := 2 \<rparr>)
   \<and> findNamed (arrayOf (member fracLapsMap ''properties'')) ''laps''
       = Done (Some (JObj [(''name'', JStr ''laps''), (''value'', JNum 2.7)]))
   \<and> raceLaps (initialGame\<lparr> raceLaps := 2 \<rparr>) = max 1 \<lfloor>2.7 :: real\<rfloor>
   \<and> loadTiledMap demoEnv (Document emptyMap) initialGame = Some (Completed, initialGame)
   \<and> findNamed (arrayOf (member emptyMap ''properties'')) ''laps'' = Done None
   \<and> loadTiledMap demoEnv (Document nullPropMap) initialGame = Some (Abandoned, initialGame)
   \<and> findNamed (arrayOf (member nullPropMap ''properties'')) ''laps'' = Raised"
  using laps_property_override
      [of demoEnv fracLapsMap initialGame Completed "initialGame\<lparr> raceLaps := 2 \<rparr>"]
    laps_property_override [of demoEnv emptyMap initialGame Completed initialGame]
    laps_property_override [of demoEnv nullPropMap initialGame Abandoned initialGame]
  by (simp add: frac_load empty_load nullProp_load initial_tiles)
    (simp add: fracLapsMap_def emptyMap_def nullPropMap_def member_def arrayOf_def)


text \<open>
  C8, the claim as stated fails. A map with \<open>"laps": 0\<close>, a number that is not positive,
  does not keep the previous lap count 3: the lap count becomes 1.
\<close>

theorem laps_zero_counterexample:
  "raceLaps initialGame = 3
   \<and> findNamed (arrayOf (member zeroLapsMap ''properties'')) ''laps''
       = Done (Some (JObj [(''name'', JStr ''laps''), (''value'', JNum 0)]))
   \<and> loadTiledMap demoEnv (Document zeroLapsMap) initialGame
       = Some (Completed, initialGame\<lparr> raceLaps := 1 \<rparr>)
   \<and> raceLaps (initialGame\<lparr> raceLaps := 1 \<rparr>) = 1"
  by (simp add: zero_load initial_tiles)
    (simp add: zeroLapsMap_def member_def arrayOf_def)


text \<open>
  C1, as the code has it. A load that gets no document (the request fails, the response
  is not ok, the body is not JSON) leaves every module variable as it was. A load that is
  abandoned after the document was parsed leaves the road and ground layers, the spawn
  points and checkpoints of the AI cars, the track segments and the state of the race as
  they were; it also leaves the tile layers and the track tiles as they were, unless the
  exception comes from the filter of the tile layers by name (a tile layer whose name is
  not a string), which runs after they were replaced. A load that completes has read a
  document other than \<open>null\<close> that has no layer \<open>null\<close> and no tile layer whose payload
  throws, and it leaves road and ground layers that are the tile layers filtered by name.
\<close>

theorem load_abandoned_keeps:
  "((\<forall>m. r \<noteq> Document m) \<longrightarrow> loadTiledMap e r g = Some (Abandoned, g))
   \<and> (loadTiledMap e r g = Some (Abandoned, g') \<longrightarrow>
        lateKept g g'
        \<and> (tiledTileLayers g' = tiledTileLayers g \<and> tiledTrackTiles g' = tiledTrackTiles g
           \<or> layersNamed ''road'' (tiledTileLayers g') = Raised))
   \<and> (loadTiledMap e r g = Some (Completed, g') \<longrightarrow>
        layersNamed ''road'' (tiledTileLayers g') = Done (tiledRoadLayers g')
        \<and> layersNamed ''ground'' (tiledTileLayers g') = Done (tiledGroundLayers g')
        \<and> (\<exists>m. r = Document m \<and> m \<noteq> JNull
              \<and> (\<forall>layer \<in> set (arrayOf (member m ''layers'')).
                    layer \<noteq> JNull
                    \<and> (member layer ''type'' = Some (JStr ''tilelayer'')
                         \<longrightarrow> decodeLayerData e layer \<noteq> Raised))))"
proof (intro conjI impI)
  assume "\<forall>m. r \<noteq> Document m"
  then show "loadTiledMap e r g = Some (Abandoned, g)"
    by (cases r) (simp_all add: loadTiledMap_def)
next
  assume a: "loadTiledMap e r g = Some (Abandoned, g')"
  show "lateKept g g'"
  proof (cases r)
    case (Document m)
    with a show ?thesis using loadTiledMap_abandoned(1) by simp
  qed (use a in \<open>simp_all add: loadTiledMap_def lateKept_refl\<close>)
  show "tiledTileLayers g' = tiledTileLayers g \<and> tiledTrackTiles g' = tiledTrackTiles g
           \<or> layersNamed ''road'' (tiledTileLayers g') = Raised"
  proof (cases r)
    case (Document m)
    with a show ?thesis using loadTiledMap_abandoned(2) by simp
  qed (use a in \<open>auto simp: loadTiledMap_def\<close>)
next
  assume "loadTiledMap e r g = Some (Completed, g')"
  then show "layersNamed ''road'' (tiledTileLayers g') = Done (tiledRoadLayers g')"
    by (rule loadTiledMap_completed(1))
next
  assume "loadTiledMap e r g = Some (Completed, g')"
  then show "layersNamed ''ground'' (tiledTileLayers g') = Done (tiledGroundLayers g')"
    by (rule loadTiledMap_completed(2))
next
  assume "loadTiledMap e r g = Some (Completed, g')"
  then show "\<exists>m. r = Document m \<and> m \<noteq> JNull
              \<and> (\<forall>layer \<in> set (arrayOf (member m ''layers'')).
                    layer \<noteq> JNull
                    \<and> (member layer ''type'' = Some (JStr ''tilelayer'')
                         \<longrightarrow> decodeLayerData e layer \<noteq> Raised))"
    by (rule loadTiledMap_completed(3))
qed

lemma object_names:
  "objectName coneObject = Done ''obstacle''"
  "objectName carObject = Done ''car''"
  "objectName gateObject = Done ''checkpoint''"
  by (simp_all add: objectName_def coneObject_def carObject_def gateObject_def member_def
      lowerOr_def toLowerCase_def lowerChar_def)

lemma place_obstacle: "placeObject ''obstacle'' obj st = placeObstacle obj st"
  by (simp add: placeObject_def compactName_def isCheckpointN_def isSpace_def Let_def)

lemma place_car: "placeObject ''car'' obj st = orOutside (placeCar obj st)"
  by (simp add: placeObject_def Let_def)

lemma place_checkpoint: "placeObject ''checkpoint'' obj st = placeCheckpoint obj st"
  by (simp add: placeObject_def compactName_def isCheckpointN_def isSpace_def Let_def)

lemma place_track_path: "placeObject ''track_path'' obj st = Next st"
  by (simp add: placeObject_def compactName_def isCheckpointN_def isSpace_def Let_def)

lemma process_cone:
  "processObject meta imgs coneObject st =
     Next (st\<lparr> foundObjects := True, glob := (glob st)\<lparr> hasMapObjects := True \<rparr>,
              newObstacles := newObstacles st @ [Circle 10 10 18] \<rparr>)"
proof -
  have "placeObstacle coneObject st =
     Next (st\<lparr> foundObjects := True, glob := (glob st)\<lparr> hasMapObjects := True \<rparr>,
              newObstacles := newObstacles st @ [Circle 10 10 18] \<rparr>)"
    by (simp add: placeObstacle_def coneObject_def member_def getObjectProperty_def numOr_def
        numberOr_def orOutside_def Let_def)
  moreover have "coneObject \<noteq> JNull" "member coneObject ''gid'' = None"
    by (simp_all add: coneObject_def member_def)
  ultimately show ?thesis
    by (simp add: processObject_def object_names place_obstacle)
qed

lemma process_car:
  "processObject meta imgs carObject st =
     Next (st\<lparr> foundObjects := True,
              glob := (glob st)\<lparr> hasMapObjects := True,
                        car := (car (glob st))\<lparr> posX := 50, posY := 60,
                                                 angle := degToRad 90 \<rparr>,
                        startSpawn := \<lparr> poseX = 50, poseY = 60,
                                        poseAngle = degToRad 90 \<rparr> \<rparr> \<rparr>)"
proof -
  have "placeCar carObject st =
     Some (st\<lparr> foundObjects := True,
              glob := (glob st)\<lparr> hasMapObjects := True,
                        car := (car (glob st))\<lparr> posX := 50, posY := 60,
                                                 angle := degToRad 90 \<rparr>,
                        startSpawn := \<lparr> poseX = 50, poseY = 60,
                                        poseAngle = degToRad 90 \<rparr> \<rparr> \<rparr>)"
    by (simp add: placeCar_def carObject_def member_def numOr_def Let_def)
  moreover have "carObject \<noteq> JNull" "member carObject ''gid'' = None"
    by (simp_all add: carObject_def member_def)
  ultimately show ?thesis
    by (simp add: processObject_def object_names place_car orOutside_def)
qed

lemma process_gate:
  "processObject meta imgs gateObject st =
     Next (st\<lparr> foundObjects := True, glob := (glob st)\<lparr> hasMapObjects := True \<rparr>,
              newMapCheckpoints := newMapCheckpoints st
                @ [(int (length (newMapCheckpoints st)),
                    \<lparr> cpX1 = 1, cpY1 = 2, cpX2 = 4, cpY2 = 6 \<rparr>)] \<rparr>)"
proof -
  have "placeCheckpoint gateObject st =
     Next (st\<lparr> foundObjects := True, glob := (glob st)\<lparr> hasMapObjects := True \<rparr>,
              newMapCheckpoints := newMapCheckpoints st
                @ [(int (length (newMapCheckpoints st)),
                    \<lparr> cpX1 = 1, cpY1 = 2, cpX2 = 4, cpY2 = 6 \<rparr>)] \<rparr>)"
    by (simp add: placeCheckpoint_def gateObject_def member_def numOr_def orOutside_def Let_def)
  moreover have "gateObject \<noteq> JNull" "member gateObject ''gid'' = None"
    by (simp_all add: gateObject_def member_def)
  ultimately show ?thesis
    by (simp add: processObject_def object_names place_checkpoint)
qed

lemma layer_names:
  "lowerOr (Some (JStr ''objects'')) = Done ''objects''"
  "lowerOr (Some (JStr ''track'')) = Done ''track''"
  "lowerOr (Some (JStr ''obstacle'')) = Done ''obstacle''"
  "lowerOr (Some (JStr ''car'')) = Done ''car''"
  "lowerOr (Some (JStr ''checkpoint'')) = Done ''checkpoint''"
  "lowerOr (Some (JStr ''track_path'')) = Done ''track_path''"
  by (simp_all add: lowerOr_def toLowerCase_def lowerChar_def)

lemma cone_layer:
  assumes "newMapCheckpoints st = []"
  shows "processObjectGroup meta imgs coneLayer st =
     Next (st\<lparr> foundObjects := True, newObstacles := [Circle 10 10 18],
              glob := (glob st)\<lparr> hasMapObjects := True, obstacles := [Circle 10 10 18],
                        hasMapObstacles := True, currentCheckpoint := 0,
                        lastCheckpointIndex := - 1 \<rparr> \<rparr>)"
proof -
  have m: "member coneLayer ''name'' = Some (JStr ''objects'')"
    "arrayOf (member coneLayer ''objects'') = [coneObject]"
    by (simp_all add: coneLayer_def member_def arrayOf_def)
  have f: "findTrackPath [coneObject] = Done None"
    by (simp add: coneObject_def member_def layer_names)
  show ?thesis
    by (simp add: processObjectGroup_def m f layer_names process_cone publishObjects_def assms
        Let_def del: findTrackPath.simps)
qed

lemma broken_begin:
  "beginLoad demoEnv brokenMap initialGame
     = Next (initialGame\<lparr> raceLaps := 5, tiledMapWidth := 2, tiledMapHeight := 1,
               worldWidth := 64, worldHeight := 32 \<rparr>)"
  by (simp add: beginLoad_def brokenMap_def fiveLaps_def member_def arrayOf_def lapsFrom_def
      storeSizes_def intOr_def orOutside_def)
    (simp add: initialGame_def)

lemma payload_layer:
  "payloadLayer p w \<noteq> JNull"
  "member (payloadLayer p w) ''type'' = Some (JStr ''tilelayer'')"
  "member (payloadLayer p w) ''data'' = Some (JStr p)"
  "member (payloadLayer p w) ''encoding'' = Some (JStr ''base64'')"
  "member (payloadLayer p w) ''compression'' = None"
  "member (payloadLayer p w) ''name'' = Some (JStr ''road'')"
  "member (payloadLayer p w) ''width'' = Some (JNum w)"
  "member (payloadLayer p w) ''height'' = Some (JNum 1)"
  "member (payloadLayer p w) ''opacity'' = None"
  "member (payloadLayer p w) ''visible'' = None"
  by (simp_all add: payloadLayer_def member_def)

lemma broken_decode: "decodeLayerData demoEnv (payloadLayer ''!!!'' 2) = Raised"
  by (simp add: decodeLayerData_def payload_layer demoEnv_def)

lemma small_decode: "decodeLayerData demoEnv (payloadLayer ''AQAAAA=='' 1) = Done (Some [1])"
  by (simp add: decodeLayerData_def payload_layer demoEnv_def)

lemma cone_layer_type:
  "coneLayer \<noteq> JNull" "member coneLayer ''type'' = Some (JStr ''objectgroup'')"
  by (simp_all add: coneLayer_def member_def)

lemma broken_load:
  "loadTiledMap demoEnv (Document brokenMap) initialGame = Some (Abandoned, brokenGame)"
proof -
  have l: "arrayOf (member brokenMap ''layers'') = [coneLayer, payloadLayer ''!!!'' 2]"
    by (simp add: brokenMap_def member_def arrayOf_def)
  show ?thesis
    by (simp add: loadTiledMap_def broken_begin l cone_layer_type cone_layer payload_layer
        broken_decode brokenGame_def)
      (simp add: initialGame_def)
qed

lemma small_begin:
  "beginLoad demoEnv smallMap initialGame
     = Next (initialGame\<lparr> raceLaps := 5, tiledMapWidth := 1, tiledMapHeight := 1,
               worldWidth := 32, worldHeight := 32 \<rparr>)"
  by (simp add: beginLoad_def smallMap_def fiveLaps_def member_def arrayOf_def lapsFrom_def
      storeSizes_def intOr_def orOutside_def)
    (simp add: initialGame_def)

lemma small_load:
  "loadTiledMap demoEnv (Document smallMap) initialGame = Some (Completed, smallGame)"
proof -
  have l: "arrayOf (member smallMap ''layers'') = [coneLayer, payloadLayer ''AQAAAA=='' 1]"
    by (simp add: smallMap_def member_def arrayOf_def)
  have t: "tileLayerOf (payloadLayer ''AQAAAA=='' 1) [1]
      = Some \<lparr> layerName = JStr ''road'', layerData = [1], layerWidth = 1, layerHeight = 1,
           opacity = 1, visible = True \<rparr>"
    by (simp add: tileLayerOf_def payload_layer intOr_def orJson_def numberOr_def)
  show ?thesis
    by (simp add: loadTiledMap_def small_begin l cone_layer_type cone_layer payload_layer
        small_decode t finishLoad_def lower_names smallGame_def Let_def)
      (simp add: initialGame_def)
qed

lemma half_begin:
  "beginLoad demoEnv halfMap midRace
     = Next (midRace\<lparr> raceLaps := 5,
               tiledTilesetMeta :=
                 [\<lparr> firstgid = 1, tsName = ''road'', tsImage = JNull, imagewidth = 0,
                    imageheight = 0, tilewidth = 64, tileheight = 48, spacing = 0, margin = 0,
                    columns = 0, tilecount = 0 \<rparr>],
               tiledMapTileWidth := 64, tiledMapTileHeight := 48,
               tiledMapWidth := 2, tiledMapHeight := 1, worldWidth := 128,
               worldHeight := 48 \<rparr>)"
proof -
  have m: "halfMap \<noteq> JNull"
    "arrayOf (member halfMap ''properties'') = [fiveLaps]"
    "arrayOf (member halfMap ''tilesets'') = [JObj [(''firstgid'', JNum 1), (''name'', JStr ''road'')]]"
    "member halfMap ''tilewidth'' = Some (JNum 64)"
    "member halfMap ''tileheight'' = Some (JNum 48)"
    "member halfMap ''width'' = Some (JNum 2)" "member halfMap ''height'' = Some (JNum 1)"
    by (simp_all add: halfMap_def member_def arrayOf_def)
  have ts: "member (JObj [(''firstgid'', JNum 1), (''name'', JStr ''road'')]) k =
      (if k = ''name'' then Some (JStr ''road'')
       else if k = ''firstgid'' then Some (JNum 1) else None)" for k
    by (simp add: member_def)
  have t: "tilesetMetaOf halfMap (JObj [(''firstgid'', JNum 1), (''name'', JStr ''road'')])
     = Done \<lparr> firstgid = 1, tsName = ''road'', tsImage = JNull, imagewidth = 0,
              imageheight = 0, tilewidth = 64, tileheight = 48, spacing = 0, margin = 0,
              columns = 0, tilecount = 0 \<rparr>"
    by (simp add: tilesetMetaOf_def m ts intOr_def strOr_def orJson_def inModel_def)
  have f: "findNamed [fiveLaps] ''laps'' = Done (Some fiveLaps)"
    "lapsFrom (Some fiveLaps) n = 5" for n
    by (simp_all add: fiveLaps_def member_def lapsFrom_def)
  show ?thesis
    by (simp add: beginLoad_def m t f resolveTilesetImagePath_def storeSizes_def intOr_def
        orOutside_def del: findNamed.simps)
      (simp add: midRace_def initialGame_def)
qed

lemma track_layer:
  "processObjectGroup meta imgs trackLayer st =
     Next (st\<lparr> glob := (glob st)\<lparr> trackPath := [\<lparr> px = 0, py = 0 \<rparr>, \<lparr> px = 100, py = 0 \<rparr>],
                                     trackWidth := 80 \<rparr>,
              newObstacles := [], foundObjects := False \<rparr>)"
proof -
  define tobj where "tobj = JObj [(''name'', JStr ''track_path''),
               (''polyline'', JArr [JObj [(''x'', JNum 0), (''y'', JNum 0)],
                                    JObj [(''x'', JNum 100), (''y'', JNum 0)]]),
               (''properties'', JArr [JObj [(''name'', JStr ''trackWidth''),
                                            (''value'', JNum 80)]])]"
  have m: "member trackLayer ''name'' = Some (JStr ''track'')"
    "arrayOf (member trackLayer ''objects'') = [tobj]"
    by (simp_all add: trackLayer_def member_def arrayOf_def tobj_def)
  have o: "tobj \<noteq> JNull" "member tobj ''name'' = Some (JStr ''track_path'')"
    "member tobj ''type'' = None" "member tobj ''gid'' = None"
    "member tobj ''x'' = None" "member tobj ''y'' = None"
    "member tobj ''polyline'' = Some (JArr [JObj [(''x'', JNum 0), (''y'', JNum 0)],
                                    JObj [(''x'', JNum 100), (''y'', JNum 0)]])"
    "member tobj ''properties'' = Some (JArr [JObj [(''name'', JStr ''trackWidth''),
                                            (''value'', JNum 80)]])"
    by (simp_all add: tobj_def member_def)
  have f: "findTrackPath [tobj] = Done (Some tobj)"
    by (simp add: o layer_names)
  have p: "pathPoints 0 0 [JObj [(''x'', JNum 0), (''y'', JNum 0)],
                           JObj [(''x'', JNum 100), (''y'', JNum 0)]]
           = Done [\<lparr> px = 0, py = 0 \<rparr>, \<lparr> px = 100, py = 0 \<rparr>]"
    by (simp add: pointOf_def member_def)
  have pr: "member (JObj [(''name'', JStr ''trackWidth''), (''value'', JNum 80)]) ''name''
                = Some (JStr ''trackWidth'')"
    "member (JObj [(''name'', JStr ''trackWidth''), (''value'', JNum 80)]) ''value''
                = Some (JNum 80)"
    by (simp_all add: member_def)
  have w: "getObjectProperty tobj ''trackWidth'' = Done (Some (JNum 80))"
    by (simp add: getObjectProperty_def o pr)
  have r: "readTrackPath tobj g =
      Next (g\<lparr> trackPath := [\<lparr> px = 0, py = 0 \<rparr>, \<lparr> px = 100, py = 0 \<rparr>], trackWidth := 80 \<rparr>)"
    for g
    by (simp add: readTrackPath_def o numOr_def p w del: pathPoints.simps)
  have n: "objectName tobj = Done ''track_path''"
    by (simp add: objectName_def o layer_names)
  have po: "processObject meta imgs tobj s = Next s" for s
    by (simp add: processObject_def o n place_track_path)
  show ?thesis
    by (simp add: processObjectGroup_def m f layer_names r po publishObjects_def
        del: findTrackPath.simps)
qed

lemma objects_layer:
  assumes "newMapCheckpoints st = []"
  shows "processObjectGroup meta imgs objectsLayer st =
     Next (st\<lparr> foundObjects := True, newObstacles := [Circle 10 10 18],
              newMapCheckpoints := [(0, \<lparr> cpX1 = 1, cpY1 = 2, cpX2 = 4, cpY2 = 6 \<rparr>)],
              glob := (glob st)\<lparr> hasMapObjects := True,
                        car := (car (glob st))\<lparr> posX := 50, posY := 60,
                                                 angle := degToRad 90 \<rparr>,
                        startSpawn := \<lparr> poseX = 50, poseY = 60,
                                        poseAngle = degToRad 90 \<rparr>,
                        obstacles := [Circle 10 10 18], hasMapObstacles := True,
                        checkpoints := [\<lparr> cpX1 = 1, cpY1 = 2, cpX2 = 4, cpY2 = 6 \<rparr>],
                        hasMapCheckpoints := True, currentCheckpoint := 0,
                        lastCheckpointIndex := - 1 \<rparr> \<rparr>)"
proof -
  have m: "member objectsLayer ''name'' = Some (JStr ''objects'')"
    "arrayOf (member objectsLayer ''objects'') = [carObject, coneObject, gateObject]"
    by (simp_all add: objectsLayer_def member_def arrayOf_def)
  have f: "findTrackPath [carObject, coneObject, gateObject] = Done None"
    by (simp add: carObject_def coneObject_def gateObject_def member_def layer_names)
  show ?thesis
    by (simp add: processObjectGroup_def m f layer_names process_car process_cone process_gate
        publishObjects_def assms Let_def del: findTrackPath.simps)
qed

lemma layer_types:
  "trackLayer \<noteq> JNull" "member trackLayer ''type'' = Some (JStr ''objectgroup'')"
  "objectsLayer \<noteq> JNull" "member objectsLayer ''type'' = Some (JStr ''objectgroup'')"
  by (simp_all add: trackLayer_def objectsLayer_def member_def)

lemma half_load:
  "loadTiledMap demoEnv (Document halfMap) midRace = Some (Abandoned, halfGame)"
proof -
  have l: "arrayOf (member halfMap ''layers'') = [trackLayer, objectsLayer, JNull]"
    by (simp add: halfMap_def member_def arrayOf_def)
  show ?thesis
    by (simp add: loadTiledMap_def half_begin l layer_types track_layer objects_layer halfGame_def)
      (simp add: midRace_def initialGame_def)
qed

lemma numbered_begin:
  "beginLoad imageEnv numberedMap initialGame
     = Next (initialGame\<lparr>
         tiledTilesetMeta :=
           [\<lparr> firstgid = 1, tsName = ''tiles'', tsImage = JStr ''tiles.png'', imagewidth = 64,
              imageheight = 0, tilewidth = 32, tileheight = 32, spacing = 0, margin = 0,
              columns = 0, tilecount = 0 \<rparr>],
         tiledTilesetImages := [1 \<mapsto> ''tiles.png''] \<rparr>)"
proof -
  define ts where "ts = JObj [(''firstgid'', JNum 1), (''name'', JStr ''tiles''),
               (''image'', JStr ''tiles.png''), (''imagewidth'', JNum 64)]"
  have m: "numberedMap \<noteq> JNull"
    "arrayOf (member numberedMap ''properties'') = []"
    "arrayOf (member numberedMap ''tilesets'') = [ts]"
    "member numberedMap ''tilewidth'' = None" "member numberedMap ''tileheight'' = None"
    "member numberedMap ''width'' = None" "member numberedMap ''height'' = None"
    by (simp_all add: numberedMap_def member_def arrayOf_def ts_def)
  have tsm: "member ts k =
      (if k = ''imagewidth'' then Some (JNum 64)
       else if k = ''image'' then Some (JStr ''tiles.png'')
       else if k = ''name'' then Some (JStr ''tiles'')
       else if k = ''firstgid'' then Some (JNum 1) else None)" for k
    by (simp add: member_def ts_def)
  have "ts \<noteq> JNull" by (simp add: ts_def)
  then have t: "tilesetMetaOf numberedMap ts
     = Done \<lparr> firstgid = 1, tsName = ''tiles'', tsImage = JStr ''tiles.png'', imagewidth = 64,
              imageheight = 0, tilewidth = 32, tileheight = 32, spacing = 0, margin = 0,
              columns = 0, tilecount = 0 \<rparr>"
    by (simp add: tilesetMetaOf_def m tsm intOr_def strOr_def orJson_def inModel_def)
  have r: "resolveTilesetImagePath (JStr ''tiles.png'') = Done (Some ''tiles.png'')"
    by (simp add: resolveTilesetImagePath_def)
  show ?thesis
    by (simp add: beginLoad_def m t r lapsFrom_def imageEnv_def storeSizes_def intOr_def
        orOutside_def)
      (simp add: initialGame_def)
qed

lemma numbered_tile:
  "processObject
      [\<lparr> firstgid = 1, tsName = ''tiles'', tsImage = JStr ''tiles.png'', imagewidth = 64,
          imageheight = 0, tilewidth = 32, tileheight = 32, spacing = 0, margin = 0,
          columns = 0, tilecount = 0 \<rparr>]
      [1 \<mapsto> ''tiles.png''] (JObj [(''gid'', JNum 1), (''x'', JNum 5), (''y'', JNum 6)]) st
   = Next (st\<lparr> newTiles := newTiles st @
        [\<lparr> tileImg = ''tiles.png'', tileSx = 0, tileSy = 0, tileSw = 32, tileSh = 32,
           tileX = 5, tileY = 6, tileW = 32, tileH = 32, tileRotation = 0,
           tileFlipH = False, tileFlipV = False, tileFlipD = False \<rparr>] \<rparr>)"
proof -
  have o: "member (JObj [(''gid'', JNum 1), (''x'', JNum 5), (''y'', JNum 6)]) k =
      (if k = ''y'' then Some (JNum 6) else if k = ''x'' then Some (JNum 5)
       else if k = ''gid'' then Some (JNum 1) else None)" for k
    by (simp add: member_def)
  show ?thesis
    by (simp add: processObject_def o tileOfObject_def toInt32_def FLIP_H_def FLIP_V_def
        FLIP_D_def orInt_def jsRem_def numOr_def numberOr_def Let_def)
qed

lemma numbered_load:
  "loadTiledMap imageEnv (Document numberedMap) initialGame = Some (Abandoned, numberedGame)"
proof -
  define decor where "decor = JObj [(''type'', JStr ''objectgroup''), (''name'', JStr ''decor''),
               (''objects'', JArr [JObj [(''gid'', JNum 1), (''x'', JNum 5), (''y'', JNum 6)]])]"
  define five where "five = JObj [(''type'', JStr ''tilelayer''), (''name'', JNum 5),
               (''data'', JArr [JNum 1]), (''width'', JNum 1), (''height'', JNum 1)]"
  have l: "arrayOf (member numberedMap ''layers'') = [decor, five]"
    by (simp add: numberedMap_def member_def arrayOf_def decor_def five_def)
  have d: "decor \<noteq> JNull" "member decor ''type'' = Some (JStr ''objectgroup'')"
    "member decor ''name'' = Some (JStr ''decor'')"
    "arrayOf (member decor ''objects'') = [JObj [(''gid'', JNum 1), (''x'', JNum 5), (''y'', JNum 6)]]"
    by (simp_all add: decor_def member_def arrayOf_def)
  have n: "lowerOr (Some (JStr ''decor'')) = Done ''decor''"
    by (simp add: lowerOr_def toLowerCase_def lowerChar_def)
  have f: "findTrackPath [JObj [(''gid'', JNum 1), (''x'', JNum 5), (''y'', JNum 6)]] = Done None"
    by (simp add: member_def lowerOr_def)
  have g: "processObjectGroup
      [\<lparr> firstgid = 1, tsName = ''tiles'', tsImage = JStr ''tiles.png'', imagewidth = 64,
          imageheight = 0, tilewidth = 32, tileheight = 32, spacing = 0, margin = 0,
          columns = 0, tilecount = 0 \<rparr>]
      [1 \<mapsto> ''tiles.png''] decor st
    = Next (st\<lparr> newObstacles := [], foundObjects := False, newTiles := newTiles st @
        [\<lparr> tileImg = ''tiles.png'', tileSx = 0, tileSy = 0, tileSw = 32, tileSh = 32,
           tileX = 5, tileY = 6, tileW = 32, tileH = 32, tileRotation = 0,
           tileFlipH = False, tileFlipV = False, tileFlipD = False \<rparr>] \<rparr>)" for st
    by (simp add: processObjectGroup_def d n f numbered_tile publishObjects_def
        del: findTrackPath.simps)
  have fv: "five \<noteq> JNull" "member five ''type'' = Some (JStr ''tilelayer'')"
    "decodeLayerData imageEnv five = Done (Some [1])"
    "tileLayerOf five [1] = Some \<lparr> layerName = JNum 5, layerData = [1], layerWidth = 1,
        layerHeight = 1, opacity = 1, visible = True \<rparr>"
    by (simp_all add: five_def member_def decodeLayerData_def cellOf_def tileLayerOf_def
        intOr_def orJson_def numberOr_def)
  show ?thesis
    by (simp add: loadTiledMap_def numbered_begin l d g fv finishLoad_def lowerOr_def
        numberedGame_def Let_def)
qed

lemma numbered_raised: "layersNamed ''road'' (tiledTileLayers numberedGame) = Raised"
  by (simp add: numberedGame_def lowerOr_def)

lemma initial_late:
  "lateKept initialGame brokenGame" "lateKept initialGame numberedGame"
  "tiledTileLayers brokenGame = tiledTileLayers initialGame"
  "tiledTrackTiles brokenGame = tiledTrackTiles initialGame"
  by (simp_all add: lateKept_def brokenGame_def numberedGame_def)

lemma small_layers:
  "arrayOf (member smallMap ''layers'') = [coneLayer, payloadLayer ''AQAAAA=='' 1]"
  by (simp add: smallMap_def member_def arrayOf_def)


text \<open>
  C1, for a response that is not ok, for the document \<open>null\<close>, for a map whose tile
  layer is not base64 (abandoned in the loop over the layers), for a map with a tile layer
  named 5 (abandoned by the filter, with the tile layers replaced), and for a map that
  loads completely.
\<close>

theorem load_abandoned_keeps_witness:
  "loadTiledMap demoEnv NotOk initialGame = Some (Abandoned, initialGame)
   \<and> loadTiledMap demoEnv (Document JNull) initialGame = Some (Abandoned, initialGame)
   \<and> loadTiledMap demoEnv (Document brokenMap) initialGame = Some (Abandoned, brokenGame)
   \<and> lateKept initialGame brokenGame
   \<and> tiledTileLayers brokenGame = tiledTileLayers initialGame
   \<and> tiledTrackTiles brokenGame = tiledTrackTiles initialGame
   \<and> loadTiledMap imageEnv (Document numberedMap) initialGame = Some (Abandoned, numberedGame)
   \<and> lateKept initialGame numberedGame
   \<and> tiledTileLayers numberedGame \<noteq> tiledTileLayers initialGame
   \<and> layersNamed ''road'' (tiledTileLayers numberedGame) = Raised
   \<and> loadTiledMap demoEnv (Document smallMap) initialGame = Some (Completed, smallGame)
   \<and> layersNamed ''road'' (tiledTileLayers smallGame) = Done (tiledRoadLayers smallGame)
   \<and> layersNamed ''ground'' (tiledTileLayers smallGame) = Done (tiledGroundLayers smallGame)
   \<and> payloadLayer ''AQAAAA=='' 1 \<in> set (arrayOf (member smallMap ''layers''))
   \<and> member (payloadLayer ''AQAAAA=='' 1) ''type'' = Some (JStr ''tilelayer'')
   \<and> decodeLayerData demoEnv (payloadLayer ''AQAAAA=='' 1) \<noteq> Raised"
  using load_abandoned_keeps [where r = NotOk and e = demoEnv and g = initialGame]
    load_abandoned_keeps [where r = "Document brokenMap" and e = demoEnv and g = initialGame
      and g' = brokenGame]
    load_abandoned_keeps [where r = "Document numberedMap" and e = imageEnv and g = initialGame
      and g' = numberedGame]
    load_abandoned_keeps [where r = "Document smallMap" and e = demoEnv and g = initialGame
      and g' = smallGame]
  by (simp add: broken_load numbered_load small_load null_load initial_late small_layers
      payload_layer)
    (simp add: numberedGame_def initialGame_def)


text \<open>
  C1, the claim as stated fails. The map \<open>halfMap\<close> has \<open>null\<close> in the place of its
  third layer; the load is abandoned there, and it leaves the lap count, the tileset, the
  tile, map and world size, the track path and width, the position and heading of the
  car, the start spawn, the obstacles, the checkpoints, the checkpoint progress and the
  three flags of the new map. The map \<open>numberedMap\<close> has a tile layer named 5; the load
  is abandoned by the filter of the tile layers, and it leaves the tileset image, the tile
  layers and the track tiles of the new map next to the road layers of the old one.
\<close>

theorem load_half_applied_counterexample:
  "loadTiledMap demoEnv (Document halfMap) midRace = Some (Abandoned, halfGame)
   \<and> raceLaps midRace = 3 \<and> raceLaps halfGame = 5
   \<and> tiledTilesetMeta midRace = [] \<and> length (tiledTilesetMeta halfGame) = 1
   \<and> tiledMapTileWidth midRace = 32 \<and> tiledMapTileWidth halfGame = 64
   \<and> tiledMapTileHeight midRace = 32 \<and> tiledMapTileHeight halfGame = 48
   \<and> tiledMapWidth midRace = 0 \<and> tiledMapWidth halfGame = 2
   \<and> tiledMapHeight midRace = 0 \<and> tiledMapHeight halfGame = 1
   \<and> worldWidth midRace = 1280 \<and> worldWidth halfGame = 128
   \<and> worldHeight midRace = 720 \<and> worldHeight halfGame = 48
   \<and> length (trackPath midRace) = 10
   \<and> trackPath halfGame = [\<lparr> px = 0, py = 0 \<rparr>, \<lparr> px = 100, py = 0 \<rparr>]
   \<and> trackWidth midRace = 110 \<and> trackWidth halfGame = 80
   \<and> posX (car midRace) = 320 \<and> posX (car halfGame) = 50
   \<and> posY (car midRace) = 360 \<and> posY (car halfGame) = 60
   \<and> angle (car midRace) = 0 \<and> angle (car halfGame) = pi / 2
   \<and> startSpawn midRace = \<lparr> poseX = 320, poseY = 360, poseAngle = 0 \<rparr>
   \<and> startSpawn halfGame = \<lparr> poseX = 50, poseY = 60, poseAngle = pi / 2 \<rparr>
   \<and> length (obstacles midRace) = 4 \<and> obstacles halfGame = [Circle 10 10 18]
   \<and> length (checkpoints midRace) = 4
   \<and> checkpoints halfGame = [\<lparr> cpX1 = 1, cpY1 = 2, cpX2 = 4, cpY2 = 6 \<rparr>]
   \<and> currentCheckpoint midRace = 2 \<and> currentCheckpoint halfGame = 0
   \<and> lastCheckpointIndex midRace = 1 \<and> lastCheckpointIndex halfGame = - 1
   \<and> \<not> hasMapObjects midRace \<and> hasMapObjects halfGame
   \<and> \<not> hasMapObstacles midRace \<and> hasMapObstacles halfGame
   \<and> \<not> hasMapCheckpoints midRace \<and> hasMapCheckpoints halfGame
   \<and> loadTiledMap imageEnv (Document numberedMap) initialGame = Some (Abandoned, numberedGame)
   \<and> tiledTilesetImages initialGame 1 = None
   \<and> tiledTilesetImages numberedGame 1 = Some ''tiles.png''
   \<and> tiledTileLayers initialGame = [] \<and> length (tiledTileLayers numberedGame) = 1
   \<and> tiledTrackTiles initialGame = [] \<and> length (tiledTrackTiles numberedGame) = 1
   \<and> tiledRoadLayers numberedGame = []"
  by (simp add: half_load numbered_load)
    (simp add: halfGame_def midRace_def numberedGame_def initialGame_def degToRad_def)

end
